theory Spec2Isabelle
  imports Complex_Main "HOL-Library.Multiset" "HOL-Library.Monad_Syntax"
begin

section \<open>Variables, expressions, constraints and the model tree\<close>

text \<open>
  An instance path is the list of (type tag, instance number) pairs from the root of the
  tree down to the instance, as in the solution keys the script reads
  (\<^verbatim>\<open>W_SimpleOnDemandAircraft/Battery\<close>).
\<close>

type_synonym path = "(string \<times> nat) list"

text \<open>
  \<^verbatim>\<open>Variable(name, [value,] units, description)\<close>: a named quantity owned by the model
  instance whose \<^verbatim>\<open>setup\<close> creates it. A value is the magnitude in the declared units;
  \<open>None\<close> is a free (decision) variable.
\<close>

record var =
  owner :: path
  symbol :: string
  val :: "real option"
  units :: string
  descr :: string

definition Variable :: "path \<Rightarrow> string \<Rightarrow> real option \<Rightarrow> string \<Rightarrow> string \<Rightarrow> var" where
  "Variable p name v u d = \<lparr>owner = p, symbol = name, val = v, units = u, descr = d\<rparr>"

text \<open>The qualified name of a Variable: owner path and local symbol.\<close>

definition qualified_name :: "var \<Rightarrow> path \<times> string" where
  "qualified_name v = (owner v, symbol v)"

text \<open>
  The expressions the arithmetic operators of the script build (\<^verbatim>\<open>+ * / **\<close>, all
  left-associative as in Python) and the three relations \<^verbatim>\<open>== <= >=\<close>.
\<close>

datatype expr =
    Num real
  | Var var
  | Add expr expr
  | Mul expr expr
  | Div expr expr
  | Pow expr real

datatype constraint =
    Eq expr expr
  | Leq expr expr
  | Geq expr expr

text \<open>
  What \<^verbatim>\<open>setup\<close> returns is a list whose elements are constraints, sub-models, or
  lists of these (\<^verbatim>\<open>constraints += [self.components]\<close>).
\<close>

datatype item = Constr constraint | Sub model | Lst "item list"
and model = Model (mtype: string) (mpath: path) (declared: "var list") (items: "item list")

text \<open>Python's \<^verbatim>\<open>sum(xs)\<close> starts from 0 and adds from the left.\<close>

definition py_sum :: "expr list \<Rightarrow> expr" where
  "py_sum es = foldl Add (Num 0) es"

text \<open>The addends of a sum written with \<^verbatim>\<open>+\<close>, left to right.\<close>

fun addends :: "expr \<Rightarrow> expr list" where
  "addends (Add a b) = addends a @ addends b"
| "addends e = [e]"

text \<open>The meaning of an expression and of a constraint under a valuation of the Variables.\<close>

fun eval :: "(var \<Rightarrow> real) \<Rightarrow> expr \<Rightarrow> real" where
  "eval \<rho> (Num x) = x"
| "eval \<rho> (Var v) = \<rho> v"
| "eval \<rho> (Add a b) = eval \<rho> a + eval \<rho> b"
| "eval \<rho> (Mul a b) = eval \<rho> a * eval \<rho> b"
| "eval \<rho> (Div a b) = eval \<rho> a / eval \<rho> b"
| "eval \<rho> (Pow a x) = eval \<rho> a powr x"

fun holds :: "(var \<Rightarrow> real) \<Rightarrow> constraint \<Rightarrow> bool" where
  "holds \<rho> (Eq a b) = (eval \<rho> a = eval \<rho> b)"
| "holds \<rho> (Leq a b) = (eval \<rho> a \<le> eval \<rho> b)"
| "holds \<rho> (Geq a b) = (eval \<rho> a \<ge> eval \<rho> b)"

text \<open>A valuation agrees with a Variable when it gives a fixed Variable its value.\<close>

definition agrees :: "(var \<Rightarrow> real) \<Rightarrow> var \<Rightarrow> bool" where
  "agrees \<rho> v = (case val v of None \<Rightarrow> True | Some x \<Rightarrow> \<rho> v = x)"

fun vars_of :: "expr \<Rightarrow> var list" where
  "vars_of (Num x) = []"
| "vars_of (Var v) = [v]"
| "vars_of (Add a b) = vars_of a @ vars_of b"
| "vars_of (Mul a b) = vars_of a @ vars_of b"
| "vars_of (Div a b) = vars_of a @ vars_of b"
| "vars_of (Pow a x) = vars_of a"

fun lhs :: "constraint \<Rightarrow> expr" where
  "lhs (Eq a b) = a"
| "lhs (Leq a b) = a"
| "lhs (Geq a b) = a"

fun rhs :: "constraint \<Rightarrow> expr" where
  "rhs (Eq a b) = b"
| "rhs (Leq a b) = b"
| "rhs (Geq a b) = b"

definition cvars :: "constraint \<Rightarrow> var list" where
  "cvars c = vars_of (lhs c) @ vars_of (rhs c)"

section \<open>The composition engine\<close>

datatype error =
    DuplicateSymbolError
  | UnresolvedVariableError
  | AmbiguousVariableError
  | SubstitutionTargetError

subsection \<open>Declaring Variables\<close>

text \<open>
  Modelled from the spec: the Variable constructor of the modelling library is not part of
  the sources. \<^verbatim>\<open>declare(owner_path, symbol, unit, description, value=None)\<close> adds a Variable
  to the registry of declared Variables and fails with \<open>DuplicateSymbolError\<close> if the
  symbol already exists under the owner path. The \<^verbatim>\<open>setup\<close> functions below build their
  Variables with \<open>Variable\<close> as the script writes them, one call per Variable and no
  check; what the contract of the spec makes of their declarations is a separate question,
  asked with \<open>declare_all\<close>.
\<close>

definition declare_var ::
  "var list \<Rightarrow> path \<Rightarrow> string \<Rightarrow> string \<Rightarrow> string \<Rightarrow> real option \<Rightarrow> error + (var \<times> var list)" where
  "declare_var registry owner_path name unit description v =
     (if (owner_path, name) \<in> set (map qualified_name registry) then Inl DuplicateSymbolError
      else (let x = Variable owner_path name v unit description in Inr (x, registry @ [x])))"

text \<open>
  Modelled from the spec: a build step declares its Variables one after the other and
  aborts at the first error.
\<close>

fun declare_all :: "var list \<Rightarrow> var list \<Rightarrow> error + var list" where
  "declare_all registry [] = Inr registry"
| "declare_all registry (x # xs) =
     (case declare_var registry (owner x) (symbol x) (units x) (descr x) (val x) of
        Inl e \<Rightarrow> Inl e
      | Inr (y, registry') \<Rightarrow> declare_all registry' xs)"

subsection \<open>Cross-model lookup\<close>

text \<open>
  Modelled from the spec: \<^verbatim>\<open>resolve(from_model, symbol)\<close>, the lookup the script calls
  \<^verbatim>\<open>topvar\<close>, is not part of the sources. It checks (a) the model's own declared
  Variables, then (b) the declared Variables of the objects the model was constructed with
  a reference to, and (c) fails with \<open>UnresolvedVariableError\<close> when there is no match
  and with \<open>AmbiguousVariableError\<close> when there are several; the caller may
  disambiguate by owner path.
\<close>

definition candidates :: "string \<Rightarrow> path option \<Rightarrow> model \<Rightarrow> var list" where
  "candidates name by_owner m =
     filter (\<lambda>v. symbol v = name \<and> (case by_owner of None \<Rightarrow> True | Some p \<Rightarrow> owner v = p))
       (declared m)"

definition matches :: "model \<Rightarrow> model list \<Rightarrow> string \<Rightarrow> path option \<Rightarrow> var list" where
  "matches from_model refs name by_owner =
     (let own = candidates name by_owner from_model
      in remdups (if own \<noteq> [] then own
                  else concat (map (candidates name by_owner) refs)))"

definition resolve :: "model \<Rightarrow> model list \<Rightarrow> string \<Rightarrow> path option \<Rightarrow> error + var" where
  "resolve from_model refs name by_owner =
     (case matches from_model refs name by_owner of
        [] \<Rightarrow> Inl UnresolvedVariableError
      | [v] \<Rightarrow> Inr v
      | _ \<Rightarrow> Inl AmbiguousVariableError)"

text \<open>
  \<^verbatim>\<open>model.topvar(name)\<close> as the script uses it: a lookup among the Variables the model
  itself declares, with no further references; an error aborts the build (\<open>None\<close>).
\<close>

definition topvar :: "model \<Rightarrow> string \<Rightarrow> var option" where
  "topvar m name = (case resolve m [] name None of Inl e \<Rightarrow> None | Inr v \<Rightarrow> Some v)"

subsection \<open>Flattening\<close>

text \<open>The constraints a model lists itself, and its child models, in the listed order.\<close>

fun own_constraints :: "item list \<Rightarrow> constraint list" where
  "own_constraints [] = []"
| "own_constraints (Constr c # its) = c # own_constraints its"
| "own_constraints (Sub m # its) = own_constraints its"
| "own_constraints (Lst xs # its) = own_constraints xs @ own_constraints its"

fun children :: "item list \<Rightarrow> model list" where
  "children [] = []"
| "children (Constr c # its) = children its"
| "children (Sub m # its) = m # children its"
| "children (Lst xs # its) = children xs @ children its"

text \<open>
  Modelled from the spec: the Composer is not part of the sources. A parent's constraint
  list is the concatenation of its own constraints with the flattened constraint lists of
  every child, in child-declaration order.
\<close>

function flatten :: "model \<Rightarrow> constraint list" where
  "flatten (Model ty p vs its) = own_constraints its @ concat (map flatten (children its))"
  by pat_completeness auto
termination
proof (relation "measure size")
  show "wf (measure (size :: model \<Rightarrow> nat))" by simp
next
  fix ty :: string and p :: path and vs :: "var list" and its :: "item list" and x :: model
  assume x: "x \<in> set (children its)"
  have "\<And>m. m \<in> set (children xs) \<Longrightarrow> size m < Suc (size_list size xs)" for xs
    by (induction xs rule: children.induct) fastforce+
  with x show "(x, Model ty p vs its) \<in> measure size" by fastforce
qed

text \<open>The same constraints in the order in which \<^verbatim>\<open>setup\<close> lists them, depth first.\<close>

fun flatten_listed :: "model \<Rightarrow> constraint list"
and flatten_item :: "item \<Rightarrow> constraint list" where
  "flatten_listed (Model ty p vs its) = concat (map flatten_item its)"
| "flatten_item (Constr c) = [c]"
| "flatten_item (Sub m) = flatten_listed m"
| "flatten_item (Lst xs) = concat (map flatten_item xs)"

text \<open>
  \<^verbatim>\<open>Model(cost, [a, b, ...])\<close>: a model with no Variables of its own that composes the
  given models.
\<close>

definition compose :: "path \<Rightarrow> model list \<Rightarrow> model" where
  "compose p ms = Model ''Model'' p [] (map Sub ms)"

text \<open>
  Modelled from the spec: the Composer walks the tree and assigns each instance its path:
  the child at position \<open>i\<close> of a node at path \<open>p\<close> gets \<open>p @ [(type tag, i)]\<close>; a
  Variable's qualified name is the path of its node and its local symbol.
\<close>

definition child_path :: "path \<Rightarrow> string \<Rightarrow> nat \<Rightarrow> path" where
  "child_path p ty i = p @ [(ty, i)]"

function node_paths :: "path \<Rightarrow> model \<Rightarrow> path list"
and node_paths_from :: "path \<Rightarrow> nat \<Rightarrow> model list \<Rightarrow> path list" where
  "node_paths p (Model ty q vs its) = p # node_paths_from p 0 (children its)"
| "node_paths_from p i [] = []"
| "node_paths_from p i (m # ms) =
     node_paths (child_path p (mtype m) i) m @ node_paths_from p (Suc i) ms"
  by pat_completeness auto
termination
proof (relation "measure (\<lambda>x. case x of Inl (p, m) \<Rightarrow> 2 * size m
                                     | Inr (p, i, ms) \<Rightarrow> Suc (2 * size_list size ms))")
  have sz: "size_list size (children xs) \<le> size_list size xs" for xs
    by (induction xs rule: children.induct) auto
  fix p :: path and ty :: string and q :: path and vs :: "var list" and its :: "item list"
  show "(Inr (p, 0, children its), Inl (p, Model ty q vs its))
          \<in> measure (\<lambda>x. case x of Inl (p, m) \<Rightarrow> 2 * size m
                                     | Inr (p, i, ms) \<Rightarrow> Suc (2 * size_list size ms))"
    using sz [of its] by simp
qed auto

function qualified_names :: "path \<Rightarrow> model \<Rightarrow> (path \<times> string) list"
and qualified_names_from :: "path \<Rightarrow> nat \<Rightarrow> model list \<Rightarrow> (path \<times> string) list" where
  "qualified_names p (Model ty q vs its) =
     map (\<lambda>v. (p, symbol v)) vs @ qualified_names_from p 0 (children its)"
| "qualified_names_from p i [] = []"
| "qualified_names_from p i (m # ms) =
     qualified_names (child_path p (mtype m) i) m @ qualified_names_from p (Suc i) ms"
  by pat_completeness auto
termination
proof (relation "measure (\<lambda>x. case x of Inl (p, m) \<Rightarrow> 2 * size m
                                     | Inr (p, i, ms) \<Rightarrow> Suc (2 * size_list size ms))")
  have sz: "size_list size (children xs) \<le> size_list size xs" for xs
    by (induction xs rule: children.induct) auto
  fix p :: path and ty :: string and q :: path and vs :: "var list" and its :: "item list"
  show "(Inr (p, 0, children its), Inl (p, Model ty q vs its))
          \<in> measure (\<lambda>x. case x of Inl (p, m) \<Rightarrow> 2 * size m
                                     | Inr (p, i, ms) \<Rightarrow> Suc (2 * size_list size ms))"
    using sz [of its] by simp
qed auto

text \<open>Every node of the tree declares each local symbol once.\<close>

function locally_unique :: "model \<Rightarrow> bool" where
  "locally_unique (Model ty q vs its) =
     (distinct (map symbol vs) \<and> list_all locally_unique (children its))"
  by pat_completeness auto
termination
proof (relation "measure size")
  show "wf (measure (size :: model \<Rightarrow> nat))" by simp
next
  fix ty :: string and q :: path and vs :: "var list" and its :: "item list" and x :: model
  assume x: "x \<in> set (children its)"
  have "\<And>m. m \<in> set (children xs) \<Longrightarrow> size m < Suc (size_list size xs)" for xs
    by (induction xs rule: children.induct) fastforce+
  with x show "(x, Model ty q vs its) \<in> measure size" by fastforce
qed

section \<open>The aircraft and its components\<close>

text \<open>
  Each \<^verbatim>\<open>setup\<close> below takes, as its first argument, the instance path of the model it
  builds; it passes \<open>child_path p type i\<close> to the \<open>i\<close>-th model it instantiates.
  Arguments with units are magnitudes in the units of the Variable they become. Where the
  script leaves an argument out, the default of the signature is written in the call.
  Objects whose attributes the script reads are records over the model.
\<close>

record obj =
  model :: model

record Battery = obj +
  bat_P_max :: var
  bat_n :: real

record BatteryPerformance = obj +
  bp_t :: var

record PowerSystem = obj +
  ps_eta :: var

record SimpleOnDemandAircraft = obj +
  ac_MTOW :: var
  ac_C_eff :: var
  ac_g :: var
  ac_L_D :: var
  ac_eta_cruise :: var
  ac_rotors :: model
  ac_battery :: Battery
  ac_crew :: model
  ac_structure :: model
  ac_powerSystem :: PowerSystem
  ac_components :: "model list"

text \<open>
  The script writes the symbols \<^verbatim>\<open>"\eta"\<close>, \<^verbatim>\<open>"\omega"\<close> and \<^verbatim>\<open>"\rho"\<close> in ordinary
  string literals: the first two keep their backslash, the third starts with a carriage
  return.
\<close>

definition eta_symbol :: string where
  "eta_symbol = CHR 0x5C # ''eta''"

definition omega_symbol :: string where
  "omega_symbol = CHR 0x5C # ''omega''"

definition rho_symbol :: string where
  "rho_symbol = CHR 0x0D # ''ho''"

definition SimpleOnDemandStructure_setup :: "path \<Rightarrow> var \<Rightarrow> real \<Rightarrow> model" where
  \<comment> \<open>the aircraft is read only through \<^verbatim>\<open>aircraft.MTOW\<close>\<close>
  "SimpleOnDemandStructure_setup p aircraft_MTOW weight_fraction =
     (let W = Variable p ''W'' None ''lbf'' ''Structural weight'';
          weight_fraction = Variable p ''weight_fraction'' (Some weight_fraction) ''-''
            ''Structural weight fraction''
      in Model ''SimpleOnDemandStructure'' p [W, weight_fraction]
           [Constr (Eq (Var W) (Mul (Var weight_fraction) (Var aircraft_MTOW)))])"

definition Rotors_setup :: "path \<Rightarrow> real \<Rightarrow> real \<Rightarrow> model" where
  "Rotors_setup p N s =
     (let R = Variable p ''R'' None ''ft'' ''Propeller radius'';
          D = Variable p ''D'' None ''ft'' ''Propeller diameter'';
          A = Variable p ''A'' None ''ft^2'' ''Area of 1 rotor disk'';
          A_total = Variable p ''A_{total}'' None ''ft^2'' ''Combined area of all rotor disks'';
          N = Variable p ''N'' (Some N) ''-'' ''Number of rotors'';
          s = Variable p ''s'' (Some s) ''-'' ''Propeller solidity'';
          W = Variable p ''W'' (Some 0) ''lbf'' ''Rotor weight''
      in Model ''Rotors'' p [R, D, A, A_total, N, s, W]
           [Constr (Eq (Var A) (Mul (Num pi) (Pow (Var R) 2))),
            Constr (Eq (Var D) (Mul (Num 2) (Var R))),
            Constr (Eq (Var N) (Var N)),
            Constr (Eq (Var s) (Var s)),
            Constr (Eq (Var A_total) (Mul (Var N) (Var A)))])"

definition Battery_setup :: "path \<Rightarrow> real \<Rightarrow> real \<Rightarrow> real \<Rightarrow> real \<Rightarrow> Battery" where
  "Battery_setup p C_m usable_energy_fraction P_m n =
     (let g = Variable p ''g'' None ''m/s**2'' ''Gravitational acceleration'';
          C = Variable p ''C'' None ''kWh'' ''Battery capacity'';
          C_eff = Variable p ''C_{eff}'' None ''kWh'' ''Effective battery capacity'';
          usable_energy_fraction = Variable p ''usable_energy_fraction''
            (Some usable_energy_fraction) ''-''
            ''Percentage of the battery energy that can be used (without damaging battery)'';
          W = Variable p ''W'' None ''lbf'' ''Battery weight'';
          m = Variable p ''m'' None ''kg'' ''Battery mass'';
          C_m = Variable p ''C_m'' (Some C_m) ''Wh/kg'' ''Battery energy density'';
          P_m = Variable p ''P_m'' (Some P_m) ''W/kg'' ''Battery power density'';
          P_max = Variable p ''P_{max}'' None ''kW'' ''Battery maximum power''
      in \<lparr>model = Model ''Battery'' p
             [g, C, C_eff, usable_energy_fraction, W, m, C_m, P_m, P_max]
             [Constr (Eq (Var C) (Mul (Var m) (Var C_m))),
              Constr (Eq (Var W) (Mul (Var m) (Var g))),
              Constr (Eq (Var C_eff) (Mul (Var usable_energy_fraction) (Var C))),
              Constr (Eq (Var P_max) (Mul (Var P_m) (Var m)))],
          bat_P_max = P_max,
          bat_n = n\<rparr>)"

definition BatteryPerformance_setup :: "path \<Rightarrow> Battery \<Rightarrow> BatteryPerformance" where
  "BatteryPerformance_setup p battery =
     (let E = Variable p ''E'' None ''kWh'' ''Electrical energy used during segment'';
          P = Variable p ''P'' None ''kW'' ''Power draw during segment'';
          t = Variable p ''t'' None ''s'' ''Time over which battery is providing power'';
          Rt = Variable p ''Rt'' (Some 1) ''hr'' ''Battery hour rating''
      in \<lparr>model = Model ''BatteryPerformance'' p [E, P, t, Rt]
             [Constr (Eq (Var E) (Mul (Mul (Var P) (Var Rt)) (Pow (Div (Var t) (Var Rt)) (1 / bat_n battery)))),
              Constr (Leq (Var P) (Var (bat_P_max battery)))],
          bp_t = t\<rparr>)"

definition Battery_performance :: "path \<Rightarrow> Battery \<Rightarrow> BatteryPerformance" where
  "Battery_performance p self = BatteryPerformance_setup p self"

definition Crew_setup :: "path \<Rightarrow> real \<Rightarrow> real \<Rightarrow> model" where
  "Crew_setup p W_oneCrew N_crew =
     (let W_oneCrew = Variable p ''W_{oneCrew}'' (Some W_oneCrew) ''lbf''
            ''Weight of 1 crew member'';
          N_crew = Variable p ''N_{crew}'' (Some N_crew) ''-'' ''Number of crew members'';
          W = Variable p ''W'' None ''lbf'' ''Total weight''
      in Model ''Crew'' p [W_oneCrew, N_crew, W]
           [Constr (Eq (Var W) (Mul (Var N_crew) (Var W_oneCrew)))])"

definition Passengers_setup :: "path \<Rightarrow> real \<Rightarrow> real \<Rightarrow> model" where
  "Passengers_setup p W_onePassenger N_passengers =
     (let W_onePassenger = Variable p ''W_{onePassenger}'' (Some W_onePassenger) ''lbf''
            ''Weight of 1 passenger'';
          N_passengers = Variable p ''N_{passengers}'' (Some N_passengers) ''-''
            ''Number of passengers'';
          W = Variable p ''W'' None ''lbf'' ''Total weight''
      in Model ''Passengers'' p [W_onePassenger, N_passengers, W]
           [Constr (Eq (Var W) (Mul (Var N_passengers) (Var W_onePassenger)))])"

definition PowerSystem_setup :: "path \<Rightarrow> real \<Rightarrow> PowerSystem" where
  "PowerSystem_setup p eta =
     (let W = Variable p ''W'' (Some 0) ''lbf'' ''Electrical power system weight'';
          eta = Variable p ''eta'' (Some eta) ''-'' ''Electrical power system efficiency''
      in \<lparr>model = Model ''PowerSystem'' p [W, eta]
             ([] @ [Constr (Eq (Var W) (Var W)), Constr (Eq (Var eta) (Var eta))]),
          ps_eta = eta\<rparr>)"

definition PowerSystemPerformance_setup :: "path \<Rightarrow> PowerSystem \<Rightarrow> model" where
  "PowerSystemPerformance_setup p powerSystem =
     (let P_in = Variable p ''P_{in}'' None ''kW'' ''Input power (from the battery)'';
          P_out = Variable p ''P_{out}'' None ''kW'' ''Output power (to the motor or motors)''
      in Model ''PowerSystemPerformance'' p [P_in, P_out]
           ([] @ [Constr (Eq (Var P_out) (Mul (Var (ps_eta powerSystem)) (Var P_in)))]))"

definition PowerSystem_performance :: "path \<Rightarrow> PowerSystem \<Rightarrow> model" where
  "PowerSystem_performance p self = PowerSystemPerformance_setup p self"

text \<open>
  The atmosphere lookup \<^verbatim>\<open>stdatmo\<close> is not part of the sources: it is a parameter, giving
  the density (in \<^verbatim>\<open>kg/m^3\<close>) and the speed of sound (in \<^verbatim>\<open>ft/s\<close>) at an altitude.
\<close>

definition FlightState_setup :: "path \<Rightarrow> (real \<Rightarrow> real \<times> real) \<Rightarrow> real \<Rightarrow> model" where
  "FlightState_setup p stdatmo h =
     (let atmospheric_data = stdatmo h;
          rho = fst atmospheric_data;
          a = snd atmospheric_data;
          rho = Variable p rho_symbol (Some rho) ''kg/m^3'' ''Air density'';
          a = Variable p ''a'' (Some a) ''ft/s'' ''Speed of sound''
      in Model ''FlightState'' p [rho, a]
           ([] @ [Constr (Eq (Var a) (Var a)), Constr (Eq (Var rho) (Var rho))]))"

text \<open>
  \<^verbatim>\<open>SimpleOnDemandAircraft.setup\<close>. The aircraft instantiates, in this order, its rotors,
  battery, crew, structure and power system.
\<close>

definition SimpleOnDemandAircraft_setup ::
  "path \<Rightarrow> real \<Rightarrow> real \<Rightarrow> real \<Rightarrow> real \<Rightarrow> real \<Rightarrow> real \<Rightarrow> real \<Rightarrow> real
     \<Rightarrow> SimpleOnDemandAircraft option" where
  "SimpleOnDemandAircraft_setup p N L_D eta_cruise weight_fraction C_m N_crew n eta_electric =
     (let MTOW = Variable p ''MTOW'' None ''lbf'' ''Takeoff weight'';
          W_noPassengers = Variable p ''W_{noPassengers}'' None ''lbf''
            ''Weight without passengers'';
          C_eff = Variable p ''C_{eff}'' None ''kWh'' ''Effective battery capacity'';
          g = Variable p ''g'' (Some 9.807) ''m/s**2'' ''Gravitational acceleration'';
          L_D = Variable p ''L_D'' (Some L_D) ''-'' ''Cruise L/D ratio'';
          eta_cruise = Variable p eta_symbol (Some eta_cruise) ''-''
            ''Cruise propulsive efficiency'';
          rotors = Rotors_setup (child_path p ''Rotors'' 0) N 0.1;
          battery = Battery_setup (child_path p ''Battery'' 1) C_m 0.8 3000 n;
          crew = Crew_setup (child_path p ''Crew'' 2) 190 N_crew;
          structure = SimpleOnDemandStructure_setup (child_path p ''SimpleOnDemandStructure'' 3)
            MTOW weight_fraction;
          powerSystem = PowerSystem_setup (child_path p ''PowerSystem'' 4) eta_electric;
          components = [rotors, model battery, crew, structure, model powerSystem]
      in do {
        battery_g \<leftarrow> topvar (model battery) ''g'';
        battery_C_eff \<leftarrow> topvar (model battery) ''C_{eff}'';
        weights \<leftarrow> those (map (\<lambda>c. topvar c ''W'') components);
        Some \<lparr>model = Model ''SimpleOnDemandAircraft'' p
                 [MTOW, W_noPassengers, C_eff, g, L_D, eta_cruise]
                 ([] @ [Constr (Eq (Var g) (Var battery_g))]
                     @ [Lst (map Sub components)]
                     @ [Constr (Eq (Var C_eff) (Var battery_C_eff))]
                     @ [Constr (Geq (Var W_noPassengers) (py_sum (map Var weights)))]),
              ac_MTOW = MTOW, ac_C_eff = C_eff, ac_g = g, ac_L_D = L_D,
              ac_eta_cruise = eta_cruise,
              ac_rotors = rotors, ac_battery = battery, ac_crew = crew,
              ac_structure = structure, ac_powerSystem = powerSystem,
              ac_components = components\<rparr>
      })"

section \<open>Performance models and flight segments\<close>

record Segment = obj +
  seg_E :: var

text \<open>All Variables declared in the subtree of a model, in listing order.\<close>

fun all_declared :: "model \<Rightarrow> var list"
and all_declared_item :: "item \<Rightarrow> var list" where
  "all_declared (Model ty p vs its) = vs @ concat (map all_declared_item its)"
| "all_declared_item (Constr c) = []"
| "all_declared_item (Sub m) = all_declared m"
| "all_declared_item (Lst xs) = concat (map all_declared_item xs)"

text \<open>
  Modelled from the spec: \<^verbatim>\<open>model[name]\<close>, the lookup of the Variable with this symbol
  among the descendants of a model, is not part of the sources; it fails unless exactly
  one Variable of the subtree has the symbol.
\<close>

definition getitem :: "model \<Rightarrow> string \<Rightarrow> var option" where
  "getitem m name =
     (case remdups (filter (\<lambda>v. symbol v = name) (all_declared m)) of
        [v] \<Rightarrow> Some v
      | _ \<Rightarrow> None)"

definition RotorsAero_setup ::
  "path \<Rightarrow> model \<Rightarrow> model \<Rightarrow> real \<Rightarrow> real \<Rightarrow> real \<Rightarrow> model option" where
  "RotorsAero_setup p rotors flightState MT_max CL_mean_max SPL_req =
     (let T = Variable p ''T'' None ''lbf'' ''Total thrust'';
          T_perRotor = Variable p ''T_perRotor'' None ''lbf'' ''Thrust per rotor'';
          T_A = Variable p ''T/A'' None ''lbf/ft**2'' ''Disk loading'';
          P = Variable p ''P'' None ''kW'' ''Total power'';
          P_perRotor = Variable p ''P_perRotor'' None ''kW'' ''Power per rotor'';
          VT = Variable p ''VT'' None ''ft/s'' ''Propeller tip speed'';
          omega = Variable p omega_symbol None ''rpm'' ''Propeller angular velocity'';
          MT = Variable p ''MT'' None ''-'' ''Propeller tip Mach number'';
          MT_max = Variable p ''MT_max'' (Some MT_max) ''-'' ''Maximum allowed tip Mach number'';
          CT = Variable p ''CT'' None ''-'' ''Thrust coefficient'';
          CP = Variable p ''CP'' None ''-'' ''Power coefficient'';
          CPi = Variable p ''CPi'' None ''-'' ''Induced (ideal) power coefficient'';
          CPp = Variable p ''CP'' None ''-'' ''Profile power coefficient'';
          CL_mean = Variable p ''CL_mean'' None ''-'' ''Mean lift coefficient'';
          CL_mean_max = Variable p ''CL_mean_max'' (Some CL_mean_max) ''-''
            ''Maximum allowed mean lift coefficient'';
          FOM = Variable p ''FOM'' None ''-'' ''Figure of merit'';
          ki = Variable p ''ki'' (Some 1.1) ''-'' ''Induced power factor'';
          Cd0 = Variable p ''Cd0'' (Some 0.01) ''-''
            ''Blade two-dimensional zero-lift drag coefficient'';
          p_ratio = Variable p ''p_{ratio}'' None ''-'' ''Sound pressure ratio (p/p_{ref})'';
          p_ratio_max = Variable p ''p_{ratio_max}'' (Some (10 powr (SPL_req / 20))) ''-''
            ''Max allowed sound pressure ratio'';
          x = Variable p ''x'' (Some 500) ''ft''
            ''Distance from source at which to calculate sound'';
          k3 = Variable p ''k3'' (Some 0.006804) ''s**3/ft**3'' ''Sound-pressure constant''
      in do {
        R \<leftarrow> topvar rotors ''R'';
        A \<leftarrow> topvar rotors ''A'';
        A_total \<leftarrow> topvar rotors ''A_{total}'';
        N \<leftarrow> topvar rotors ''N'';
        s \<leftarrow> topvar rotors ''s'';
        rho \<leftarrow> topvar flightState rho_symbol;
        a \<leftarrow> topvar flightState ''a'';
        Some (Model ''RotorsAero'' p
          [T, T_perRotor, T_A, P, P_perRotor, VT, omega, MT, MT_max, CT, CP, CPi, CPp,
           CL_mean, CL_mean_max, FOM, ki, Cd0, p_ratio, p_ratio_max, x, k3]
          ([Sub flightState]
           @ [Constr (Eq (Var T) (Mul (Var N) (Var T_perRotor))),
              Constr (Eq (Var P) (Mul (Var N) (Var P_perRotor)))]
           @ [Constr (Eq (Var T_perRotor)
                (Mul (Mul (Mul (Mul (Num 0.5) (Var rho)) (Pow (Var VT) 2)) (Var A)) (Var CT))),
              Constr (Eq (Var P_perRotor)
                (Mul (Mul (Mul (Mul (Num 0.5) (Var rho)) (Pow (Var VT) 3)) (Var A)) (Var CP)))]
           @ [Constr (Eq (Var T_A) (Div (Var T) (Var A_total)))]
           @ [Constr (Eq (Var CPi) (Mul (Num 0.5) (Pow (Var CT) 1.5))),
              Constr (Eq (Var CPp) (Mul (Mul (Num 0.25) (Var s)) (Var Cd0))),
              Constr (Geq (Var CP) (Add (Mul (Var ki) (Var CPi)) (Var CPp))),
              Constr (Eq (Var FOM) (Div (Var CPi) (Var CP)))]
           @ [Constr (Eq (Var VT) (Mul (Var R) (Var omega))),
              Constr (Eq (Var VT) (Mul (Var MT) (Var a))),
              Constr (Leq (Var MT) (Var MT_max))]
           @ [Constr (Eq (Var CL_mean) (Div (Mul (Num 3) (Var CT)) (Var s))),
              Constr (Leq (Var CL_mean) (Var CL_mean_max))]
           @ [Constr (Eq (Var p_ratio)
                (Mul (Mul (Var k3) (Div (Mul (Var T) (Var omega)) (Mul (Var rho) (Var x))))
                     (Pow (Mul (Var N) (Var s)) (- 0.5)))),
              Constr (Leq (Var p_ratio) (Var p_ratio_max))]))
      })"

definition Rotors_performance ::
  "path \<Rightarrow> model \<Rightarrow> model \<Rightarrow> real \<Rightarrow> real \<Rightarrow> real \<Rightarrow> model option" where
  "Rotors_performance p self flightState MT_max CL_mean_max SPL_req =
     RotorsAero_setup p self flightState MT_max CL_mean_max SPL_req"

text \<open>
  \<^verbatim>\<open>Hover.setup\<close> and \<^verbatim>\<open>LevelFlight.setup\<close> read the mission only through
  \<^verbatim>\<open>mission.W\<close>, which the mission sets before it builds its segments.
\<close>

definition Hover_setup ::
  "path \<Rightarrow> var \<Rightarrow> SimpleOnDemandAircraft \<Rightarrow> model \<Rightarrow> real \<Rightarrow> Segment option" where
  "Hover_setup p mission_W aircraft state t =
     (let E = Variable p ''E'' None ''kWh'' ''Electrical energy used during hover segment'';
          P_battery = Variable p ''P_{battery}'' None ''kW''
            ''Power drawn (from batteries) during hover segment'';
          P_rotors = Variable p ''P_{rotors}'' None ''kW''
            ''Power used (by rotors) during hover segment'';
          T = Variable p ''T'' None ''lbf'' ''Total thrust (from rotors) during hover segment'';
          T_A = Variable p ''T/A'' None ''lbf/ft**2'' ''Disk loading during hover segment'';
          t = Variable p ''t'' (Some t) ''s'' ''Time in hover segment'';
          W = mission_W
      in do {
        rotorPerf \<leftarrow> Rotors_performance (child_path p ''RotorsAero'' 0) (ac_rotors aircraft)
                       state 0.9 1.0 100;
        batteryPerf \<leftarrow> Some (Battery_performance (child_path p ''BatteryPerformance'' 1)
                       (ac_battery aircraft));
        powerSystemPerf \<leftarrow> Some (PowerSystem_performance
                       (child_path p ''PowerSystemPerformance'' 2) (ac_powerSystem aircraft));
        rotorPerf_P \<leftarrow> topvar rotorPerf ''P'';
        rotorPerf_T \<leftarrow> topvar rotorPerf ''T'';
        rotorPerf_T_A \<leftarrow> topvar rotorPerf ''T/A'';
        powerSystemPerf_P_in \<leftarrow> topvar powerSystemPerf ''P_{in}'';
        powerSystemPerf_P_out \<leftarrow> topvar powerSystemPerf ''P_{out}'';
        batteryPerf_E \<leftarrow> topvar (model batteryPerf) ''E'';
        batteryPerf_P \<leftarrow> topvar (model batteryPerf) ''P'';
        batteryPerf_t \<leftarrow> topvar (model batteryPerf) ''t'';
        Some \<lparr>model = Model ''Hover'' p [E, P_battery, P_rotors, T, T_A, t]
                 ([Sub rotorPerf, Sub (model batteryPerf), Sub powerSystemPerf]
                  @ [Constr (Eq (Var P_rotors) (Var rotorPerf_P)),
                     Constr (Eq (Var T) (Var rotorPerf_T)),
                     Constr (Eq (Var T_A) (Var rotorPerf_T_A))]
                  @ [Constr (Eq (Var P_battery) (Var powerSystemPerf_P_in)),
                     Constr (Eq (Var P_rotors) (Var powerSystemPerf_P_out))]
                  @ [Constr (Eq (Var E) (Var batteryPerf_E)),
                     Constr (Eq (Var P_battery) (Var batteryPerf_P)),
                     Constr (Eq (Var t) (Var batteryPerf_t))]
                  @ [Constr (Eq (Var T) (Var W))]),
              seg_E = E\<rparr>
      })"

definition LevelFlight_setup ::
  "path \<Rightarrow> var \<Rightarrow> SimpleOnDemandAircraft \<Rightarrow> real \<Rightarrow> Segment option" where
  "LevelFlight_setup p mission_W aircraft V =
     (let E = Variable p ''E'' None ''kWh''
            ''Electrical energy used during level-flight segment'';
          P_battery = Variable p ''P_{battery}'' None ''kW''
            ''Power drawn (from batteries) during segment'';
          P_cruise = Variable p ''P_{cruise}'' None ''kW''
            ''Power used (by propulsion system) during cruise segment'';
          T = Variable p ''T'' None ''lbf'' ''Thrust during level-flight  segment'';
          D = Variable p ''D'' None ''lbf'' ''Drag during level-flight segment'';
          t = Variable p ''t'' None ''s'' ''Time in level-flight segment'';
          segment_range = Variable p ''segment_range'' None ''nautical_mile''
            ''Distance travelled during segment'';
          V = Variable p ''V'' (Some V) ''mph'' ''Velocity during segment'';
          W = mission_W;
          L_D = ac_L_D aircraft;
          eta_cruise = ac_eta_cruise aircraft
      in do {
        batteryPerf \<leftarrow> Some (Battery_performance (child_path p ''BatteryPerformance'' 0)
                       (ac_battery aircraft));
        powerSystemPerf \<leftarrow> Some (PowerSystem_performance
                       (child_path p ''PowerSystemPerformance'' 1) (ac_powerSystem aircraft));
        batteryPerf_E \<leftarrow> topvar (model batteryPerf) ''E'';
        batteryPerf_P \<leftarrow> topvar (model batteryPerf) ''P'';
        batteryPerf_t \<leftarrow> topvar (model batteryPerf) ''t'';
        powerSystemPerf_P_in \<leftarrow> topvar powerSystemPerf ''P_{in}'';
        powerSystemPerf_P_out \<leftarrow> topvar powerSystemPerf ''P_{out}'';
        Some \<lparr>model = Model ''LevelFlight'' p
                 [E, P_battery, P_cruise, T, D, t, segment_range, V]
                 ([] @ [Constr (Eq (Var E) (Var batteryPerf_E)),
                        Constr (Eq (Var P_battery) (Var batteryPerf_P)),
                        Constr (Eq (Var t) (Var batteryPerf_t))]
                     @ [Constr (Eq (Var P_battery) (Var powerSystemPerf_P_in)),
                        Constr (Eq (Var P_cruise) (Var powerSystemPerf_P_out))]
                     @ [Constr (Eq (Var segment_range) (Mul (Var V) (Var t))),
                        Constr (Eq (Mul (Var eta_cruise) (Var P_cruise)) (Mul (Var T) (Var V))),
                        Constr (Eq (Var T) (Var D)),
                        Constr (Eq (Var W) (Mul (Var L_D) (Var D)))]
                     @ [Sub (model batteryPerf), Sub powerSystemPerf]),
              seg_E = E\<rparr>
      })"

section \<open>Missions\<close>

record OnDemandSizingMission = obj +
  sz_aircraft :: SimpleOnDemandAircraft
  sz_W :: var
  sz_passengers :: model
  sz_fs0 :: Segment
  sz_fs1 :: Segment
  sz_fs2 :: Segment
  sz_fs3 :: Segment
  sz_fs4 :: Segment
  sz_fs5 :: Segment

record OnDemandTypicalMission = obj +
  ty_aircraft :: SimpleOnDemandAircraft
  ty_W :: var
  ty_passengers :: model
  ty_fs0 :: Segment
  ty_fs1 :: Segment
  ty_fs2 :: Segment

text \<open>
  \<^verbatim>\<open>OnDemandSizingMission.setup\<close>. The mission instantiates, in this order, its passengers,
  the hover flight state and the six segments. The two \<^verbatim>\<open>if\<close> statements on
  \<^verbatim>\<open>reserve_type\<close> are independent and have no \<^verbatim>\<open>else\<close>.
\<close>

definition OnDemandSizingMission_setup ::
  "path \<Rightarrow> (real \<Rightarrow> real \<times> real) \<Rightarrow> SimpleOnDemandAircraft \<Rightarrow> real \<Rightarrow> real \<Rightarrow> real \<Rightarrow> real
     \<Rightarrow> real \<Rightarrow> string \<Rightarrow> OnDemandSizingMission option" where
  "OnDemandSizingMission_setup p stdatmo aircraft mission_range V_cruise V_loiter N_passengers
     time_in_hover reserve_type =
     (let W = Variable p ''W_{mission}'' None ''lbf''
            ''Weight of the aircraft during the mission'';
          mission_range = Variable p ''mission_range'' (Some mission_range) ''nautical_mile''
            ''Mission range'';
          p_ratio = Variable p ''p_{ratio}'' None ''-'' ''Sound pressure ratio in hover'';
          C_eff = ac_C_eff aircraft;
          passengers = Passengers_setup (child_path p ''Passengers'' 0) 200 N_passengers;
          hoverState = FlightState_setup (child_path p ''FlightState'' 1) stdatmo 0;
          t_loiter = Variable p ''t_{loiter}'' (Some 45) ''minutes'' ''Loiter time'';
          R_divert = Variable p ''R_{divert}'' (Some 2) ''nautical_mile'' ''Diversion distance''
      in do {
        fs0 \<leftarrow> Hover_setup (child_path p ''Hover'' 2) W aircraft hoverState time_in_hover;
        fs1 \<leftarrow> LevelFlight_setup (child_path p ''LevelFlight'' 3) W aircraft V_cruise;
        fs2 \<leftarrow> Hover_setup (child_path p ''Hover'' 4) W aircraft hoverState time_in_hover;
        fs3 \<leftarrow> Hover_setup (child_path p ''Hover'' 5) W aircraft hoverState time_in_hover;
        fs4 \<leftarrow> LevelFlight_setup (child_path p ''LevelFlight'' 6) W aircraft V_loiter;
        fs5 \<leftarrow> Hover_setup (child_path p ''Hover'' 7) W aircraft hoverState time_in_hover;
        aircraft_W_noPassengers \<leftarrow> topvar (model aircraft) ''W_{noPassengers}'';
        passengers_W \<leftarrow> topvar passengers ''W'';
        aircraft_MTOW \<leftarrow> topvar (model aircraft) ''MTOW'';
        faa \<leftarrow> (if reserve_type = ''FAA''
                then do {
                  fs4_t \<leftarrow> topvar (model fs4) ''t'';
                  Some [Constr (Eq (Var t_loiter) (Var fs4_t))]
                }
                else Some []);
        uber \<leftarrow> (if reserve_type = ''Uber''
                then do {
                  fs4_segment_range \<leftarrow> topvar (model fs4) ''segment_range'';
                  Some [Constr (Eq (Var R_divert) (Var fs4_segment_range))]
                }
                else Some []);
        fs1_segment_range \<leftarrow> topvar (model fs1) ''segment_range'';
        fs0_p_ratio \<leftarrow> getitem (model fs0) ''p_{ratio}'';
        Some \<lparr>model = Model ''OnDemandSizingMission'' p
                 ([W, mission_range, p_ratio]
                  @ (if reserve_type = ''FAA'' then [t_loiter] else [])
                  @ (if reserve_type = ''Uber'' then [R_divert] else []))
                 ([] @ [Constr (Geq (Var W)
                          (Add (Var aircraft_W_noPassengers) (Var passengers_W)))]
                     @ [Constr (Geq (Var aircraft_MTOW) (Var W))]
                     @ [Sub passengers]
                     @ faa
                     @ uber
                     @ [Constr (Eq (Var mission_range) (Var fs1_segment_range))]
                     @ [Constr (Geq (Var C_eff)
                          (Add (Add (Add (Add (Add (Var (seg_E fs0)) (Var (seg_E fs1)))
                            (Var (seg_E fs2))) (Var (seg_E fs3))) (Var (seg_E fs4)))
                            (Var (seg_E fs5))))]
                     @ [Sub (model fs0), Sub (model fs1), Sub (model fs2), Sub (model fs3),
                        Sub (model fs4), Sub (model fs5)]
                     @ [Constr (Eq (Var p_ratio) (Var fs0_p_ratio))]
                     @ items hoverState),
              sz_aircraft = aircraft, sz_W = W, sz_passengers = passengers,
              sz_fs0 = fs0, sz_fs1 = fs1, sz_fs2 = fs2, sz_fs3 = fs3, sz_fs4 = fs4,
              sz_fs5 = fs5\<rparr>
      })"

text \<open>\<^verbatim>\<open>OnDemandTypicalMission.setup\<close>: three segments, no reserve, and the cost model.\<close>

definition OnDemandTypicalMission_setup ::
  "path \<Rightarrow> (real \<Rightarrow> real \<times> real) \<Rightarrow> SimpleOnDemandAircraft \<Rightarrow> real \<Rightarrow> real \<Rightarrow> real \<Rightarrow> real
     \<Rightarrow> real \<Rightarrow> real \<Rightarrow> real \<Rightarrow> OnDemandTypicalMission option" where
  "OnDemandTypicalMission_setup p stdatmo aircraft mission_range V_cruise N_passengers
     time_in_hover cost_per_weight pilot_salary mechanic_salary =
     (let W = Variable p ''W_{mission}'' None ''lbf''
            ''Weight of the aircraft during the mission'';
          mission_range = Variable p ''mission_range'' (Some mission_range) ''nautical_mile''
            ''Mission range (not including reserves)'';
          p_ratio = Variable p ''p_{ratio}'' None ''-'' ''Sound pressure ratio in hover'';
          C_eff = ac_C_eff aircraft;
          cpt = Variable p ''cost_per_trip'' None ''-'' ''Cost (in dollars) for one trip'';
          cptpp = Variable p ''cost_per_trip_per_passenger'' None ''-''
            ''Cost (in dollars) for one trip, per passenger'';
          c_vehicle = Variable p ''c_{vehicle}'' None ''-''
            ''Vehicle amortized cost (per mission)'';
          t_mission = Variable p ''t_{mission}'' None ''minutes'' ''Time to complete mission'';
          vehicle_life = Variable p ''vehicle_life'' (Some 10) ''years'' ''Vehicle lifetime'';
          cost_per_weight = Variable p ''cost_per_weight'' (Some cost_per_weight) ''lbf**-1''
            ''Cost per unit weight of the aircraft'';
          purchase_price = Variable p ''purchase_price'' None ''-''
            ''Purchase price of the aircraft'';
          c_energy = Variable p ''c_{energy}'' None ''-'' ''Energy cost (per mission)'';
          cost_per_energy = Variable p ''cost_per_energy'' (Some 0.12) ''kWh**-1''
            ''Price of electricity (dollars per kWh)'';
          E_mission = Variable p ''E_{mission}'' None ''kWh''
            ''Electrical energy used during mission'';
          c_pilot = Variable p ''c_{pilot}'' None ''-'' ''Pilot cost (per mission)'';
          pilot_salary = Variable p ''pilot_salary'' (Some pilot_salary) ''hr**-1''
            ''Pilot salary'';
          c_maintenance = Variable p ''c_{maintenance}'' None ''-''
            ''Maintenance cost per mission'';
          overhaul_cost = Variable p ''overhaul_cost'' None ''-'' ''Cost of 1 overhaul'';
          overhaul_time = Variable p ''overhaul_time'' (Some 2) ''hours''
            ''Time to complete 1 overhaul'';
          N_mechanics = Variable p ''N_{mechanics}'' (Some 2) ''-''
            ''Number of mechanics required for an overhaul'';
          time_between_overhauls = Variable p ''time_between_overhauls'' (Some 50) ''hours''
            ''Time between overhauls'';
          mechanic_salary = Variable p ''mechanic_salary'' (Some mechanic_salary) ''hr**-1''
            ''Mechanic salary'';
          passengers = Passengers_setup (child_path p ''Passengers'' 0) 200 N_passengers;
          hoverState = FlightState_setup (child_path p ''FlightState'' 1) stdatmo 0
      in do {
        fs0 \<leftarrow> Hover_setup (child_path p ''Hover'' 2) W aircraft hoverState time_in_hover;
        fs1 \<leftarrow> LevelFlight_setup (child_path p ''LevelFlight'' 3) W aircraft V_cruise;
        fs2 \<leftarrow> Hover_setup (child_path p ''Hover'' 4) W aircraft hoverState time_in_hover;
        aircraft_W_noPassengers \<leftarrow> topvar (model aircraft) ''W_{noPassengers}'';
        passengers_W \<leftarrow> topvar passengers ''W'';
        aircraft_MTOW \<leftarrow> topvar (model aircraft) ''MTOW'';
        fs1_segment_range \<leftarrow> topvar (model fs1) ''segment_range'';
        fs0_p_ratio \<leftarrow> getitem (model fs0) ''p_{ratio}'';
        passengers_N \<leftarrow> topvar passengers ''N_{passengers}'';
        fs0_t \<leftarrow> topvar (model fs0) ''t'';
        fs1_t \<leftarrow> topvar (model fs1) ''t'';
        fs2_t \<leftarrow> topvar (model fs2) ''t'';
        Some \<lparr>model = Model ''OnDemandTypicalMission'' p
                 [W, mission_range, p_ratio, cpt, cptpp, c_vehicle, t_mission, vehicle_life,
                  cost_per_weight, purchase_price, c_energy, cost_per_energy, E_mission,
                  c_pilot, pilot_salary, c_maintenance, overhaul_cost, overhaul_time,
                  N_mechanics, time_between_overhauls, mechanic_salary]
                 ([] @ [Constr (Geq (Var W)
                          (Add (Var aircraft_W_noPassengers) (Var passengers_W)))]
                     @ [Constr (Geq (Var aircraft_MTOW) (Var W))]
                     @ [Sub passengers]
                     @ [Constr (Eq (Var mission_range) (Var fs1_segment_range))]
                     @ [Constr (Geq (Var C_eff)
                          (Add (Add (Var (seg_E fs0)) (Var (seg_E fs1))) (Var (seg_E fs2))))]
                     @ [Sub (model fs0), Sub (model fs1), Sub (model fs2)]
                     @ [Constr (Eq (Var p_ratio) (Var fs0_p_ratio))]
                     @ items hoverState
                     @ [Constr (Eq (Var cpt) (Mul (Var cptpp) (Var passengers_N)))]
                     @ [Constr (Geq (Var cpt)
                          (Add (Add (Add (Var c_vehicle) (Var c_energy)) (Var c_pilot))
                            (Var c_maintenance)))]
                     @ [Constr (Eq (Var c_vehicle)
                          (Div (Mul (Var purchase_price) (Var t_mission)) (Var vehicle_life)))]
                     @ [Constr (Geq (Var t_mission)
                          (Add (Add (Var fs0_t) (Var fs1_t)) (Var fs2_t)))]
                     @ [Constr (Eq (Var purchase_price)
                          (Mul (Var cost_per_weight) (Var (ac_MTOW aircraft))))]
                     @ [Constr (Eq (Var c_energy) (Mul (Var E_mission) (Var cost_per_energy)))]
                     @ [Constr (Geq (Var E_mission)
                          (Add (Add (Var (seg_E fs0)) (Var (seg_E fs1))) (Var (seg_E fs2))))]
                     @ [Constr (Eq (Var c_pilot) (Mul (Var pilot_salary) (Var t_mission)))]
                     @ [Constr (Eq (Var c_maintenance)
                          (Div (Mul (Var overhaul_cost) (Var t_mission))
                            (Var time_between_overhauls)))]
                     @ [Constr (Eq (Var overhaul_cost)
                          (Mul (Mul (Var N_mechanics) (Var overhaul_time))
                            (Var mechanic_salary)))]),
              ty_aircraft = aircraft, ty_W = W, ty_passengers = passengers,
              ty_fs0 = fs0, ty_fs1 = fs1, ty_fs2 = fs2\<rparr>
      })"

text \<open>The segment sequence of each mission, as listed by its \<^verbatim>\<open>setup\<close>.\<close>

definition sz_segments :: "OnDemandSizingMission \<Rightarrow> Segment list" where
  "sz_segments m = [sz_fs0 m, sz_fs1 m, sz_fs2 m, sz_fs3 m, sz_fs4 m, sz_fs5 m]"

definition ty_segments :: "OnDemandTypicalMission \<Rightarrow> Segment list" where
  "ty_segments m = [ty_fs0 m, ty_fs1 m, ty_fs2 m]"

text \<open>
  Modelled from the spec: \<^verbatim>\<open>chain(segments)\<close> is not a function of the sources, which write
  the sum out. It produces the constraint: total \<open>\<ge>\<close> sum of each segment's energy Variable,
  the sum written with \<^verbatim>\<open>+\<close> from the left.
\<close>

fun chain :: "var \<Rightarrow> Segment list \<Rightarrow> constraint" where
  "chain tot [] = Geq (Var tot) (Num 0)"
| "chain tot (s # segs) = Geq (Var tot) (foldl Add (Var (seg_E s)) (map (Var \<circ> seg_E) segs))"

text \<open>The constraints of a list of items that bound a sum from above by the given Variable.\<close>

definition budget_constraints :: "var \<Rightarrow> item list \<Rightarrow> constraint list" where
  "budget_constraints tot its =
     filter (\<lambda>c. case c of Geq (Var x) e \<Rightarrow> x = tot | _ \<Rightarrow> False) (own_constraints its)"

text \<open>
  A reserve requirement fixes a quantity of the reserve (loiter) segment: an equality of a
  Variable with a fixed value and the segment's own duration \<^verbatim>\<open>t\<close> or distance
  \<^verbatim>\<open>segment_range\<close>.
\<close>

definition fixes_of_segment :: "string \<Rightarrow> Segment \<Rightarrow> constraint \<Rightarrow> bool" where
  "fixes_of_segment name seg c =
     (case c of
        Eq (Var x) (Var y) \<Rightarrow>
          val x \<noteq> None \<and> owner y = mpath (model seg) \<and> symbol y = name
      | _ \<Rightarrow> False)"

definition duration_constraints :: "OnDemandSizingMission \<Rightarrow> constraint list" where
  "duration_constraints m =
     filter (fixes_of_segment ''t'' (sz_fs4 m)) (own_constraints (items (model m)))"

definition distance_constraints :: "OnDemandSizingMission \<Rightarrow> constraint list" where
  "distance_constraints m =
     filter (fixes_of_segment ''segment_range'' (sz_fs4 m)) (own_constraints (items (model m)))"

definition reserve_constraints :: "OnDemandSizingMission \<Rightarrow> constraint list" where
  "reserve_constraints m = duration_constraints m @ distance_constraints m"

definition reserve_count :: "OnDemandSizingMission \<Rightarrow> nat" where
  "reserve_count m = length (reserve_constraints m)"

section \<open>Substitutions\<close>

fun map_vars :: "(var \<Rightarrow> var) \<Rightarrow> expr \<Rightarrow> expr" where
  "map_vars f (Num x) = Num x"
| "map_vars f (Var v) = Var (f v)"
| "map_vars f (Add a b) = Add (map_vars f a) (map_vars f b)"
| "map_vars f (Mul a b) = Mul (map_vars f a) (map_vars f b)"
| "map_vars f (Div a b) = Div (map_vars f a) (map_vars f b)"
| "map_vars f (Pow a x) = Pow (map_vars f a) x"

fun map_cvars :: "(var \<Rightarrow> var) \<Rightarrow> constraint \<Rightarrow> constraint" where
  "map_cvars f (Eq a b) = Eq (map_vars f a) (map_vars f b)"
| "map_cvars f (Leq a b) = Leq (map_vars f a) (map_vars f b)"
| "map_cvars f (Geq a b) = Geq (map_vars f a) (map_vars f b)"

text \<open>The Variables of a flattened constraint set.\<close>

definition variables :: "constraint list \<Rightarrow> var list" where
  "variables cs = concat (map cvars cs)"

text \<open>Pinning a Variable gives it a fixed value wherever it occurs.\<close>

definition pin :: "var \<Rightarrow> real \<Rightarrow> var \<Rightarrow> var" where
  "pin target x v = (if v = target then v\<lparr>val := Some x\<rparr> else v)"

text \<open>
  Modelled from the spec: the substitution step of the solver adapter is not part of the
  sources (the script updates the \<^verbatim>\<open>substitutions\<close> dictionary of the library).
  \<^verbatim>\<open>apply_substitutions(constraints, table)\<close> takes the entries one after the other; for each
  it asserts that the target exists in the flattened set and is free, and pins it. The
  result is the outcome and the constraint set afterwards: the pinned set, or the set as it
  was given when an entry is rejected.
\<close>

fun apply_entries :: "constraint list \<Rightarrow> (var \<times> real) list \<Rightarrow> error + constraint list" where
  "apply_entries cs [] = Inr cs"
| "apply_entries cs ((target, x) # table) =
     (if target \<in> set (variables cs) \<and> val target = None
      then apply_entries (map (map_cvars (pin target x)) cs) table
      else Inl SubstitutionTargetError)"

definition apply_substitutions ::
  "constraint list \<Rightarrow> (var \<times> real) list \<Rightarrow> error option \<times> constraint list" where
  "apply_substitutions cs table =
     (case apply_entries cs table of
        Inl e \<Rightarrow> (Some e, cs)
      | Inr cs' \<Rightarrow> (None, cs'))"

section \<open>The representative analysis of the script\<close>

text \<open>
  The script looks the atmosphere up at altitude 0 only; concrete builds below use the
  sea-level density and speed of sound.
\<close>

definition sea_level :: "real \<Rightarrow> real \<times> real" where
  "sea_level h = (1.225, 1116.45)"

definition testAircraft :: "SimpleOnDemandAircraft option" where
  "testAircraft =
     SimpleOnDemandAircraft_setup [(''SimpleOnDemandAircraft'', 0)] 12 14 0.85 0.3444 400 1 1 0.95"

text \<open>
  The script sets its configuration variable \<^verbatim>\<open>reserve_type\<close> to \<^verbatim>\<open>"FAA"\<close>; it is a
  parameter here.
\<close>

definition testSizingMission ::
  "(real \<Rightarrow> real \<times> real) \<Rightarrow> string \<Rightarrow> OnDemandSizingMission option" where
  "testSizingMission stdatmo reserve_type = do {
     aircraft \<leftarrow> testAircraft;
     OnDemandSizingMission_setup [(''OnDemandSizingMission'', 0)] stdatmo aircraft
       200 200 100 1 120 reserve_type
   }"

text \<open>The table the script passes to \<^verbatim>\<open>testSizingMission.substitutions.update\<close>.\<close>

definition testSizingMission_substitutions ::
  "OnDemandSizingMission \<Rightarrow> (var \<times> real) list option" where
  "testSizingMission_substitutions m = do {
     fs0_T_A \<leftarrow> topvar (model (sz_fs0 m)) ''T/A'';
     fs2_T_A \<leftarrow> topvar (model (sz_fs2 m)) ''T/A'';
     fs3_T_A \<leftarrow> topvar (model (sz_fs3 m)) ''T/A'';
     fs5_T_A \<leftarrow> topvar (model (sz_fs5 m)) ''T/A'';
     Some [(fs0_T_A, 16.3), (fs2_T_A, 16.3), (fs3_T_A, 16.3), (fs5_T_A, 16.3)]
   }"

definition testTypicalMission ::
  "(real \<Rightarrow> real \<times> real) \<Rightarrow> OnDemandTypicalMission option" where
  "testTypicalMission stdatmo = do {
     aircraft \<leftarrow> testAircraft;
     OnDemandTypicalMission_setup [(''OnDemandTypicalMission'', 0)] stdatmo aircraft
       100 200 1 30 112 40 30
   }"

text \<open>The problem: the objective and the composition of the aircraft and the two missions.\<close>

definition problem :: "(real \<Rightarrow> real \<times> real) \<Rightarrow> string \<Rightarrow> (var \<times> model) option" where
  "problem stdatmo reserve_type = do {
     aircraft \<leftarrow> testAircraft;
     sizing \<leftarrow> testSizingMission stdatmo reserve_type;
     typical \<leftarrow> testTypicalMission stdatmo;
     cost \<leftarrow> getitem (model typical) ''cost_per_trip'';
     Some (cost, compose [] [model aircraft, model sizing, model typical])
   }"

section \<open>Properties of the composition engine\<close>

lemma own_constraints_append: "own_constraints (xs @ ys) = own_constraints xs @ own_constraints ys"
  by (induction xs rule: own_constraints.induct) simp_all

lemma children_append: "children (xs @ ys) = children xs @ children ys"
  by (induction xs rule: children.induct) simp_all

lemma own_constraints_Sub: "own_constraints (map Sub ms) = []"
  by (induction ms) simp_all

lemma children_Sub: "children (map Sub ms) = ms"
  by (induction ms) simp_all

lemma flatten_compose: "flatten (compose p ms) = concat (map flatten ms)"
  by (simp add: compose_def own_constraints_Sub children_Sub)

lemma mset_own_constraints:
  "mset (own_constraints its) = (\<Sum>it\<in>#mset its. mset (own_constraints [it]))"
  by (induction its rule: own_constraints.induct) simp_all

lemma mset_children:
  "mset (children its) = (\<Sum>it\<in>#mset its. mset (children [it]))"
  by (induction its rule: children.induct) simp_all

lemma mset_concat_map: "mset (concat (map f xs)) = (\<Sum>x\<in>#mset xs. mset (f x))"
  by (induction xs) simp_all

lemma mset_flatten_items:
  assumes "mset its' = mset its"
  shows "mset (flatten (Model ty' p' vs' its')) = mset (flatten (Model ty p vs its))"
proof -
  have "mset (own_constraints its') = mset (own_constraints its)"
    using assms mset_own_constraints [of its'] mset_own_constraints [of its] by simp
  moreover have "mset (children its') = mset (children its)"
    using assms mset_children [of its'] mset_children [of its] by simp
  ultimately show ?thesis
    using mset_concat_map [of flatten "children its'"] mset_concat_map [of flatten "children its"]
    by simp
qed

lemma mset_flatten_listed:
  "mset (flatten_listed m) = mset (flatten m)"
  "mset (flatten_item it) = mset (own_constraints [it]) + mset (concat (map flatten (children [it])))"
proof (induction m and it rule: flatten_listed_flatten_item.induct)
  case (1 ty p vs its)
  have "mset (concat (map flatten_item xs)) =
          mset (own_constraints xs) + mset (concat (map flatten (children xs)))"
    if "\<And>x. x \<in> set xs \<Longrightarrow> mset (flatten_item x) =
          mset (own_constraints [x]) + mset (concat (map flatten (children [x])))" for xs
    using that
  proof (induction xs)
    case Nil
    then show ?case by simp
  next
    case (Cons x xs)
    have "own_constraints (x # xs) = own_constraints [x] @ own_constraints xs"
      using own_constraints_append [of "[x]" xs] by simp
    moreover have "children (x # xs) = children [x] @ children xs"
      using children_append [of "[x]" xs] by simp
    ultimately show ?case using Cons by simp
  qed
  with 1 show ?case by simp
next
  case (2 c)
  then show ?case by simp
next
  case (3 m)
  then show ?case by simp
next
  case (4 xs)
  have "mset (concat (map flatten_item ys)) =
          mset (own_constraints ys) + mset (concat (map flatten (children ys)))"
    if "\<And>x. x \<in> set ys \<Longrightarrow> mset (flatten_item x) =
          mset (own_constraints [x]) + mset (concat (map flatten (children [x])))" for ys
    using that
  proof (induction ys)
    case Nil
    then show ?case by simp
  next
    case (Cons x xs)
    have "own_constraints (x # xs) = own_constraints [x] @ own_constraints xs"
      using own_constraints_append [of "[x]" xs] by simp
    moreover have "children (x # xs) = children [x] @ children xs"
      using children_append [of "[x]" xs] by simp
    ultimately show ?case using Cons by simp
  qed
  with 4 show ?case by simp
qed

lemma Variable_eta: "Variable (owner x) (symbol x) (val x) (units x) (descr x) = x"
  by (cases x) (simp add: Variable_def)

lemma declare_all_duplicate:
  "(owner x, symbol x) \<in> set (map qualified_name reg) \<Longrightarrow>
     declare_all reg (x # xs) = Inl DuplicateSymbolError"
  by (simp add: declare_var_def)

lemma declare_all_step:
  "(owner x, symbol x) \<notin> set (map qualified_name reg) \<Longrightarrow>
     declare_all reg (x # xs) = declare_all (reg @ [x]) xs"
  by (simp add: declare_var_def Variable_eta Let_def)

lemma declare_all_distinct:
  "distinct (map qualified_name reg) \<Longrightarrow> declare_all reg xs = Inr reg'
     \<Longrightarrow> distinct (map qualified_name reg')"
proof (induction xs arbitrary: reg)
  case Nil
  then show ?case by simp
next
  case (Cons x xs)
  show ?case
  proof (cases "(owner x, symbol x) \<in> set (map qualified_name reg)")
    case True
    from declare_all_duplicate [OF True, of xs] Cons.prems(2) show ?thesis by simp
  next
    case False
    from declare_all_step [OF False, of xs] Cons.prems(2)
    have "declare_all (reg @ [x]) xs = Inr reg'" by simp
    moreover have "qualified_name x = (owner x, symbol x)"
      by (simp add: qualified_name_def)
    with False have "distinct (map qualified_name (reg @ [x]))"
      using Cons.prems(1) by simp
    ultimately show ?thesis by (rule Cons.IH [rotated])
  qed
qed

lemma symbol_Variable [simp]: "symbol (Variable p name v u d) = name"
  and owner_Variable [simp]: "owner (Variable p name v u d) = p"
  and val_Variable [simp]: "val (Variable p name v u d) = v"
  by (simp_all add: Variable_def)

lemma qualified_name_Variable [simp]: "qualified_name (Variable p name v u d) = (p, name)"
  by (simp add: qualified_name_def)

lemma RotorsAero_duplicate:
  assumes "RotorsAero_setup p rotors flightState MT_max CL_mean_max SPL_req = Some ra"
  shows "declare_all [] (declared ra) = Inl DuplicateSymbolError"
proof -
  from assms obtain its where ra: "ra = Model ''RotorsAero'' p
     [Variable p ''T'' None ''lbf'' ''Total thrust'',
      Variable p ''T_perRotor'' None ''lbf'' ''Thrust per rotor'',
      Variable p ''T/A'' None ''lbf/ft**2'' ''Disk loading'',
      Variable p ''P'' None ''kW'' ''Total power'',
      Variable p ''P_perRotor'' None ''kW'' ''Power per rotor'',
      Variable p ''VT'' None ''ft/s'' ''Propeller tip speed'',
      Variable p omega_symbol None ''rpm'' ''Propeller angular velocity'',
      Variable p ''MT'' None ''-'' ''Propeller tip Mach number'',
      Variable p ''MT_max'' (Some MT_max) ''-'' ''Maximum allowed tip Mach number'',
      Variable p ''CT'' None ''-'' ''Thrust coefficient'',
      Variable p ''CP'' None ''-'' ''Power coefficient'',
      Variable p ''CPi'' None ''-'' ''Induced (ideal) power coefficient'',
      Variable p ''CP'' None ''-'' ''Profile power coefficient'',
      Variable p ''CL_mean'' None ''-'' ''Mean lift coefficient'',
      Variable p ''CL_mean_max'' (Some CL_mean_max) ''-''
            ''Maximum allowed mean lift coefficient'',
      Variable p ''FOM'' None ''-'' ''Figure of merit'',
      Variable p ''ki'' (Some 1.1) ''-'' ''Induced power factor'',
      Variable p ''Cd0'' (Some 0.01) ''-''
            ''Blade two-dimensional zero-lift drag coefficient'',
      Variable p ''p_{ratio}'' None ''-'' ''Sound pressure ratio (p/p_{ref})'',
      Variable p ''p_{ratio_max}'' (Some (10 powr (SPL_req / 20))) ''-''
            ''Max allowed sound pressure ratio'',
      Variable p ''x'' (Some 500) ''ft''
            ''Distance from source at which to calculate sound'',
      Variable p ''k3'' (Some 0.006804) ''s**3/ft**3'' ''Sound-pressure constant''] its"
    by (auto simp: RotorsAero_setup_def Let_def split: Option.bind_splits)
  show ?thesis unfolding ra model.sel
    by (simp add: declare_var_def omega_symbol_def Let_def)
qed

section \<open>Properties of the models\<close>

lemma matches_own:
  "matches m [] name None = remdups (filter (\<lambda>v. symbol v = name) (declared m))"
  by (simp add: matches_def candidates_def Let_def)

lemma topvar_unique:
  "filter (\<lambda>v. symbol v = name) (declared m) = [v] \<Longrightarrow> topvar m name = Some v"
  by (simp add: topvar_def resolve_def matches_own)

lemma topvar_SomeD:
  assumes "topvar m name = Some v"
  shows "v \<in> set (declared m)" and "symbol v = name"
proof -
  let ?f = "remdups (filter (\<lambda>v. symbol v = name) (declared m))"
  from assms have "?f = [v]"
    by (auto simp: topvar_def resolve_def matches_own split: list.splits sum.splits)
  then have "v \<in> set ?f" by simp
  then show "v \<in> set (declared m)" and "symbol v = name" by auto
qed

lemma aircraft_fields:
  assumes "SimpleOnDemandAircraft_setup pa N L_D eta_cruise weight_fraction C_m N_crew n eta_electric
             = Some ac"
  shows "ac_rotors ac = Rotors_setup (child_path pa ''Rotors'' 0) N 0.1"
    and "ac_battery ac = Battery_setup (child_path pa ''Battery'' 1) C_m 0.8 3000 n"
    and "ac_powerSystem ac = PowerSystem_setup (child_path pa ''PowerSystem'' 4) eta_electric"
    and "ac_C_eff ac = Variable pa ''C_{eff}'' None ''kWh'' ''Effective battery capacity''"
    and "ac_MTOW ac = Variable pa ''MTOW'' None ''lbf'' ''Takeoff weight''"
    and "ac_L_D ac = Variable pa ''L_D'' (Some L_D) ''-'' ''Cruise L/D ratio''"
    and "ac_eta_cruise ac = Variable pa eta_symbol (Some eta_cruise) ''-''
            ''Cruise propulsive efficiency''"
    and "mpath (model ac) = pa"
    and "declared (model ac) =
          [Variable pa ''MTOW'' None ''lbf'' ''Takeoff weight'',
           Variable pa ''W_{noPassengers}'' None ''lbf'' ''Weight without passengers'',
           Variable pa ''C_{eff}'' None ''kWh'' ''Effective battery capacity'',
           Variable pa ''g'' (Some 9.807) ''m/s**2'' ''Gravitational acceleration'',
           Variable pa ''L_D'' (Some L_D) ''-'' ''Cruise L/D ratio'',
           Variable pa eta_symbol (Some eta_cruise) ''-'' ''Cruise propulsive efficiency'']"
  using assms
  by (auto simp: SimpleOnDemandAircraft_setup_def Let_def split: Option.bind_splits)

lemma aircraft_topvars:
  assumes "SimpleOnDemandAircraft_setup pa N L_D eta_cruise weight_fraction C_m N_crew n eta_electric
             = Some ac"
  shows "topvar (model ac) ''W_{noPassengers}'' =
           Some (Variable pa ''W_{noPassengers}'' None ''lbf'' ''Weight without passengers'')"
    and "topvar (model ac) ''MTOW'' = Some (Variable pa ''MTOW'' None ''lbf'' ''Takeoff weight'')"
  by (rule topvar_unique, simp add: aircraft_fields(9) [OF assms] eta_symbol_def)+

lemma Rotors_topvars:
  "topvar (Rotors_setup p N s) ''R'' = Some (Variable p ''R'' None ''ft'' ''Propeller radius'')"
  "topvar (Rotors_setup p N s) ''A'' = Some (Variable p ''A'' None ''ft^2'' ''Area of 1 rotor disk'')"
  "topvar (Rotors_setup p N s) ''A_{total}'' =
     Some (Variable p ''A_{total}'' None ''ft^2'' ''Combined area of all rotor disks'')"
  "topvar (Rotors_setup p N s) ''N'' = Some (Variable p ''N'' (Some N) ''-'' ''Number of rotors'')"
  "topvar (Rotors_setup p N s) ''s'' = Some (Variable p ''s'' (Some s) ''-'' ''Propeller solidity'')"
  "topvar (Rotors_setup p N s) ''W'' = Some (Variable p ''W'' (Some 0) ''lbf'' ''Rotor weight'')"
  by (rule topvar_unique, simp add: Rotors_setup_def Let_def)+

lemma FlightState_topvars:
  "topvar (FlightState_setup p stdatmo h) rho_symbol =
     Some (Variable p rho_symbol (Some (fst (stdatmo h))) ''kg/m^3'' ''Air density'')"
  "topvar (FlightState_setup p stdatmo h) ''a'' =
     Some (Variable p ''a'' (Some (snd (stdatmo h))) ''ft/s'' ''Speed of sound'')"
  by (rule topvar_unique, simp add: FlightState_setup_def Let_def rho_symbol_def)+

lemma RotorsAero_ok:
  "\<exists>ra. RotorsAero_setup p (Rotors_setup q N s) (FlightState_setup r stdatmo h) a b c = Some ra"
  by (simp add: RotorsAero_setup_def Let_def Rotors_topvars FlightState_topvars)

lemma BatteryPerformance_topvars:
  "topvar (model (Battery_performance p b)) ''E'' =
     Some (Variable p ''E'' None ''kWh'' ''Electrical energy used during segment'')"
  "topvar (model (Battery_performance p b)) ''P'' =
     Some (Variable p ''P'' None ''kW'' ''Power draw during segment'')"
  "topvar (model (Battery_performance p b)) ''t'' =
     Some (Variable p ''t'' None ''s'' ''Time over which battery is providing power'')"
  by (rule topvar_unique, simp add: Battery_performance_def BatteryPerformance_setup_def Let_def)+

lemma PowerSystemPerformance_topvars:
  "topvar (PowerSystem_performance p ps) ''P_{in}'' =
     Some (Variable p ''P_{in}'' None ''kW'' ''Input power (from the battery)'')"
  "topvar (PowerSystem_performance p ps) ''P_{out}'' =
     Some (Variable p ''P_{out}'' None ''kW'' ''Output power (to the motor or motors)'')"
  by (rule topvar_unique,
      simp add: PowerSystem_performance_def PowerSystemPerformance_setup_def Let_def)+

lemma RotorsAero_topvars:
  assumes "RotorsAero_setup p rotors flightState a b c = Some ra"
  shows "topvar ra ''P'' = Some (Variable p ''P'' None ''kW'' ''Total power'')"
    and "topvar ra ''T'' = Some (Variable p ''T'' None ''lbf'' ''Total thrust'')"
    and "topvar ra ''T/A'' = Some (Variable p ''T/A'' None ''lbf/ft**2'' ''Disk loading'')"
  using assms
  by (auto simp: RotorsAero_setup_def Let_def omega_symbol_def
           split: Option.bind_splits intro!: topvar_unique)

lemma LevelFlight_ok:
  "\<exists>fs. LevelFlight_setup p W ac V = Some fs"
  by (simp add: LevelFlight_setup_def Let_def BatteryPerformance_topvars
        PowerSystemPerformance_topvars)

lemma LevelFlight_SomeD:
  assumes "LevelFlight_setup p W ac V = Some fs"
  shows "seg_E fs = Variable p ''E'' None ''kWh''
            ''Electrical energy used during level-flight segment''"
    and "mpath (model fs) = p"
    and "mtype (model fs) = ''LevelFlight''"
    and "topvar (model fs) ''t'' = Some (Variable p ''t'' None ''s'' ''Time in level-flight segment'')"
    and "topvar (model fs) ''segment_range'' = Some (Variable p ''segment_range'' None
           ''nautical_mile'' ''Distance travelled during segment'')"
  using assms
  by (auto simp: LevelFlight_setup_def Let_def split: Option.bind_splits intro!: topvar_unique)

lemma Hover_ok:
  assumes "ac_rotors ac = Rotors_setup q N s"
  shows "\<exists>fs. Hover_setup p W ac (FlightState_setup r stdatmo h) t = Some fs"
proof -
  obtain ra where ra: "RotorsAero_setup (child_path p ''RotorsAero'' 0) (Rotors_setup q N s)
      (FlightState_setup r stdatmo h) 0.9 1.0 100 = Some ra"
    using RotorsAero_ok by blast
  show ?thesis
    using ra RotorsAero_topvars [OF ra]
    by (simp add: Hover_setup_def Let_def Rotors_performance_def assms
          BatteryPerformance_topvars PowerSystemPerformance_topvars)
qed

lemma Hover_SomeD:
  assumes "Hover_setup p W ac st t = Some fs"
  shows "seg_E fs = Variable p ''E'' None ''kWh'' ''Electrical energy used during hover segment''"
    and "mpath (model fs) = p"
    and "mtype (model fs) = ''Hover''"
    and "topvar (model fs) ''t'' = Some (Variable p ''t'' (Some t) ''s'' ''Time in hover segment'')"
    and "topvar (model fs) ''T/A'' = Some (Variable p ''T/A'' None ''lbf/ft**2''
           ''Disk loading during hover segment'')"
  using assms
  by (auto simp: Hover_setup_def Let_def split: Option.bind_splits intro!: topvar_unique)

lemma getitem_unique:
  "filter (\<lambda>v. symbol v = name) (all_declared m) = [v] \<Longrightarrow> getitem m name = Some v"
  by (simp add: getitem_def)

lemma RotorsAero_p_ratio:
  assumes "RotorsAero_setup p rotors (FlightState_setup r stdatmo h) a b c = Some ra"
  shows "filter (\<lambda>v. symbol v = ''p_{ratio}'') (all_declared ra) =
     [Variable p ''p_{ratio}'' None ''-'' ''Sound pressure ratio (p/p_{ref})'']"
  using assms
  by (auto simp: RotorsAero_setup_def Let_def FlightState_setup_def omega_symbol_def rho_symbol_def
           split: Option.bind_splits)

lemma performance_p_ratio:
  "filter (\<lambda>v. symbol v = ''p_{ratio}'') (all_declared (model (Battery_performance p b))) = []"
  "filter (\<lambda>v. symbol v = ''p_{ratio}'') (all_declared (PowerSystem_performance p ps)) = []"
  by (simp_all add: Battery_performance_def BatteryPerformance_setup_def
        PowerSystem_performance_def PowerSystemPerformance_setup_def Let_def)

lemma Hover_all_declared:
  assumes "Hover_setup p W ac st t = Some fs"
  shows "\<exists>ra. RotorsAero_setup (child_path p ''RotorsAero'' 0) (ac_rotors ac) st 0.9 1.0 100 = Some ra \<and>
     all_declared (model fs) = declared (model fs) @ all_declared ra
       @ all_declared (model (Battery_performance (child_path p ''BatteryPerformance'' 1) (ac_battery ac)))
       @ all_declared (PowerSystem_performance (child_path p ''PowerSystemPerformance'' 2)
            (ac_powerSystem ac))"
  using assms
  by (auto simp: Hover_setup_def Let_def Rotors_performance_def split: Option.bind_splits)

lemma Hover_declared:
  assumes "Hover_setup p W ac st t = Some fs"
  shows "declared (model fs) =
    [Variable p ''E'' None ''kWh'' ''Electrical energy used during hover segment'',
     Variable p ''P_{battery}'' None ''kW'' ''Power drawn (from batteries) during hover segment'',
     Variable p ''P_{rotors}'' None ''kW'' ''Power used (by rotors) during hover segment'',
     Variable p ''T'' None ''lbf'' ''Total thrust (from rotors) during hover segment'',
     Variable p ''T/A'' None ''lbf/ft**2'' ''Disk loading during hover segment'',
     Variable p ''t'' (Some t) ''s'' ''Time in hover segment'']"
  using assms
  by (auto simp: Hover_setup_def Let_def split: Option.bind_splits)

lemma Hover_getitem_p_ratio:
  assumes "Hover_setup p W ac (FlightState_setup r stdatmo h) t = Some fs"
  shows "getitem (model fs) ''p_{ratio}'' =
     Some (Variable (child_path p ''RotorsAero'' 0) ''p_{ratio}'' None ''-''
       ''Sound pressure ratio (p/p_{ref})'')"
proof -
  from Hover_all_declared [OF assms] obtain ra where
    ra: "RotorsAero_setup (child_path p ''RotorsAero'' 0) (ac_rotors ac)
           (FlightState_setup r stdatmo h) 0.9 1.0 100 = Some ra"
    and all: "all_declared (model fs) = declared (model fs) @ all_declared ra
       @ all_declared (model (Battery_performance (child_path p ''BatteryPerformance'' 1) (ac_battery ac)))
       @ all_declared (PowerSystem_performance (child_path p ''PowerSystemPerformance'' 2)
            (ac_powerSystem ac))"
    by blast
  show ?thesis
    by (rule getitem_unique)
       (simp add: all RotorsAero_p_ratio [OF ra] performance_p_ratio Hover_declared [OF assms])
qed

lemma Passengers_topvars:
  "topvar (Passengers_setup p w k) ''W'' = Some (Variable p ''W'' None ''lbf'' ''Total weight'')"
  "topvar (Passengers_setup p w k) ''N_{passengers}'' =
     Some (Variable p ''N_{passengers}'' (Some k) ''-'' ''Number of passengers'')"
  by (rule topvar_unique, simp add: Passengers_setup_def Let_def)+

lemma sizing_SomeD:
  assumes "OnDemandSizingMission_setup p stdatmo ac mission_range V_cruise V_loiter N_passengers
             time_in_hover reserve_type = Some m"
  shows "\<exists>fs0 fs1 fs2 fs3 fs4 fs5 wnp mtow.
    Hover_setup (child_path p ''Hover'' 2)
      (Variable p ''W_{mission}'' None ''lbf'' ''Weight of the aircraft during the mission'')
      ac (FlightState_setup (child_path p ''FlightState'' 1) stdatmo 0) time_in_hover = Some fs0 \<and>
    LevelFlight_setup (child_path p ''LevelFlight'' 3)
      (Variable p ''W_{mission}'' None ''lbf'' ''Weight of the aircraft during the mission'')
      ac V_cruise = Some fs1 \<and>
    Hover_setup (child_path p ''Hover'' 4)
      (Variable p ''W_{mission}'' None ''lbf'' ''Weight of the aircraft during the mission'')
      ac (FlightState_setup (child_path p ''FlightState'' 1) stdatmo 0) time_in_hover = Some fs2 \<and>
    Hover_setup (child_path p ''Hover'' 5)
      (Variable p ''W_{mission}'' None ''lbf'' ''Weight of the aircraft during the mission'')
      ac (FlightState_setup (child_path p ''FlightState'' 1) stdatmo 0) time_in_hover = Some fs3 \<and>
    LevelFlight_setup (child_path p ''LevelFlight'' 6)
      (Variable p ''W_{mission}'' None ''lbf'' ''Weight of the aircraft during the mission'')
      ac V_loiter = Some fs4 \<and>
    Hover_setup (child_path p ''Hover'' 7)
      (Variable p ''W_{mission}'' None ''lbf'' ''Weight of the aircraft during the mission'')
      ac (FlightState_setup (child_path p ''FlightState'' 1) stdatmo 0) time_in_hover = Some fs5 \<and>
    topvar (model ac) ''W_{noPassengers}'' = Some wnp \<and>
    topvar (model ac) ''MTOW'' = Some mtow \<and>
    sz_fs0 m = fs0 \<and> sz_fs1 m = fs1 \<and> sz_fs2 m = fs2 \<and> sz_fs3 m = fs3 \<and> sz_fs4 m = fs4 \<and>
    sz_fs5 m = fs5 \<and>
    items (model m) =
      [Constr (Geq (Var (Variable p ''W_{mission}'' None ''lbf''
                  ''Weight of the aircraft during the mission''))
         (Add (Var wnp) (Var (Variable (child_path p ''Passengers'' 0) ''W'' None ''lbf''
                  ''Total weight'')))),
       Constr (Geq (Var mtow) (Var (Variable p ''W_{mission}'' None ''lbf''
                  ''Weight of the aircraft during the mission''))),
       Sub (Passengers_setup (child_path p ''Passengers'' 0) 200 N_passengers)]
      @ (if reserve_type = ''FAA''
         then [Constr (Eq (Var (Variable p ''t_{loiter}'' (Some 45) ''minutes'' ''Loiter time''))
                 (Var (Variable (child_path p ''LevelFlight'' 6) ''t'' None ''s''
                   ''Time in level-flight segment'')))]
         else [])
      @ (if reserve_type = ''Uber''
         then [Constr (Eq (Var (Variable p ''R_{divert}'' (Some 2) ''nautical_mile''
                   ''Diversion distance''))
                 (Var (Variable (child_path p ''LevelFlight'' 6) ''segment_range'' None
                   ''nautical_mile'' ''Distance travelled during segment'')))]
         else [])
      @ [Constr (Eq (Var (Variable p ''mission_range'' (Some mission_range) ''nautical_mile''
                   ''Mission range''))
           (Var (Variable (child_path p ''LevelFlight'' 3) ''segment_range'' None
                   ''nautical_mile'' ''Distance travelled during segment''))),
         Constr (Geq (Var (ac_C_eff ac))
           (Add (Add (Add (Add (Add (Var (seg_E fs0)) (Var (seg_E fs1))) (Var (seg_E fs2)))
              (Var (seg_E fs3))) (Var (seg_E fs4))) (Var (seg_E fs5)))),
         Sub (model fs0), Sub (model fs1), Sub (model fs2), Sub (model fs3), Sub (model fs4),
         Sub (model fs5),
         Constr (Eq (Var (Variable p ''p_{ratio}'' None ''-'' ''Sound pressure ratio in hover''))
           (Var (Variable (child_path (child_path p ''Hover'' 2) ''RotorsAero'' 0) ''p_{ratio}''
              None ''-'' ''Sound pressure ratio (p/p_{ref})'')))]
      @ items (FlightState_setup (child_path p ''FlightState'' 1) stdatmo 0)"
  using assms
  by (auto simp: OnDemandSizingMission_setup_def Let_def Passengers_topvars
        LevelFlight_SomeD Hover_getitem_p_ratio
      split: Option.bind_splits if_splits)

subsection \<open>Lookup\<close>





subsection \<open>Substitution\<close>

lemma vars_of_map_vars: "vars_of (map_vars f e) = map f (vars_of e)"
  by (induction e) simp_all

lemma cvars_map_cvars: "cvars (map_cvars f c) = map f (cvars c)"
  by (cases c) (simp_all add: cvars_def vars_of_map_vars)

lemma variables_map: "variables (map (map_cvars f) cs) = map f (variables cs)"
  by (induction cs) (simp_all add: variables_def cvars_map_cvars)

lemma rejected_after_pin:
  assumes "target \<notin> set (variables cs) \<or> val target \<noteq> None"
  shows "target \<notin> set (variables (map (map_cvars (pin other x)) cs)) \<or> val target \<noteq> None"
proof (cases "val target = None")
  case False
  then show ?thesis by simp
next
  case True
  with assms have absent: "target \<notin> set (variables cs)" by simp
  have "target \<notin> pin other x ` set (variables cs)"
  proof
    assume "target \<in> pin other x ` set (variables cs)"
    then obtain v where v: "v \<in> set (variables cs)" and t: "target = pin other x v" by blast
    show False
    proof (cases "v = other")
      case True
      with t have "val target = Some x" by (simp add: pin_def)
      with \<open>val target = None\<close> show False by simp
    next
      case False
      with t have "target = v" by (simp add: pin_def)
      with v absent show False by simp
    qed
  qed
  then show ?thesis by (simp add: variables_map)
qed

lemma apply_entries_rejects:
  assumes "(target, x) \<in> set table"
    and "target \<notin> set (variables cs) \<or> val target \<noteq> None"
  shows "apply_entries cs table = Inl SubstitutionTargetError"
  using assms
proof (induction cs table rule: apply_entries.induct)
  case (1 cs)
  then show ?case by simp
next
  case (2 cs t y table)
  show ?case
  proof (cases "t \<in> set (variables cs) \<and> val t = None")
    case False
    then show ?thesis by auto
  next
    case True
    with "2.prems" have mem: "(target, x) \<in> set table" by auto
    from "2.prems"(2) have "target \<notin> set (variables (map (map_cvars (pin t y)) cs))
        \<or> val target \<noteq> None"
      by (rule rejected_after_pin)
    with True mem "2.IH" show ?thesis by simp
  qed
qed

lemma apply_entries_accepts:
  assumes "apply_entries cs table = Inr cs'"
  shows "length cs' = length cs"
  using assms
  by (induction cs table rule: apply_entries.induct) (auto split: if_splits)

subsection \<open>Instance paths\<close>

lemma node_paths_extend:
  "q \<in> set (node_paths p m) \<Longrightarrow> \<exists>r. q = p @ r"
  "q \<in> set (node_paths_from p i ms) \<Longrightarrow> \<exists>ty j r. i \<le> j \<and> q = p @ (ty, j) # r"
proof (induction p m and p i ms arbitrary: q and q rule: node_paths_node_paths_from.induct)
  case (1 p ty q' vs its)
  from "1.prems" consider "q = p" | "q \<in> set (node_paths_from p 0 (children its))" by auto
  then show ?case
  proof cases
    case 1
    then show ?thesis by simp
  next
    case 2
    with "1.IH" obtain ty j r where "q = p @ (ty, j) # r" by blast
    then show ?thesis by blast
  qed
next
  case (2 p i)
  then show ?case by simp
next
  case (3 p i m ms)
  from "3.prems" consider "q \<in> set (node_paths (child_path p (mtype m) i) m)"
    | "q \<in> set (node_paths_from p (Suc i) ms)" by auto
  then show ?case
  proof cases
    case 1
    with "3.IH"(1) obtain r where "q = child_path p (mtype m) i @ r" by blast
    then have "i \<le> i \<and> q = p @ (mtype m, i) # r" by (simp add: child_path_def)
    then show ?thesis by blast
  next
    case 2
    with "3.IH"(2) obtain ty j r where "Suc i \<le> j" and "q = p @ (ty, j) # r" by blast
    then have "i \<le> j \<and> q = p @ (ty, j) # r" by simp
    then show ?thesis by blast
  qed
qed

lemma node_paths_distinct:
  "distinct (node_paths p m)"
  "distinct (node_paths_from p i ms)"
proof (induction p m and p i ms rule: node_paths_node_paths_from.induct)
  case (1 p ty q vs its)
  have "p \<notin> set (node_paths_from p 0 (children its))"
  proof
    assume "p \<in> set (node_paths_from p 0 (children its))"
    from node_paths_extend(2) [OF this] obtain ty j r where "p = p @ (ty, j) # r" by blast
    then show False by simp
  qed
  with 1 show ?case by simp
next
  case (2 p i)
  then show ?case by simp
next
  case (3 p i m ms)
  have "set (node_paths (child_path p (mtype m) i) m) \<inter> set (node_paths_from p (Suc i) ms) = {}"
  proof (rule ccontr)
    assume "\<not> ?thesis"
    then obtain q where a: "q \<in> set (node_paths (child_path p (mtype m) i) m)"
      and b: "q \<in> set (node_paths_from p (Suc i) ms)" by blast
    from node_paths_extend(1) [OF a] obtain r where r: "q = p @ (mtype m, i) # r"
      by (auto simp: child_path_def)
    from node_paths_extend(2) [OF b] obtain ty j r' where "Suc i \<le> j" and "q = p @ (ty, j) # r'"
      by blast
    with r show False by simp
  qed
  with 3 show ?case by simp
qed

lemma qualified_names_extend:
  "n \<in> set (qualified_names p m) \<Longrightarrow> \<exists>r. fst n = p @ r"
  "n \<in> set (qualified_names_from p i ms) \<Longrightarrow> \<exists>ty j r. i \<le> j \<and> fst n = p @ (ty, j) # r"
proof (induction p m and p i ms arbitrary: n and n rule: qualified_names_qualified_names_from.induct)
  case (1 p ty q' vs its)
  from "1.prems" consider "n \<in> set (map (\<lambda>v. (p, symbol v)) vs)"
    | "n \<in> set (qualified_names_from p 0 (children its))" by auto
  then show ?case
  proof cases
    case 1
    then have "fst n = p" by auto
    then show ?thesis by simp
  next
    case 2
    with "1.IH" obtain ty j r where "fst n = p @ (ty, j) # r" by blast
    then show ?thesis by blast
  qed
next
  case (2 p i)
  then show ?case by simp
next
  case (3 p i m ms)
  from "3.prems" consider "n \<in> set (qualified_names (child_path p (mtype m) i) m)"
    | "n \<in> set (qualified_names_from p (Suc i) ms)" by auto
  then show ?case
  proof cases
    case 1
    with "3.IH"(1) obtain r where "fst n = child_path p (mtype m) i @ r" by blast
    then have "i \<le> i \<and> fst n = p @ (mtype m, i) # r" by (simp add: child_path_def)
    then show ?thesis by blast
  next
    case 2
    with "3.IH"(2) obtain ty j r where "Suc i \<le> j" and "fst n = p @ (ty, j) # r" by blast
    then have "i \<le> j \<and> fst n = p @ (ty, j) # r" by simp
    then show ?thesis by blast
  qed
qed

lemma qualified_names_distinct:
  "locally_unique m \<Longrightarrow> distinct (qualified_names p m)"
  "list_all locally_unique ms \<Longrightarrow> distinct (qualified_names_from p i ms)"
proof (induction p m and p i ms rule: qualified_names_qualified_names_from.induct)
  case (1 p ty q vs its)
  have own: "distinct (map (\<lambda>v. (p, symbol v)) vs)"
    using "1.prems" by (simp add: distinct_map inj_on_def)
  have "set (map (\<lambda>v. (p, symbol v)) vs) \<inter> set (qualified_names_from p 0 (children its)) = {}"
  proof (rule ccontr)
    assume "\<not> ?thesis"
    then obtain n where a: "n \<in> set (map (\<lambda>v. (p, symbol v)) vs)"
      and b: "n \<in> set (qualified_names_from p 0 (children its))" by blast
    from a have "fst n = p" by auto
    moreover from qualified_names_extend(2) [OF b] obtain ty j r where "fst n = p @ (ty, j) # r"
      by blast
    ultimately show False by simp
  qed
  with own 1 show ?case by simp
next
  case (2 p i)
  then show ?case by simp
next
  case (3 p i m ms)
  have "set (qualified_names (child_path p (mtype m) i) m)
          \<inter> set (qualified_names_from p (Suc i) ms) = {}"
  proof (rule ccontr)
    assume "\<not> ?thesis"
    then obtain n where a: "n \<in> set (qualified_names (child_path p (mtype m) i) m)"
      and b: "n \<in> set (qualified_names_from p (Suc i) ms)" by blast
    from qualified_names_extend(1) [OF a] obtain r where r: "fst n = p @ (mtype m, i) # r"
      by (auto simp: child_path_def)
    from qualified_names_extend(2) [OF b] obtain ty j r' where "Suc i \<le> j"
      and "fst n = p @ (ty, j) # r'" by blast
    with r show False by simp
  qed
  with 3 show ?case by simp
qed

subsection \<open>Builds that succeed\<close>

lemma aircraft_ok:
  "\<exists>ac. SimpleOnDemandAircraft_setup pa N L_D eta_cruise weight_fraction C_m N_crew n eta_electric
          = Some ac"
  by (simp add: SimpleOnDemandAircraft_setup_def Let_def topvar_def resolve_def matches_own
        Battery_setup_def Rotors_setup_def Crew_setup_def SimpleOnDemandStructure_setup_def
        PowerSystem_setup_def)

lemma sizing_ok:
  assumes "SimpleOnDemandAircraft_setup pa N L_D eta_cruise weight_fraction C_m N_crew n eta_electric
             = Some ac"
  shows "\<exists>m. OnDemandSizingMission_setup p stdatmo ac mission_range V_cruise V_loiter N_passengers
             time_in_hover reserve_type = Some m"
proof -
  let ?W = "Variable p ''W_{mission}'' None ''lbf'' ''Weight of the aircraft during the mission''"
  let ?hs = "FlightState_setup (child_path p ''FlightState'' 1) stdatmo 0"
  note rot = aircraft_fields(1) [OF assms]
  obtain fs0 where fs0: "Hover_setup (child_path p ''Hover'' 2) ?W ac ?hs time_in_hover = Some fs0"
    using Hover_ok [OF rot] by blast
  obtain fs2 where fs2: "Hover_setup (child_path p ''Hover'' 4) ?W ac ?hs time_in_hover = Some fs2"
    using Hover_ok [OF rot] by blast
  obtain fs3 where fs3: "Hover_setup (child_path p ''Hover'' 5) ?W ac ?hs time_in_hover = Some fs3"
    using Hover_ok [OF rot] by blast
  obtain fs5 where fs5: "Hover_setup (child_path p ''Hover'' 7) ?W ac ?hs time_in_hover = Some fs5"
    using Hover_ok [OF rot] by blast
  obtain fs1 where fs1: "LevelFlight_setup (child_path p ''LevelFlight'' 3) ?W ac V_cruise = Some fs1"
    using LevelFlight_ok by blast
  obtain fs4 where fs4: "LevelFlight_setup (child_path p ''LevelFlight'' 6) ?W ac V_loiter = Some fs4"
    using LevelFlight_ok by blast
  show ?thesis
    using fs0 fs1 fs2 fs3 fs4 fs5 Hover_getitem_p_ratio [OF fs0]
    by (simp add: OnDemandSizingMission_setup_def Let_def
          aircraft_topvars [OF assms] Passengers_topvars
          LevelFlight_SomeD [OF fs4] LevelFlight_SomeD [OF fs1])
qed

subsection \<open>The sizing mission\<close>

lemma sizing_own_constraints:
  assumes "OnDemandSizingMission_setup p stdatmo ac mission_range V_cruise V_loiter N_passengers
             time_in_hover reserve_type = Some m"
  shows "\<exists>c1 c2 c3 c4.
    own_constraints (items (model m)) =
      [c1, c2]
      @ (if reserve_type = ''FAA''
         then [Eq (Var (Variable p ''t_{loiter}'' (Some 45) ''minutes'' ''Loiter time''))
                 (Var (Variable (child_path p ''LevelFlight'' 6) ''t'' None ''s''
                   ''Time in level-flight segment''))]
         else [])
      @ (if reserve_type = ''Uber''
         then [Eq (Var (Variable p ''R_{divert}'' (Some 2) ''nautical_mile''
                   ''Diversion distance''))
                 (Var (Variable (child_path p ''LevelFlight'' 6) ''segment_range'' None
                   ''nautical_mile'' ''Distance travelled during segment''))]
         else [])
      @ [Eq (Var (Variable p ''mission_range'' (Some mission_range) ''nautical_mile''
                   ''Mission range''))
           (Var (Variable (child_path p ''LevelFlight'' 3) ''segment_range'' None
                   ''nautical_mile'' ''Distance travelled during segment'')),
         c3,
         Eq (Var (Variable p ''p_{ratio}'' None ''-'' ''Sound pressure ratio in hover'')) c4,
         Eq (Var (Variable (child_path p ''FlightState'' 1) ''a'' (Some (snd (stdatmo 0))) ''ft/s''
               ''Speed of sound''))
            (Var (Variable (child_path p ''FlightState'' 1) ''a'' (Some (snd (stdatmo 0))) ''ft/s''
               ''Speed of sound'')),
         Eq (Var (Variable (child_path p ''FlightState'' 1) rho_symbol (Some (fst (stdatmo 0)))
               ''kg/m^3'' ''Air density''))
            (Var (Variable (child_path p ''FlightState'' 1) rho_symbol (Some (fst (stdatmo 0)))
               ''kg/m^3'' ''Air density''))]
    \<and> (\<exists>a b. c1 = Geq a b) \<and> (\<exists>a b. c2 = Geq a b) \<and> (\<exists>a b. c3 = Geq a b)
    \<and> mpath (model (sz_fs4 m)) = child_path p ''LevelFlight'' 6"
  using sizing_SomeD [OF assms]
  apply (elim exE conjE)
  subgoal for fs0 fs1 fs2 fs3 fs4 fs5 wnp mtow
    using LevelFlight_SomeD(2) [of "child_path p ''LevelFlight'' 6" _ ac V_loiter fs4]
    by (simp add: own_constraints_append FlightState_setup_def Let_def)
  done

lemma sizing_reserve_counts:
  assumes "OnDemandSizingMission_setup p stdatmo ac mission_range V_cruise V_loiter N_passengers
             time_in_hover reserve_type = Some m"
  shows "length (duration_constraints m) = (if reserve_type = ''FAA'' then 1 else 0)"
    and "length (distance_constraints m) = (if reserve_type = ''Uber'' then 1 else 0)"
  using sizing_own_constraints [OF assms]
  by (auto simp: duration_constraints_def distance_constraints_def fixes_of_segment_def
        child_path_def rho_symbol_def split: expr.splits)

lemma testAircraft_ok: "\<exists>ac. testAircraft = Some ac"
  unfolding testAircraft_def by (rule aircraft_ok)

subsection \<open>Energy budgets\<close>

lemma eval_foldl_Add: "eval \<rho> (foldl Add e es) = eval \<rho> e + sum_list (map (eval \<rho>) es)"
  by (induction es arbitrary: e) simp_all

lemma addends_foldl_Add:
  "addends (foldl Add e (map Var vs)) = addends e @ map Var vs"
  by (induction vs arbitrary: e) simp_all

lemma addends_chain:
  "segs \<noteq> [] \<Longrightarrow> addends (rhs (chain tot segs)) = map (Var \<circ> seg_E) segs"
  by (cases segs) (simp_all add: addends_foldl_Add [of _ "map seg_E _", simplified])

lemma holds_chain:
  "holds \<rho> (chain tot segs) = (sum_list (map (\<lambda>s. \<rho> (seg_E s)) segs) \<le> \<rho> tot)"
  by (cases segs) (simp_all add: eval_foldl_Add comp_def)

lemma sum_list_permuted:
  fixes f :: "'a \<Rightarrow> real"
  assumes "mset xs = mset ys"
  shows "sum_list (map f xs) = sum_list (map f ys)"
proof -
  have "sum_list (map f xs) = sum_mset (image_mset f (mset xs))"
    by (simp add: sum_mset_sum_list [symmetric])
  also have "\<dots> = sum_mset (image_mset f (mset ys))" using assms by simp
  also have "\<dots> = sum_list (map f ys)" by (simp add: sum_mset_sum_list [symmetric])
  finally show ?thesis .
qed

lemma sizing_budget:
  assumes ac: "SimpleOnDemandAircraft_setup pa N L_D eta_cruise weight_fraction C_m N_crew n
     eta_electric = Some ac"
    and m: "OnDemandSizingMission_setup p stdatmo ac mission_range V_cruise V_loiter N_passengers
             time_in_hover reserve_type = Some m"
  shows "budget_constraints (ac_C_eff ac) (items (model m)) = [chain (ac_C_eff ac) (sz_segments m)]
    \<and> map seg_E (sz_segments m) =
         [Variable (child_path p ''Hover'' 2) ''E'' None ''kWh''
            ''Electrical energy used during hover segment'',
          Variable (child_path p ''LevelFlight'' 3) ''E'' None ''kWh''
            ''Electrical energy used during level-flight segment'',
          Variable (child_path p ''Hover'' 4) ''E'' None ''kWh''
            ''Electrical energy used during hover segment'',
          Variable (child_path p ''Hover'' 5) ''E'' None ''kWh''
            ''Electrical energy used during hover segment'',
          Variable (child_path p ''LevelFlight'' 6) ''E'' None ''kWh''
            ''Electrical energy used during level-flight segment'',
          Variable (child_path p ''Hover'' 7) ''E'' None ''kWh''
            ''Electrical energy used during hover segment'']
    \<and> map (mpath \<circ> model) (sz_segments m) =
          [child_path p ''Hover'' 2, child_path p ''LevelFlight'' 3, child_path p ''Hover'' 4,
           child_path p ''Hover'' 5, child_path p ''LevelFlight'' 6, child_path p ''Hover'' 7]"
  using sizing_SomeD [OF m]
  apply (elim exE conjE)
  subgoal premises prems for fs0 fs1 fs2 fs3 fs4 fs5 wnp mtow
  proof -
    have mtow: "mtow = Variable pa ''MTOW'' None ''lbf'' ''Takeoff weight''"
      using prems(8) aircraft_topvars(2) [OF ac] by simp
    note ceff = aircraft_fields(4) [OF ac]
    have segs: "sz_segments m = [fs0, fs1, fs2, fs3, fs4, fs5]"
      by (simp add: sz_segments_def prems(9-14))
    have b: "budget_constraints (ac_C_eff ac) (items (model m))
        = [chain (ac_C_eff ac) (sz_segments m)]"
      unfolding segs prems(15) budget_constraints_def own_constraints_append ceff mtow
      by (cases "reserve_type = ''FAA''"; cases "reserve_type = ''Uber''")
         (simp_all add: FlightState_setup_def Let_def Variable_def)
    have e: "map seg_E (sz_segments m) =
         [Variable (child_path p ''Hover'' 2) ''E'' None ''kWh''
            ''Electrical energy used during hover segment'',
          Variable (child_path p ''LevelFlight'' 3) ''E'' None ''kWh''
            ''Electrical energy used during level-flight segment'',
          Variable (child_path p ''Hover'' 4) ''E'' None ''kWh''
            ''Electrical energy used during hover segment'',
          Variable (child_path p ''Hover'' 5) ''E'' None ''kWh''
            ''Electrical energy used during hover segment'',
          Variable (child_path p ''LevelFlight'' 6) ''E'' None ''kWh''
            ''Electrical energy used during level-flight segment'',
          Variable (child_path p ''Hover'' 7) ''E'' None ''kWh''
            ''Electrical energy used during hover segment'']"
      unfolding segs
      by (simp add: Hover_SomeD(1) [OF prems(1)] LevelFlight_SomeD(1) [OF prems(2)]
            Hover_SomeD(1) [OF prems(3)] Hover_SomeD(1) [OF prems(4)]
            LevelFlight_SomeD(1) [OF prems(5)] Hover_SomeD(1) [OF prems(6)])
    have pth: "map (mpath \<circ> model) (sz_segments m) =
          [child_path p ''Hover'' 2, child_path p ''LevelFlight'' 3, child_path p ''Hover'' 4,
           child_path p ''Hover'' 5, child_path p ''LevelFlight'' 6, child_path p ''Hover'' 7]"
      unfolding segs
      by (simp add: Hover_SomeD(2) [OF prems(1)] LevelFlight_SomeD(2) [OF prems(2)]
            Hover_SomeD(2) [OF prems(3)] Hover_SomeD(2) [OF prems(4)]
            LevelFlight_SomeD(2) [OF prems(5)] Hover_SomeD(2) [OF prems(6)])
    from b e pth show ?thesis by blast
  qed
  done

lemma typical_SomeD:
  assumes "OnDemandTypicalMission_setup p stdatmo ac mission_range V_cruise N_passengers
     time_in_hover cost_per_weight pilot_salary mechanic_salary = Some m"
  shows "\<exists>fs0 fs1 fs2 wnp mtow.
    Hover_setup (child_path p ''Hover'' 2)
      (Variable p ''W_{mission}'' None ''lbf'' ''Weight of the aircraft during the mission'')
      ac (FlightState_setup (child_path p ''FlightState'' 1) stdatmo 0) time_in_hover = Some fs0 \<and>
    LevelFlight_setup (child_path p ''LevelFlight'' 3)
      (Variable p ''W_{mission}'' None ''lbf'' ''Weight of the aircraft during the mission'')
      ac V_cruise = Some fs1 \<and>
    Hover_setup (child_path p ''Hover'' 4)
      (Variable p ''W_{mission}'' None ''lbf'' ''Weight of the aircraft during the mission'')
      ac (FlightState_setup (child_path p ''FlightState'' 1) stdatmo 0) time_in_hover = Some fs2 \<and>
    topvar (model ac) ''W_{noPassengers}'' = Some wnp \<and>
    topvar (model ac) ''MTOW'' = Some mtow \<and>
    ty_fs0 m = fs0 \<and> ty_fs1 m = fs1 \<and> ty_fs2 m = fs2 \<and>
    items (model m) =
      [Constr (Geq (Var (Variable p ''W_{mission}'' None ''lbf''
                  ''Weight of the aircraft during the mission''))
         (Add (Var wnp) (Var (Variable (child_path p ''Passengers'' 0) ''W'' None ''lbf''
                  ''Total weight'')))),
       Constr (Geq (Var mtow) (Var (Variable p ''W_{mission}'' None ''lbf''
                  ''Weight of the aircraft during the mission''))),
       Sub (Passengers_setup (child_path p ''Passengers'' 0) 200 N_passengers),
       Constr (Eq (Var (Variable p ''mission_range'' (Some mission_range) ''nautical_mile''
                   ''Mission range (not including reserves)''))
           (Var (Variable (child_path p ''LevelFlight'' 3) ''segment_range'' None
                   ''nautical_mile'' ''Distance travelled during segment''))),
       Constr (Geq (Var (ac_C_eff ac))
           (Add (Add (Var (seg_E fs0)) (Var (seg_E fs1))) (Var (seg_E fs2)))),
       Sub (model fs0), Sub (model fs1), Sub (model fs2),
       Constr (Eq (Var (Variable p ''p_{ratio}'' None ''-'' ''Sound pressure ratio in hover''))
           (Var (Variable (child_path (child_path p ''Hover'' 2) ''RotorsAero'' 0) ''p_{ratio}''
              None ''-'' ''Sound pressure ratio (p/p_{ref})'')))]
      @ items (FlightState_setup (child_path p ''FlightState'' 1) stdatmo 0)
      @ [Constr (Eq (Var (Variable p ''cost_per_trip'' None ''-''
                   ''Cost (in dollars) for one trip''))
           (Mul (Var (Variable p ''cost_per_trip_per_passenger'' None ''-''
                   ''Cost (in dollars) for one trip, per passenger''))
                (Var (Variable (child_path p ''Passengers'' 0) ''N_{passengers}''
                   (Some N_passengers) ''-'' ''Number of passengers'')))),
         Constr (Geq (Var (Variable p ''cost_per_trip'' None ''-''
                   ''Cost (in dollars) for one trip''))
           (Add (Add (Add (Var (Variable p ''c_{vehicle}'' None ''-''
                   ''Vehicle amortized cost (per mission)''))
              (Var (Variable p ''c_{energy}'' None ''-'' ''Energy cost (per mission)'')))
              (Var (Variable p ''c_{pilot}'' None ''-'' ''Pilot cost (per mission)'')))
              (Var (Variable p ''c_{maintenance}'' None ''-''
                   ''Maintenance cost per mission'')))),
         Constr (Eq (Var (Variable p ''c_{vehicle}'' None ''-''
                   ''Vehicle amortized cost (per mission)''))
           (Div (Mul (Var (Variable p ''purchase_price'' None ''-''
                   ''Purchase price of the aircraft''))
              (Var (Variable p ''t_{mission}'' None ''minutes'' ''Time to complete mission'')))
              (Var (Variable p ''vehicle_life'' (Some 10) ''years'' ''Vehicle lifetime'')))),
         Constr (Geq (Var (Variable p ''t_{mission}'' None ''minutes''
                   ''Time to complete mission''))
           (Add (Add (Var (Variable (child_path p ''Hover'' 2) ''t'' (Some time_in_hover) ''s''
                   ''Time in hover segment''))
              (Var (Variable (child_path p ''LevelFlight'' 3) ''t'' None ''s''
                   ''Time in level-flight segment'')))
              (Var (Variable (child_path p ''Hover'' 4) ''t'' (Some time_in_hover) ''s''
                   ''Time in hover segment'')))),
         Constr (Eq (Var (Variable p ''purchase_price'' None ''-''
                   ''Purchase price of the aircraft''))
           (Mul (Var (Variable p ''cost_per_weight'' (Some cost_per_weight) ''lbf**-1''
                   ''Cost per unit weight of the aircraft''))
              (Var (ac_MTOW ac)))),
         Constr (Eq (Var (Variable p ''c_{energy}'' None ''-'' ''Energy cost (per mission)''))
           (Mul (Var (Variable p ''E_{mission}'' None ''kWh''
                   ''Electrical energy used during mission''))
              (Var (Variable p ''cost_per_energy'' (Some 0.12) ''kWh**-1''
                   ''Price of electricity (dollars per kWh)'')))),
         Constr (Geq (Var (Variable p ''E_{mission}'' None ''kWh''
                   ''Electrical energy used during mission''))
           (Add (Add (Var (seg_E fs0)) (Var (seg_E fs1))) (Var (seg_E fs2)))),
         Constr (Eq (Var (Variable p ''c_{pilot}'' None ''-'' ''Pilot cost (per mission)''))
           (Mul (Var (Variable p ''pilot_salary'' (Some pilot_salary) ''hr**-1''
                   ''Pilot salary''))
              (Var (Variable p ''t_{mission}'' None ''minutes'' ''Time to complete mission'')))),
         Constr (Eq (Var (Variable p ''c_{maintenance}'' None ''-''
                   ''Maintenance cost per mission''))
           (Div (Mul (Var (Variable p ''overhaul_cost'' None ''-'' ''Cost of 1 overhaul''))
              (Var (Variable p ''t_{mission}'' None ''minutes'' ''Time to complete mission'')))
              (Var (Variable p ''time_between_overhauls'' (Some 50) ''hours''
                   ''Time between overhauls'')))),
         Constr (Eq (Var (Variable p ''overhaul_cost'' None ''-'' ''Cost of 1 overhaul''))
           (Mul (Mul (Var (Variable p ''N_{mechanics}'' (Some 2) ''-''
                   ''Number of mechanics required for an overhaul''))
              (Var (Variable p ''overhaul_time'' (Some 2) ''hours''
                   ''Time to complete 1 overhaul'')))
              (Var (Variable p ''mechanic_salary'' (Some mechanic_salary) ''hr**-1''
                   ''Mechanic salary''))))]"
  using assms
  by (auto simp: OnDemandTypicalMission_setup_def Let_def Passengers_topvars
        LevelFlight_SomeD Hover_SomeD Hover_getitem_p_ratio
      split: Option.bind_splits)

lemma typical_ok:
  assumes "SimpleOnDemandAircraft_setup pa N L_D eta_cruise weight_fraction C_m N_crew n eta_electric
             = Some ac"
  shows "\<exists>m. OnDemandTypicalMission_setup p stdatmo ac mission_range V_cruise N_passengers
     time_in_hover cost_per_weight pilot_salary mechanic_salary = Some m"
proof -
  let ?W = "Variable p ''W_{mission}'' None ''lbf'' ''Weight of the aircraft during the mission''"
  let ?hs = "FlightState_setup (child_path p ''FlightState'' 1) stdatmo 0"
  note rot = aircraft_fields(1) [OF assms]
  obtain fs0 where fs0: "Hover_setup (child_path p ''Hover'' 2) ?W ac ?hs time_in_hover = Some fs0"
    using Hover_ok [OF rot] by blast
  obtain fs2 where fs2: "Hover_setup (child_path p ''Hover'' 4) ?W ac ?hs time_in_hover = Some fs2"
    using Hover_ok [OF rot] by blast
  obtain fs1 where fs1: "LevelFlight_setup (child_path p ''LevelFlight'' 3) ?W ac V_cruise = Some fs1"
    using LevelFlight_ok by blast
  show ?thesis
    using fs0 fs1 fs2 Hover_getitem_p_ratio [OF fs0]
    by (simp add: OnDemandTypicalMission_setup_def Let_def
          aircraft_topvars [OF assms] Passengers_topvars
          LevelFlight_SomeD [OF fs1] Hover_SomeD [OF fs0] Hover_SomeD [OF fs2])
qed

lemma typical_budget:
  assumes ac: "SimpleOnDemandAircraft_setup pa N L_D eta_cruise weight_fraction C_m N_crew n
     eta_electric = Some ac"
    and m: "OnDemandTypicalMission_setup p stdatmo ac mission_range V_cruise N_passengers
     time_in_hover cost_per_weight pilot_salary mechanic_salary = Some m"
  shows "budget_constraints (ac_C_eff ac) (items (model m)) = [chain (ac_C_eff ac) (ty_segments m)]
    \<and> map seg_E (ty_segments m) =
         [Variable (child_path p ''Hover'' 2) ''E'' None ''kWh''
            ''Electrical energy used during hover segment'',
          Variable (child_path p ''LevelFlight'' 3) ''E'' None ''kWh''
            ''Electrical energy used during level-flight segment'',
          Variable (child_path p ''Hover'' 4) ''E'' None ''kWh''
            ''Electrical energy used during hover segment'']"
  using typical_SomeD [OF m]
  apply (elim exE conjE)
  subgoal premises prems for fs0 fs1 fs2 wnp mtow
  proof -
    have mtow: "mtow = Variable pa ''MTOW'' None ''lbf'' ''Takeoff weight''"
      using prems(5) aircraft_topvars(2) [OF ac] by simp
    note ceff = aircraft_fields(4) [OF ac]
    have segs: "ty_segments m = [fs0, fs1, fs2]"
      by (simp add: ty_segments_def prems(6-8))
    have b: "budget_constraints (ac_C_eff ac) (items (model m))
        = [chain (ac_C_eff ac) (ty_segments m)]"
      unfolding segs prems(9) budget_constraints_def own_constraints_append ceff mtow
      by (simp add: FlightState_setup_def Let_def Variable_def)
    have e: "map seg_E (ty_segments m) =
         [Variable (child_path p ''Hover'' 2) ''E'' None ''kWh''
            ''Electrical energy used during hover segment'',
          Variable (child_path p ''LevelFlight'' 3) ''E'' None ''kWh''
            ''Electrical energy used during level-flight segment'',
          Variable (child_path p ''Hover'' 4) ''E'' None ''kWh''
            ''Electrical energy used during hover segment'']"
      unfolding segs
      by (simp add: Hover_SomeD(1) [OF prems(1)] LevelFlight_SomeD(1) [OF prems(2)]
            Hover_SomeD(1) [OF prems(3)])
    from b e show ?thesis by blast
  qed
  done

lemma distinct_energies:
  "distinct
     [Variable (child_path p ''Hover'' 2) ''E'' None ''kWh''
        ''Electrical energy used during hover segment'',
      Variable (child_path p ''LevelFlight'' 3) ''E'' None ''kWh''
        ''Electrical energy used during level-flight segment'',
      Variable (child_path p ''Hover'' 4) ''E'' None ''kWh''
        ''Electrical energy used during hover segment'',
      Variable (child_path p ''Hover'' 5) ''E'' None ''kWh''
        ''Electrical energy used during hover segment'',
      Variable (child_path p ''LevelFlight'' 6) ''E'' None ''kWh''
        ''Electrical energy used during level-flight segment'',
      Variable (child_path p ''Hover'' 7) ''E'' None ''kWh''
        ''Electrical energy used during hover segment'']"
  by (simp add: Variable_def child_path_def)

lemma testSizingMission_ok: "\<exists>m. testSizingMission stdatmo reserve_type = Some m"
proof -
  obtain ac where ac: "testAircraft = Some ac" using testAircraft_ok by blast
  then have "SimpleOnDemandAircraft_setup [(''SimpleOnDemandAircraft'', 0)] 12 14 0.85 0.3444
     400 1 1 0.95 = Some ac" by (simp add: testAircraft_def)
  from sizing_ok [OF this] show ?thesis unfolding testSizingMission_def ac by simp
qed

subsection \<open>Segments, weights and the battery\<close>

lemma LevelFlight_declared:
  assumes "LevelFlight_setup p W ac V = Some fs"
  shows "declared (model fs) =
    [Variable p ''E'' None ''kWh'' ''Electrical energy used during level-flight segment'',
     Variable p ''P_{battery}'' None ''kW'' ''Power drawn (from batteries) during segment'',
     Variable p ''P_{cruise}'' None ''kW''
       ''Power used (by propulsion system) during cruise segment'',
     Variable p ''T'' None ''lbf'' ''Thrust during level-flight  segment'',
     Variable p ''D'' None ''lbf'' ''Drag during level-flight segment'',
     Variable p ''t'' None ''s'' ''Time in level-flight segment'',
     Variable p ''segment_range'' None ''nautical_mile'' ''Distance travelled during segment'',
     Variable p ''V'' (Some V) ''mph'' ''Velocity during segment'']"
  using assms
  by (auto simp: LevelFlight_setup_def Let_def split: Option.bind_splits)

lemma sizing_segment_names:
  assumes m: "OnDemandSizingMission_setup p stdatmo ac mission_range V_cruise V_loiter N_passengers
             time_in_hover reserve_type = Some m"
  shows "distinct (concat (map (map qualified_name \<circ> declared \<circ> model) (sz_segments m)))"
  using sizing_SomeD [OF m]
  apply (elim exE conjE)
  subgoal premises prems for fs0 fs1 fs2 fs3 fs4 fs5 wnp mtow
  proof -
    have segs: "sz_segments m = [fs0, fs1, fs2, fs3, fs4, fs5]"
      by (simp add: sz_segments_def prems(9-14))
    show ?thesis
      unfolding segs
      by (simp add: Hover_declared [OF prems(1)] LevelFlight_declared [OF prems(2)]
            Hover_declared [OF prems(3)] Hover_declared [OF prems(4)]
            LevelFlight_declared [OF prems(5)] Hover_declared [OF prems(6)] child_path_def)
  qed
  done

lemma sizing_segment_paths:
  assumes m: "OnDemandSizingMission_setup p stdatmo ac mission_range V_cruise V_loiter N_passengers
             time_in_hover reserve_type = Some m"
  shows "map (mpath \<circ> model) (sz_segments m) =
          [child_path p ''Hover'' 2, child_path p ''LevelFlight'' 3, child_path p ''Hover'' 4,
           child_path p ''Hover'' 5, child_path p ''LevelFlight'' 6, child_path p ''Hover'' 7]"
    and "map (mtype \<circ> model) (sz_segments m) =
          [''Hover'', ''LevelFlight'', ''Hover'', ''Hover'', ''LevelFlight'', ''Hover'']"
  using sizing_SomeD [OF m]
  by (auto simp: sz_segments_def Hover_SomeD LevelFlight_SomeD)

lemma qualified_names_siblings:
  assumes "i \<noteq> j"
  shows "set (qualified_names (child_path p ty i) a) \<inter> set (qualified_names (child_path p ty' j) b)
           = {}"
proof (rule ccontr)
  assume "\<not> ?thesis"
  then obtain n where a: "n \<in> set (qualified_names (child_path p ty i) a)"
    and b: "n \<in> set (qualified_names (child_path p ty' j) b)" by blast
  from qualified_names_extend(1) [OF a] obtain r where r: "fst n = p @ (ty, i) # r"
    by (auto simp: child_path_def)
  from qualified_names_extend(1) [OF b] obtain r' where "fst n = p @ (ty', j) # r'"
    by (auto simp: child_path_def)
  with r assms show False by simp
qed

lemma component_weights:
  "topvar (Rotors_setup p N s) ''W'' = Some (Variable p ''W'' (Some 0) ''lbf'' ''Rotor weight'')"
  "topvar (model (Battery_setup p C_m uef P_m n)) ''W'' =
     Some (Variable p ''W'' None ''lbf'' ''Battery weight'')"
  "topvar (Crew_setup p w k) ''W'' = Some (Variable p ''W'' None ''lbf'' ''Total weight'')"
  "topvar (SimpleOnDemandStructure_setup p mtow fr) ''W'' =
     Some (Variable p ''W'' None ''lbf'' ''Structural weight'')"
  "topvar (model (PowerSystem_setup p eta)) ''W'' =
     Some (Variable p ''W'' (Some 0) ''lbf'' ''Electrical power system weight'')"
  by (rule topvar_unique,
      simp add: Rotors_setup_def Battery_setup_def Crew_setup_def SimpleOnDemandStructure_setup_def
        PowerSystem_setup_def Let_def)+

lemma Battery_topvars:
  "topvar (model (Battery_setup p C_m uef P_m n)) ''g'' =
     Some (Variable p ''g'' None ''m/s**2'' ''Gravitational acceleration'')"
  "topvar (model (Battery_setup p C_m uef P_m n)) ''C'' =
     Some (Variable p ''C'' None ''kWh'' ''Battery capacity'')"
  "topvar (model (Battery_setup p C_m uef P_m n)) ''C_{eff}'' =
     Some (Variable p ''C_{eff}'' None ''kWh'' ''Effective battery capacity'')"
  "topvar (model (Battery_setup p C_m uef P_m n)) ''usable_energy_fraction'' =
     Some (Variable p ''usable_energy_fraction'' (Some uef) ''-''
       ''Percentage of the battery energy that can be used (without damaging battery)'')"
  "topvar (model (Battery_setup p C_m uef P_m n)) ''m'' =
     Some (Variable p ''m'' None ''kg'' ''Battery mass'')"
  "topvar (model (Battery_setup p C_m uef P_m n)) ''P_m'' =
     Some (Variable p ''P_m'' (Some P_m) ''W/kg'' ''Battery power density'')"
  "bat_P_max (Battery_setup p C_m uef P_m n) =
     Variable p ''P_{max}'' None ''kW'' ''Battery maximum power''"
  by (rule topvar_unique, simp add: Battery_setup_def Let_def)+
     (simp add: Battery_setup_def Let_def)

lemma aircraft_items:
  assumes "SimpleOnDemandAircraft_setup pa N L_D eta_cruise weight_fraction C_m N_crew n eta_electric
             = Some ac"
  shows "items (model ac) =
    [Constr (Eq (Var (Variable pa ''g'' (Some 9.807) ''m/s**2'' ''Gravitational acceleration''))
       (Var (Variable (child_path pa ''Battery'' 1) ''g'' None ''m/s**2''
          ''Gravitational acceleration''))),
     Lst (map Sub (ac_components ac)),
     Constr (Eq (Var (Variable pa ''C_{eff}'' None ''kWh'' ''Effective battery capacity''))
       (Var (Variable (child_path pa ''Battery'' 1) ''C_{eff}'' None ''kWh''
          ''Effective battery capacity''))),
     Constr (Geq (Var (Variable pa ''W_{noPassengers}'' None ''lbf'' ''Weight without passengers''))
       (py_sum (map Var
          [Variable (child_path pa ''Rotors'' 0) ''W'' (Some 0) ''lbf'' ''Rotor weight'',
           Variable (child_path pa ''Battery'' 1) ''W'' None ''lbf'' ''Battery weight'',
           Variable (child_path pa ''Crew'' 2) ''W'' None ''lbf'' ''Total weight'',
           Variable (child_path pa ''SimpleOnDemandStructure'' 3) ''W'' None ''lbf''
             ''Structural weight'',
           Variable (child_path pa ''PowerSystem'' 4) ''W'' (Some 0) ''lbf''
             ''Electrical power system weight''])))]"
    and "ac_components ac =
      [ac_rotors ac, model (ac_battery ac), ac_crew ac, ac_structure ac, model (ac_powerSystem ac)]"
    and "ac_crew ac = Crew_setup (child_path pa ''Crew'' 2) 190 N_crew"
    and "ac_structure ac = SimpleOnDemandStructure_setup (child_path pa ''SimpleOnDemandStructure'' 3)
           (Variable pa ''MTOW'' None ''lbf'' ''Takeoff weight'') weight_fraction"
  using assms
  by (auto simp: SimpleOnDemandAircraft_setup_def Let_def component_weights Battery_topvars
      split: Option.bind_splits)

lemma zero_weights_sum:
  assumes "val wr = Some 0" and "val wp = Some 0"
  shows "\<forall>\<rho>. agrees \<rho> wr \<and> agrees \<rho> wp \<longrightarrow>
            eval \<rho> (py_sum (map Var [wr, wb, wc, ws, wp])) = \<rho> wb + \<rho> wc + \<rho> ws
            \<and> holds \<rho> (Geq (Var wnp) (py_sum (map Var [wr, wb, wc, ws, wp])))
                = (\<rho> wb + \<rho> wc + \<rho> ws \<le> \<rho> wnp)"
proof (intro allI impI)
  fix \<rho>
  assume "agrees \<rho> wr \<and> agrees \<rho> wp"
  with assms have "\<rho> wr = 0" and "\<rho> wp = 0" by (simp_all add: agrees_def)
  then show "eval \<rho> (py_sum (map Var [wr, wb, wc, ws, wp])) = \<rho> wb + \<rho> wc + \<rho> ws
            \<and> holds \<rho> (Geq (Var wnp) (py_sum (map Var [wr, wb, wc, ws, wp])))
                = (\<rho> wb + \<rho> wc + \<rho> ws \<le> \<rho> wnp)"
    by (simp add: py_sum_def)
qed

lemma flatten_own: "c \<in> set (own_constraints (items m)) \<Longrightarrow> c \<in> set (flatten m)"
  by (cases m) simp

lemma flatten_child:
  "k \<in> set (children (items m)) \<Longrightarrow> c \<in> set (flatten k) \<Longrightarrow> c \<in> set (flatten m)"
  by (cases m) auto

lemma Hover_power:
  assumes "Hover_setup p W ac st t = Some seg"
  shows "\<exists>pbat pbp. topvar (model seg) ''P_{battery}'' = Some pbat
    \<and> Eq (Var pbat) (Var pbp) \<in> set (flatten (model seg))
    \<and> Leq (Var pbp) (Var (bat_P_max (ac_battery ac))) \<in> set (flatten (model seg))"
proof -
  let ?pbat = "Variable p ''P_{battery}'' None ''kW''
            ''Power drawn (from batteries) during hover segment''"
  let ?pbp = "Variable (child_path p ''BatteryPerformance'' 1) ''P'' None ''kW''
            ''Power draw during segment''"
  have 1: "topvar (model seg) ''P_{battery}'' = Some ?pbat"
    by (rule topvar_unique) (simp add: Hover_declared [OF assms])
  from assms have 2: "Eq (Var ?pbat) (Var ?pbp) \<in> set (own_constraints (items (model seg)))"
    and 3: "model (Battery_performance (child_path p ''BatteryPerformance'' 1) (ac_battery ac))
        \<in> set (children (items (model seg)))"
    by (auto simp: Hover_setup_def Let_def BatteryPerformance_topvars
          split: Option.bind_splits)
  have "Leq (Var ?pbp) (Var (bat_P_max (ac_battery ac)))
      \<in> set (flatten (model (Battery_performance (child_path p ''BatteryPerformance'' 1)
            (ac_battery ac))))"
    by (simp add: Battery_performance_def BatteryPerformance_setup_def Let_def)
  with 3 have "Leq (Var ?pbp) (Var (bat_P_max (ac_battery ac))) \<in> set (flatten (model seg))"
    by (rule flatten_child)
  with 1 flatten_own [OF 2] show ?thesis by blast
qed

lemma LevelFlight_power:
  assumes "LevelFlight_setup p W ac V = Some seg"
  shows "\<exists>pbat pbp. topvar (model seg) ''P_{battery}'' = Some pbat
    \<and> Eq (Var pbat) (Var pbp) \<in> set (flatten (model seg))
    \<and> Leq (Var pbp) (Var (bat_P_max (ac_battery ac))) \<in> set (flatten (model seg))"
proof -
  let ?pbat = "Variable p ''P_{battery}'' None ''kW''
            ''Power drawn (from batteries) during segment''"
  let ?pbp = "Variable (child_path p ''BatteryPerformance'' 0) ''P'' None ''kW''
            ''Power draw during segment''"
  have 1: "topvar (model seg) ''P_{battery}'' = Some ?pbat"
    by (rule topvar_unique) (simp add: LevelFlight_declared [OF assms])
  from assms have 2: "Eq (Var ?pbat) (Var ?pbp) \<in> set (own_constraints (items (model seg)))"
    and 3: "model (Battery_performance (child_path p ''BatteryPerformance'' 0) (ac_battery ac))
        \<in> set (children (items (model seg)))"
    by (auto simp: LevelFlight_setup_def Let_def BatteryPerformance_topvars
          split: Option.bind_splits)
  have "Leq (Var ?pbp) (Var (bat_P_max (ac_battery ac)))
      \<in> set (flatten (model (Battery_performance (child_path p ''BatteryPerformance'' 0)
            (ac_battery ac))))"
    by (simp add: Battery_performance_def BatteryPerformance_setup_def Let_def)
  with 3 have "Leq (Var ?pbp) (Var (bat_P_max (ac_battery ac))) \<in> set (flatten (model seg))"
    by (rule flatten_child)
  with 1 flatten_own [OF 2] show ?thesis by blast
qed

lemma aircraft_battery_constraints:
  assumes ac: "SimpleOnDemandAircraft_setup pa N L_D eta_cruise weight_fraction C_m N_crew n
     eta_electric = Some ac"
  shows "Eq (Var (Variable (child_path pa ''Battery'' 1) ''C_{eff}'' None ''kWh''
              ''Effective battery capacity''))
           (Mul (Var (Variable (child_path pa ''Battery'' 1) ''usable_energy_fraction'' (Some 0.8)
              ''-'' ''Percentage of the battery energy that can be used (without damaging battery)''))
             (Var (Variable (child_path pa ''Battery'' 1) ''C'' None ''kWh'' ''Battery capacity'')))
         \<in> set (own_constraints (items (model (ac_battery ac))))"
    and "Eq (Var (bat_P_max (ac_battery ac)))
           (Mul (Var (Variable (child_path pa ''Battery'' 1) ''P_m'' (Some 3000) ''W/kg''
              ''Battery power density''))
             (Var (Variable (child_path pa ''Battery'' 1) ''m'' None ''kg'' ''Battery mass'')))
         \<in> set (own_constraints (items (model (ac_battery ac))))"
    and "model (ac_battery ac) \<in> set (children (items (model ac)))"
    and "Eq (Var (ac_C_eff ac))
           (Var (Variable (child_path pa ''Battery'' 1) ''C_{eff}'' None ''kWh''
              ''Effective battery capacity''))
         \<in> set (own_constraints (items (model ac)))"
proof -
  show "Eq (Var (Variable (child_path pa ''Battery'' 1) ''C_{eff}'' None ''kWh''
              ''Effective battery capacity''))
           (Mul (Var (Variable (child_path pa ''Battery'' 1) ''usable_energy_fraction'' (Some 0.8)
              ''-'' ''Percentage of the battery energy that can be used (without damaging battery)''))
             (Var (Variable (child_path pa ''Battery'' 1) ''C'' None ''kWh'' ''Battery capacity'')))
         \<in> set (own_constraints (items (model (ac_battery ac))))"
    by (simp add: aircraft_fields(2) [OF ac] Battery_setup_def Let_def)
  show "Eq (Var (bat_P_max (ac_battery ac)))
           (Mul (Var (Variable (child_path pa ''Battery'' 1) ''P_m'' (Some 3000) ''W/kg''
              ''Battery power density''))
             (Var (Variable (child_path pa ''Battery'' 1) ''m'' None ''kg'' ''Battery mass'')))
         \<in> set (own_constraints (items (model (ac_battery ac))))"
    by (simp add: aircraft_fields(2) [OF ac] Battery_setup_def Let_def)
  show "model (ac_battery ac) \<in> set (children (items (model ac)))"
    by (simp add: aircraft_items(1) [OF ac] aircraft_items(2) [OF ac] children_Sub)
  show "Eq (Var (ac_C_eff ac))
           (Var (Variable (child_path pa ''Battery'' 1) ''C_{eff}'' None ''kWh''
              ''Effective battery capacity''))
         \<in> set (own_constraints (items (model ac)))"
    by (simp add: aircraft_items(1) [OF ac] aircraft_fields(4) [OF ac])
qed

lemma segment_in_sizing:
  assumes m: "OnDemandSizingMission_setup p stdatmo ac mission_range V_cruise V_loiter N_passengers
             time_in_hover reserve_type = Some m"
    and seg: "seg \<in> set (sz_segments m)"
  shows "model seg \<in> set (children (items (model m)))"
    and "(\<exists>q W st t. Hover_setup q W ac st t = Some seg)
         \<or> (\<exists>q W V. LevelFlight_setup q W ac V = Some seg)"
  using sizing_SomeD [OF m] seg
  by (auto simp: sz_segments_def children_append)

lemma segment_in_typical:
  assumes m: "OnDemandTypicalMission_setup p stdatmo ac mission_range V_cruise N_passengers
     time_in_hover cost_per_weight pilot_salary mechanic_salary = Some m"
    and seg: "seg \<in> set (ty_segments m)"
  shows "model seg \<in> set (children (items (model m)))"
    and "(\<exists>q W st t. Hover_setup q W ac st t = Some seg)
         \<or> (\<exists>q W V. LevelFlight_setup q W ac V = Some seg)"
  using typical_SomeD [OF m] seg
  by (auto simp: ty_segments_def children_append)

lemma segment_power:
  assumes "(\<exists>q W st t. Hover_setup q W ac st t = Some seg)
         \<or> (\<exists>q W V. LevelFlight_setup q W ac V = Some seg)"
  shows "\<exists>pbat pbp. topvar (model seg) ''P_{battery}'' = Some pbat
    \<and> Eq (Var pbat) (Var pbp) \<in> set (flatten (model seg))
    \<and> Leq (Var pbp) (Var (bat_P_max (ac_battery ac))) \<in> set (flatten (model seg))"
  using assms Hover_power LevelFlight_power by blast

subsection \<open>Symbols declared twice, seen from the missions\<close>

text \<open>
  Every \<^verbatim>\<open>Hover\<close> segment instantiates \<^verbatim>\<open>RotorsAero\<close>, whose two declarations with the
  symbol \<^verbatim>\<open>"CP"\<close> (source lines 78 and 80) are two different Variables under one owner
  path.
\<close>

lemma locally_unique_child:
  assumes "locally_unique m" and "k \<in> set (children (items m))"
  shows "locally_unique k"
  using assms by (cases m) (simp add: list_all_iff)

lemma distinct_qualified_names_D:
  "distinct (qualified_names p m) \<Longrightarrow> locally_unique m"
  "distinct (qualified_names_from p i ms) \<Longrightarrow> list_all locally_unique ms"
proof (induction p m and p i ms rule: qualified_names_qualified_names_from.induct)
  case (1 p ty q vs its)
  from "1.prems" have a: "distinct (map (\<lambda>v. (p, symbol v)) vs)"
    and b: "distinct (qualified_names_from p 0 (children its))" by simp_all
  from a have "distinct (map symbol vs)" by (simp add: distinct_map inj_on_def)
  with "1.IH" [OF b] show ?case by simp
next
  case (2 p i)
  show ?case by simp
next
  case (3 p i m ms)
  from "3.prems" have a: "distinct (qualified_names (child_path p (mtype m) i) m)"
    and b: "distinct (qualified_names_from p (Suc i) ms)" by simp_all
  from "3.IH"(1) [OF a] "3.IH"(2) [OF b] show ?case by simp
qed

lemma RotorsAero_collision:
  assumes "RotorsAero_setup p rotors flightState MT_max CL_mean_max SPL_req = Some ra"
  shows "Variable p ''CP'' None ''-'' ''Power coefficient'' \<in> set (declared ra)"
    and "Variable p ''CP'' None ''-'' ''Profile power coefficient'' \<in> set (declared ra)"
    and "\<not> distinct (map symbol (declared ra))"
  using assms
  by (auto simp: RotorsAero_setup_def Let_def split: Option.bind_splits)

lemma RotorsAero_not_unique:
  assumes "RotorsAero_setup p rotors flightState MT_max CL_mean_max SPL_req = Some ra"
  shows "\<not> locally_unique ra"
  using RotorsAero_collision(3) [OF assms] by (cases ra) simp

lemma Hover_children:
  assumes "Hover_setup p W ac st t = Some fs"
  shows "\<exists>ra. RotorsAero_setup (child_path p ''RotorsAero'' 0) (ac_rotors ac) st 0.9 1.0 100 = Some ra
     \<and> ra \<in> set (children (items (model fs)))"
  using assms
  by (auto simp: Hover_setup_def Let_def Rotors_performance_def split: Option.bind_splits)

lemma Hover_not_unique:
  assumes "Hover_setup p W ac st t = Some fs"
  shows "\<not> locally_unique (model fs)"
proof -
  from Hover_children [OF assms] obtain ra where
    ra: "RotorsAero_setup (child_path p ''RotorsAero'' 0) (ac_rotors ac) st 0.9 1.0 100 = Some ra"
    and k: "ra \<in> set (children (items (model fs)))" by blast
  from RotorsAero_not_unique [OF ra] locally_unique_child [OF _ k] show ?thesis by blast
qed

lemma sizing_first_hover:
  assumes "OnDemandSizingMission_setup p stdatmo ac mission_range V_cruise V_loiter N_passengers
             time_in_hover reserve_type = Some m"
  shows "Hover_setup (child_path p ''Hover'' 2)
      (Variable p ''W_{mission}'' None ''lbf'' ''Weight of the aircraft during the mission'')
      ac (FlightState_setup (child_path p ''FlightState'' 1) stdatmo 0) time_in_hover
        = Some (sz_fs0 m)"
    and "model (sz_fs0 m) \<in> set (children (items (model m)))"
proof -
  from sizing_SomeD [OF assms] show "Hover_setup (child_path p ''Hover'' 2)
      (Variable p ''W_{mission}'' None ''lbf'' ''Weight of the aircraft during the mission'')
      ac (FlightState_setup (child_path p ''FlightState'' 1) stdatmo 0) time_in_hover
        = Some (sz_fs0 m)"
    by (elim exE conjE) simp
  show "model (sz_fs0 m) \<in> set (children (items (model m)))"
    by (rule segment_in_sizing(1) [OF assms]) (simp add: sz_segments_def)
qed

lemma typical_first_hover:
  assumes "OnDemandTypicalMission_setup p stdatmo ac mission_range V_cruise N_passengers
     time_in_hover cost_per_weight pilot_salary mechanic_salary = Some m"
  shows "Hover_setup (child_path p ''Hover'' 2)
      (Variable p ''W_{mission}'' None ''lbf'' ''Weight of the aircraft during the mission'')
      ac (FlightState_setup (child_path p ''FlightState'' 1) stdatmo 0) time_in_hover
        = Some (ty_fs0 m)"
    and "model (ty_fs0 m) \<in> set (children (items (model m)))"
proof -
  from typical_SomeD [OF assms] show "Hover_setup (child_path p ''Hover'' 2)
      (Variable p ''W_{mission}'' None ''lbf'' ''Weight of the aircraft during the mission'')
      ac (FlightState_setup (child_path p ''FlightState'' 1) stdatmo 0) time_in_hover
        = Some (ty_fs0 m)"
    by (elim exE conjE) simp
  show "model (ty_fs0 m) \<in> set (children (items (model m)))"
    by (rule segment_in_typical(1) [OF assms]) (simp add: ty_segments_def)
qed

lemma sizing_not_unique:
  assumes "OnDemandSizingMission_setup p stdatmo ac mission_range V_cruise V_loiter N_passengers
             time_in_hover reserve_type = Some m"
  shows "\<not> locally_unique (model m)"
  using Hover_not_unique [OF sizing_first_hover(1) [OF assms]]
    locally_unique_child [OF _ sizing_first_hover(2) [OF assms]] by blast

lemma typical_not_unique:
  assumes "OnDemandTypicalMission_setup p stdatmo ac mission_range V_cruise N_passengers
     time_in_hover cost_per_weight pilot_salary mechanic_salary = Some m"
  shows "\<not> locally_unique (model m)"
  using Hover_not_unique [OF typical_first_hover(1) [OF assms]]
    locally_unique_child [OF _ typical_first_hover(2) [OF assms]] by blast

lemma sizing_collision:
  assumes "OnDemandSizingMission_setup p stdatmo ac mission_range V_cruise V_loiter N_passengers
             time_in_hover reserve_type = Some m"
  shows "\<exists>ra. ra \<in> set (children (items (model (sz_fs0 m))))
     \<and> Variable (child_path (child_path p ''Hover'' 2) ''RotorsAero'' 0) ''CP'' None ''-''
          ''Power coefficient'' \<in> set (declared ra)
     \<and> Variable (child_path (child_path p ''Hover'' 2) ''RotorsAero'' 0) ''CP'' None ''-''
          ''Profile power coefficient'' \<in> set (declared ra)"
proof -
  from Hover_children [OF sizing_first_hover(1) [OF assms]] obtain ra where
    ra: "RotorsAero_setup (child_path (child_path p ''Hover'' 2) ''RotorsAero'' 0) (ac_rotors ac)
       (FlightState_setup (child_path p ''FlightState'' 1) stdatmo 0) 0.9 1.0 100 = Some ra"
    and k: "ra \<in> set (children (items (model (sz_fs0 m))))" by blast
  from k RotorsAero_collision(1) [OF ra] RotorsAero_collision(2) [OF ra] show ?thesis by blast
qed

section \<open>The claims\<close>

text \<open>
  C2. Declaring a Variable whose local symbol already exists under the same owner path fails
  with \<open>DuplicateSymbolError\<close>; so in a registry built by declarations the qualified names,
  and with them the local symbols of each owner, are unique. \<^verbatim>\<open>RotorsAero.setup\<close> names two
  of its Variables \<^verbatim>\<open>CP\<close> (the power coefficient and the profile power coefficient): the
  model it builds has two Variables with one qualified name, and declaring its Variables
  fails with \<open>DuplicateSymbolError\<close>.
\<close>

theorem C2_duplicate_symbol:
  "((owner_path, name) \<in> set (map qualified_name registry) \<longrightarrow>
      declare_var registry owner_path name unit description v = Inl DuplicateSymbolError)
   \<and> (declare_all [] xs = Inr registry' \<longrightarrow>
        distinct (map qualified_name registry')
        \<and> (\<forall>x \<in> set registry'. \<forall>y \<in> set registry'.
              owner x = owner y \<and> symbol x = symbol y \<longrightarrow> x = y))
   \<and> (RotorsAero_setup p rotors flightState MT_max CL_mean_max SPL_req = Some ra \<longrightarrow>
        \<not> distinct (map qualified_name (declared ra))
        \<and> declare_all [] (declared ra) = Inl DuplicateSymbolError)"
proof (intro conjI impI)
  assume "(owner_path, name) \<in> set (map qualified_name registry)"
  then show "declare_var registry owner_path name unit description v = Inl DuplicateSymbolError"
    by (simp add: declare_var_def)
next
  assume ok: "declare_all [] xs = Inr registry'"
  have "distinct (map qualified_name ([] :: var list))" by simp
  then show d: "distinct (map qualified_name registry')"
    using ok by (rule declare_all_distinct)
  then have "inj_on qualified_name (set registry')"
    by (simp add: distinct_map)
  then show "\<forall>x \<in> set registry'. \<forall>y \<in> set registry'.
              owner x = owner y \<and> symbol x = symbol y \<longrightarrow> x = y"
    by (auto simp: inj_on_def qualified_name_def)
next
  assume ra: "RotorsAero_setup p rotors flightState MT_max CL_mean_max SPL_req = Some ra"
  then show "declare_all [] (declared ra) = Inl DuplicateSymbolError"
    by (rule RotorsAero_duplicate)
  from ra show "\<not> distinct (map qualified_name (declared ra))"
    by (auto simp: RotorsAero_setup_def Let_def split: Option.bind_splits)
qed

text \<open>
  The rotor performance model as every hover segment builds it: the build goes through, the
  qualified names of its Variables are not distinct, and their declaration is rejected.
\<close>

theorem C2_witness:
  "map_option (\<lambda>ra. (distinct (map qualified_name (declared ra)), declare_all [] (declared ra)))
     (RotorsAero_setup [(''RotorsAero'', 0)] (Rotors_setup [(''Rotors'', 0)] 12 0.1)
        (FlightState_setup [(''FlightState'', 0)] sea_level 0) 0.9 1 100)
   = Some (False, Inl DuplicateSymbolError)"
proof -
  obtain ra where ra: "RotorsAero_setup [(''RotorsAero'', 0)] (Rotors_setup [(''Rotors'', 0)] 12 0.1)
        (FlightState_setup [(''FlightState'', 0)] sea_level 0) 0.9 1 100 = Some ra"
    using RotorsAero_ok by blast
  with C2_duplicate_symbol [of _ _ _ _ _ _ _ _ "[(''RotorsAero'', 0)]"
         "Rotors_setup [(''Rotors'', 0)] 12 0.1"
         "FlightState_setup [(''FlightState'', 0)] sea_level 0" "0.9" 1 100 ra]
  show ?thesis by simp
qed



text \<open>
  C5. A substitution table with an entry whose target is not among the Variables of the
  flattened constraint set, or is already fixed, is rejected with
  \<open>SubstitutionTargetError\<close>, and the constraint set is then the one that was given: no
  entry of the table is applied, wherever the rejected entry stands in the table.
\<close>

theorem C5_substitution_rejected:
  "(target, x) \<in> set table \<and> (target \<notin> set (variables cs) \<or> val target \<noteq> None) \<longrightarrow>
     apply_substitutions cs table = (Some SubstitutionTargetError, cs)"
  by (auto simp: apply_substitutions_def dest!: apply_entries_rejects [of target x table cs])

text \<open>
  The battery's capacity is free and its usable energy fraction is fixed at build time: a
  table that pins both is rejected, and the capacity stays free.
\<close>

theorem C5_witness:
  "apply_substitutions (flatten (model (Battery_setup [(''Battery'', 1)] 400 0.8 3000 1)))
     [(Variable [(''Battery'', 1)] ''C'' None ''kWh'' ''Battery capacity'', 50),
      (Variable [(''Battery'', 1)] ''usable_energy_fraction'' (Some 0.8) ''-''
         ''Percentage of the battery energy that can be used (without damaging battery)'', 0.9)]
   = (Some SubstitutionTargetError,
      flatten (model (Battery_setup [(''Battery'', 1)] 400 0.8 3000 1)))"
proof -
  let ?t = "Variable [(''Battery'', 1)] ''usable_energy_fraction'' (Some 0.8) ''-''
         ''Percentage of the battery energy that can be used (without damaging battery)''"
  let ?table = "[(Variable [(''Battery'', 1)] ''C'' None ''kWh'' ''Battery capacity'', 50),
      (?t, 0.9 :: real)]"
  have "(?t, 0.9) \<in> set ?table \<and> val ?t \<noteq> None" by simp
  with C5_substitution_rejected
    [of ?t "0.9" ?table "flatten (model (Battery_setup [(''Battery'', 1)] 400 0.8 3000 1))"]
  show ?thesis by blast
qed

text \<open>
  C7. The flattened constraint list of a parent is its own constraints followed by the
  flattened lists of its children in child order; composing (a then b) then c gives the
  same flattened list, hence the same multiset, as a then (b then c); listing the items of
  a parent in another order changes neither the multiset of flattened constraints nor the
  valuations that satisfy them; and flattening in the order in which \<^verbatim>\<open>setup\<close> lists
  constraints and sub-models gives the same multiset.
\<close>

theorem C7_flatten_order_independent:
  "flatten (Model ty p vs its) = own_constraints its @ concat (map flatten (children its))
   \<and> flatten (compose p [compose q [a, b], c]) = flatten (compose p [a, compose r [b, c]])
   \<and> mset (flatten (compose p [compose q [a, b], c]))
       = mset (flatten (compose p [a, compose r [b, c]]))
   \<and> (mset its' = mset its \<longrightarrow>
        mset (flatten (Model ty p vs its')) = mset (flatten (Model ty p vs its))
        \<and> (\<forall>\<rho>. (\<forall>k \<in> set (flatten (Model ty p vs its')). holds \<rho> k)
               = (\<forall>k \<in> set (flatten (Model ty p vs its)). holds \<rho> k)))
   \<and> mset (flatten_listed m) = mset (flatten m)"
proof -
  have assoc: "flatten (compose p [compose q [a, b], c]) = flatten (compose p [a, compose r [b, c]])"
    by (simp add: flatten_compose)
  have perm: "mset (flatten (Model ty p vs its')) = mset (flatten (Model ty p vs its))
        \<and> (\<forall>\<rho>. (\<forall>k \<in> set (flatten (Model ty p vs its')). holds \<rho> k)
               = (\<forall>k \<in> set (flatten (Model ty p vs its)). holds \<rho> k))"
    if "mset its' = mset its"
  proof -
    from that have eq: "mset (flatten (Model ty p vs its')) = mset (flatten (Model ty p vs its))"
      by (rule mset_flatten_items)
    then have "set (flatten (Model ty p vs its')) = set (flatten (Model ty p vs its))"
      by (rule mset_eq_setD)
    with eq show ?thesis by simp
  qed
  from assoc perm mset_flatten_listed(1) [of m] show ?thesis by simp
qed

theorem C7_witness:
  "mset [Sub (Crew_setup [(''Crew'', 0)] 190 1), Sub (Passengers_setup [(''Passengers'', 1)] 200 1)]
     = mset [Sub (Passengers_setup [(''Passengers'', 1)] 200 1), Sub (Crew_setup [(''Crew'', 0)] 190 1)]
   \<and> mset (flatten (Model ''Model'' [] []
        [Sub (Crew_setup [(''Crew'', 0)] 190 1), Sub (Passengers_setup [(''Passengers'', 1)] 200 1)]))
     = mset (flatten (Model ''Model'' [] []
        [Sub (Passengers_setup [(''Passengers'', 1)] 200 1), Sub (Crew_setup [(''Crew'', 0)] 190 1)]))"
proof -
  have h: "mset [Sub (Crew_setup [(''Crew'', 0)] 190 1), Sub (Passengers_setup [(''Passengers'', 1)] 200 1)]
     = mset [Sub (Passengers_setup [(''Passengers'', 1)] 200 1), Sub (Crew_setup [(''Crew'', 0)] 190 1)]"
    by simp
  with C7_flatten_order_independent
    [of "''Model''" "[]" "[]"
        "[Sub (Passengers_setup [(''Passengers'', 1)] 200 1), Sub (Crew_setup [(''Crew'', 0)] 190 1)]"
        _ _ _ _ _
        "[Sub (Crew_setup [(''Crew'', 0)] 190 1), Sub (Passengers_setup [(''Passengers'', 1)] 200 1)]"]
  show ?thesis by blast
qed

text \<open>
  C1. What the build of the sizing mission (the only mission that takes a reserve policy)
  does with the flag: with \<^verbatim>\<open>"FAA"\<close> it adds exactly one reserve constraint, the fixed
  loiter duration; with \<^verbatim>\<open>"Uber"\<close> exactly one, the fixed diversion distance; never both.
  The two tests of the flag (source lines 309 to 314) have no other branch: with any
  other value the build is not refused, and the mission it returns has no reserve
  constraint where exactly one is required.
\<close>

theorem C1_reserve_by_flag:
  "SimpleOnDemandAircraft_setup pa N L_D eta_cruise weight_fraction C_m N_crew n eta_electric
     = Some ac \<longrightarrow>
   (\<exists>m. OnDemandSizingMission_setup p stdatmo ac mission_range V_cruise V_loiter N_passengers
          time_in_hover reserve_type = Some m
      \<and> length (duration_constraints m) = (if reserve_type = ''FAA'' then 1 else 0)
      \<and> length (distance_constraints m) = (if reserve_type = ''Uber'' then 1 else 0)
      \<and> length (reserve_constraints m)
          = (if reserve_type = ''FAA'' \<or> reserve_type = ''Uber'' then 1 else 0))"
proof
  assume ac: "SimpleOnDemandAircraft_setup pa N L_D eta_cruise weight_fraction C_m N_crew n
     eta_electric = Some ac"
  from sizing_ok [OF ac] obtain m where
    m: "OnDemandSizingMission_setup p stdatmo ac mission_range V_cruise V_loiter N_passengers
          time_in_hover reserve_type = Some m" by blast
  from sizing_reserve_counts [OF m]
  have "length (duration_constraints m) = (if reserve_type = ''FAA'' then 1 else 0)
      \<and> length (distance_constraints m) = (if reserve_type = ''Uber'' then 1 else 0)
      \<and> length (reserve_constraints m)
          = (if reserve_type = ''FAA'' \<or> reserve_type = ''Uber'' then 1 else 0)"
    by (auto simp: reserve_constraints_def)
  with m show "\<exists>m. OnDemandSizingMission_setup p stdatmo ac mission_range V_cruise V_loiter
          N_passengers time_in_hover reserve_type = Some m
      \<and> length (duration_constraints m) = (if reserve_type = ''FAA'' then 1 else 0)
      \<and> length (distance_constraints m) = (if reserve_type = ''Uber'' then 1 else 0)
      \<and> length (reserve_constraints m)
          = (if reserve_type = ''FAA'' \<or> reserve_type = ''Uber'' then 1 else 0)"
    by blast
qed

text \<open>
  The sizing mission of the script with the policies \<^verbatim>\<open>"FAA"\<close> and \<^verbatim>\<open>"Uber"\<close>, and with
  a flag that is neither: that mission is built, with no reserve constraint.
\<close>

theorem C1_witness:
  "map_option (\<lambda>m. (length (duration_constraints m), length (distance_constraints m),
       length (reserve_constraints m)))
     (testSizingMission sea_level ''FAA'') = Some (1, 0, 1)
   \<and> map_option (\<lambda>m. (length (duration_constraints m), length (distance_constraints m),
       length (reserve_constraints m)))
     (testSizingMission sea_level ''Uber'') = Some (0, 1, 1)
   \<and> map_option reserve_count (testSizingMission sea_level ''none'') = Some 0"
proof -
  obtain ac where ac: "testAircraft = Some ac" using testAircraft_ok by blast
  from C1_reserve_by_flag [of "[(''SimpleOnDemandAircraft'', 0)]" 12 14 "0.85" "0.3444" 400 1 1
      "0.95" ac "[(''OnDemandSizingMission'', 0)]" sea_level 200 200 100 1 120
      "''FAA''"] ac
  have faa: "map_option (\<lambda>m. (length (duration_constraints m), length (distance_constraints m),
       length (reserve_constraints m)))
     (testSizingMission sea_level ''FAA'') = Some (1, 0, 1)"
    by (auto simp: testSizingMission_def testAircraft_def)
  from C1_reserve_by_flag [of "[(''SimpleOnDemandAircraft'', 0)]" 12 14 "0.85" "0.3444" 400 1 1
      "0.95" ac "[(''OnDemandSizingMission'', 0)]" sea_level 200 200 100 1 120
      "''Uber''"] ac
  have uber: "map_option (\<lambda>m. (length (duration_constraints m), length (distance_constraints m),
       length (reserve_constraints m)))
     (testSizingMission sea_level ''Uber'') = Some (0, 1, 1)"
    by (auto simp: testSizingMission_def testAircraft_def)
  from C1_reserve_by_flag [of "[(''SimpleOnDemandAircraft'', 0)]" 12 14 "0.85" "0.3444" 400 1 1
      "0.95" ac "[(''OnDemandSizingMission'', 0)]" sea_level 200 200 100 1 120
      "''none''"] ac
  have none: "map_option reserve_count (testSizingMission sea_level ''none'') = Some 0"
    by (auto simp: testSizingMission_def testAircraft_def reserve_count_def)
  from faa uber none show ?thesis by (intro conjI)
qed

text \<open>
  C3. In the sizing mission and in the typical mission, for an aircraft built by
  \<^verbatim>\<open>SimpleOnDemandAircraft\<close>, exactly one constraint bounds a sum by the aircraft's effective
  capacity \<^verbatim>\<open>C_{eff}\<close>; it is \<^verbatim>\<open>C_{eff} >= \<close> the sum, written from the left, of the energy
  Variables of the mission's segments in their order: one addend per segment, and the
  addends are pairwise distinct Variables. The constraint holds under a valuation exactly
  when the sum of the segment energies is at most \<^verbatim>\<open>C_{eff}\<close>, so it holds for one order of
  the segments exactly when it holds for any other.
\<close>

theorem C3_energy_budget:
  "SimpleOnDemandAircraft_setup pa N L_D eta_cruise weight_fraction C_m N_crew n eta_electric
     = Some ac \<longrightarrow>
   (OnDemandSizingMission_setup p stdatmo ac mission_range V_cruise V_loiter N_passengers
      time_in_hover reserve_type = Some sz \<longrightarrow>
      budget_constraints (ac_C_eff ac) (items (model sz)) = [chain (ac_C_eff ac) (sz_segments sz)]
      \<and> addends (rhs (chain (ac_C_eff ac) (sz_segments sz))) = map (Var \<circ> seg_E) (sz_segments sz)
      \<and> distinct (map seg_E (sz_segments sz)))
   \<and> (OnDemandTypicalMission_setup p' stdatmo' ac mission_range' V_cruise' N_passengers'
      time_in_hover' cost_per_weight pilot_salary mechanic_salary = Some ty \<longrightarrow>
      budget_constraints (ac_C_eff ac) (items (model ty)) = [chain (ac_C_eff ac) (ty_segments ty)]
      \<and> addends (rhs (chain (ac_C_eff ac) (ty_segments ty))) = map (Var \<circ> seg_E) (ty_segments ty)
      \<and> distinct (map seg_E (ty_segments ty)))
   \<and> (\<forall>\<rho> tot segs segs'.
        holds \<rho> (chain tot segs) = (sum_list (map (\<lambda>s. \<rho> (seg_E s)) segs) \<le> \<rho> tot)
        \<and> (mset segs' = mset segs \<longrightarrow> holds \<rho> (chain tot segs') = holds \<rho> (chain tot segs)))"
proof (intro impI conjI allI)
  assume ac: "SimpleOnDemandAircraft_setup pa N L_D eta_cruise weight_fraction C_m N_crew n
     eta_electric = Some ac"
  {
    assume sz: "OnDemandSizingMission_setup p stdatmo ac mission_range V_cruise V_loiter
      N_passengers time_in_hover reserve_type = Some sz"
    note b = sizing_budget [OF ac sz]
    from b show "budget_constraints (ac_C_eff ac) (items (model sz))
      = [chain (ac_C_eff ac) (sz_segments sz)]" by blast
    show "addends (rhs (chain (ac_C_eff ac) (sz_segments sz))) = map (Var \<circ> seg_E) (sz_segments sz)"
      by (rule addends_chain) (simp add: sz_segments_def)
    from b distinct_energies [of p] show "distinct (map seg_E (sz_segments sz))" by simp
  }
  {
    assume ty: "OnDemandTypicalMission_setup p' stdatmo' ac mission_range' V_cruise' N_passengers'
      time_in_hover' cost_per_weight pilot_salary mechanic_salary = Some ty"
    note b = typical_budget [OF ac ty]
    from b show "budget_constraints (ac_C_eff ac) (items (model ty))
      = [chain (ac_C_eff ac) (ty_segments ty)]" by blast
    show "addends (rhs (chain (ac_C_eff ac) (ty_segments ty))) = map (Var \<circ> seg_E) (ty_segments ty)"
      by (rule addends_chain) (simp add: ty_segments_def)
    from b distinct_energies [of p'] show "distinct (map seg_E (ty_segments ty))" by simp
  }
next
  fix \<rho> tot segs segs'
  show "holds \<rho> (chain tot segs) = (sum_list (map (\<lambda>s. \<rho> (seg_E s)) segs) \<le> \<rho> tot)"
    by (rule holds_chain)
  assume "mset segs' = mset segs"
  then have "sum_list (map (\<lambda>s. \<rho> (seg_E s)) segs') = sum_list (map (\<lambda>s. \<rho> (seg_E s)) segs)"
    by (rule sum_list_permuted)
  then show "holds \<rho> (chain tot segs') = holds \<rho> (chain tot segs)"
    by (simp add: holds_chain)
qed

theorem C3_witness:
  "map_option (\<lambda>ac. map_option (\<lambda>sz.
       budget_constraints (ac_C_eff ac) (items (model sz)) = [chain (ac_C_eff ac) (sz_segments sz)]
       \<and> distinct (map seg_E (sz_segments sz)))
     (OnDemandSizingMission_setup [(''OnDemandSizingMission'', 0)] sea_level ac
        200 200 100 1 120 ''FAA'')) testAircraft
   = Some (Some True)"
proof -
  obtain ac where ac: "testAircraft = Some ac" using testAircraft_ok by blast
  then have ac': "SimpleOnDemandAircraft_setup [(''SimpleOnDemandAircraft'', 0)] 12 14 0.85 0.3444
     400 1 1 0.95 = Some ac" by (simp add: testAircraft_def)
  from sizing_ok [OF ac'] obtain sz where
    sz: "OnDemandSizingMission_setup [(''OnDemandSizingMission'', 0)] sea_level ac
          200 200 100 1 120 ''FAA'' = Some sz" by blast
  from C3_energy_budget [of "[(''SimpleOnDemandAircraft'', 0)]" 12 14 "0.85" "0.3444" 400 1 1
      "0.95" ac "[(''OnDemandSizingMission'', 0)]" sea_level 200 200 100 1 120
      "''FAA''" sz] ac' sz
  have "budget_constraints (ac_C_eff ac) (items (model sz)) = [chain (ac_C_eff ac) (sz_segments sz)]
       \<and> distinct (map seg_E (sz_segments sz))" by blast
  with sz show ?thesis unfolding ac by simp
qed

text \<open>
  C6. The Composer gives every node of a model tree its own instance path: the paths of the
  nodes are pairwise distinct, two children at different positions get different paths even
  when they have the same type, and no qualified name below one is a qualified name below
  the other. The qualified names of a whole tree are pairwise distinct exactly when every
  node declares each of its symbols once. In the sizing mission the six segments (four
  \<^verbatim>\<open>Hover\<close>, two \<^verbatim>\<open>LevelFlight\<close>) have pairwise distinct instance paths and the Variables
  they declare themselves have pairwise distinct qualified names; but the
  \<^verbatim>\<open>RotorsAero\<close> model below its first \<^verbatim>\<open>Hover\<close> segment declares two different Variables
  with one qualified name, so the qualified names of the whole tree are not pairwise
  distinct. The same holds of the typical mission.
\<close>

theorem C6_distinct_instances:
  "distinct (node_paths p m)
   \<and> (i \<noteq> j \<longrightarrow>
        child_path p ty i \<noteq> child_path p ty j
        \<and> set (qualified_names (child_path p ty i) a)
            \<inter> set (qualified_names (child_path p ty j) b) = {})
   \<and> distinct (qualified_names p m) = locally_unique m
   \<and> (OnDemandSizingMission_setup q stdatmo ac mission_range V_cruise V_loiter N_passengers
         time_in_hover reserve_type = Some sz \<longrightarrow>
        distinct (map (mpath \<circ> model) (sz_segments sz))
        \<and> distinct (concat (map (map qualified_name \<circ> declared \<circ> model) (sz_segments sz)))
        \<and> (\<exists>ra v w. ra \<in> set (children (items (model (sz_fs0 sz))))
              \<and> v \<in> set (declared ra) \<and> w \<in> set (declared ra)
              \<and> v \<noteq> w \<and> qualified_name v = qualified_name w)
        \<and> \<not> locally_unique (model sz)
        \<and> \<not> distinct (qualified_names q (model sz)))
   \<and> (OnDemandTypicalMission_setup r stdatmo ac typical_range typical_V typical_N
         typical_time cost_per_weight pilot_salary mechanic_salary = Some tm \<longrightarrow>
        \<not> locally_unique (model tm)
        \<and> \<not> distinct (qualified_names r (model tm)))"
proof (intro conjI impI)
  show "distinct (node_paths p m)" by (rule node_paths_distinct)
next
  assume "i \<noteq> j"
  then show "child_path p ty i \<noteq> child_path p ty j" by (simp add: child_path_def)
next
  assume "i \<noteq> j"
  then show "set (qualified_names (child_path p ty i) a)
            \<inter> set (qualified_names (child_path p ty j) b) = {}"
    by (rule qualified_names_siblings)
next
  show "distinct (qualified_names p m) = locally_unique m"
    using qualified_names_distinct distinct_qualified_names_D(1) by blast
next
  assume sz: "OnDemandSizingMission_setup q stdatmo ac mission_range V_cruise V_loiter
         N_passengers time_in_hover reserve_type = Some sz"
  show "distinct (map (mpath \<circ> model) (sz_segments sz))"
    unfolding sizing_segment_paths(1) [OF sz] by (simp add: child_path_def)
  show "distinct (concat (map (map qualified_name \<circ> declared \<circ> model) (sz_segments sz)))"
    using sz by (rule sizing_segment_names)
  show nu: "\<not> locally_unique (model sz)" using sz by (rule sizing_not_unique)
  show "\<not> distinct (qualified_names q (model sz))"
    using nu distinct_qualified_names_D(1) by blast
  from sizing_collision [OF sz] obtain ra where
    k: "ra \<in> set (children (items (model (sz_fs0 sz))))"
    and v: "Variable (child_path (child_path q ''Hover'' 2) ''RotorsAero'' 0) ''CP'' None ''-''
          ''Power coefficient'' \<in> set (declared ra)"
    and w: "Variable (child_path (child_path q ''Hover'' 2) ''RotorsAero'' 0) ''CP'' None ''-''
          ''Profile power coefficient'' \<in> set (declared ra)"
    by blast
  have ne: "Variable (child_path (child_path q ''Hover'' 2) ''RotorsAero'' 0) ''CP'' None ''-''
          ''Power coefficient''
     \<noteq> Variable (child_path (child_path q ''Hover'' 2) ''RotorsAero'' 0) ''CP'' None ''-''
          ''Profile power coefficient''"
    by (simp add: Variable_def)
  have eq: "qualified_name (Variable (child_path (child_path q ''Hover'' 2) ''RotorsAero'' 0)
          ''CP'' None ''-'' ''Power coefficient'')
     = qualified_name (Variable (child_path (child_path q ''Hover'' 2) ''RotorsAero'' 0)
          ''CP'' None ''-'' ''Profile power coefficient'')"
    by simp
  from k v w ne eq
  show "\<exists>ra v w. ra \<in> set (children (items (model (sz_fs0 sz))))
              \<and> v \<in> set (declared ra) \<and> w \<in> set (declared ra)
              \<and> v \<noteq> w \<and> qualified_name v = qualified_name w"
    by (intro exI conjI)
next
  assume tm: "OnDemandTypicalMission_setup r stdatmo ac typical_range typical_V typical_N
         typical_time cost_per_weight pilot_salary mechanic_salary = Some tm"
  show nu: "\<not> locally_unique (model tm)" using tm by (rule typical_not_unique)
  show "\<not> distinct (qualified_names r (model tm))"
    using nu distinct_qualified_names_D(1) by blast
qed

text \<open>
  Two hover positions, and the two missions of the script.
\<close>

theorem C6_witness:
  "(2 :: nat) \<noteq> 4 \<and> child_path [] ''Hover'' 2 \<noteq> child_path [] ''Hover'' 4
   \<and> map_option (\<lambda>sz. (distinct (map (mpath \<circ> model) (sz_segments sz)),
          locally_unique (model sz),
          distinct (qualified_names [(''OnDemandSizingMission'', 0)] (model sz))))
        (testSizingMission sea_level ''FAA'') = Some (True, False, False)
   \<and> map_option (\<lambda>tm. (locally_unique (model tm),
          distinct (qualified_names [(''OnDemandTypicalMission'', 0)] (model tm))))
        (testTypicalMission sea_level) = Some (False, False)"
proof -
  obtain ac where ac: "testAircraft = Some ac" using testAircraft_ok by blast
  then have ac': "SimpleOnDemandAircraft_setup [(''SimpleOnDemandAircraft'', 0)] 12 14 0.85 0.3444
     400 1 1 0.95 = Some ac" by (simp add: testAircraft_def)
  from sizing_ok [OF ac'] obtain sz where
    sz: "OnDemandSizingMission_setup [(''OnDemandSizingMission'', 0)] sea_level ac
          200 200 100 1 120 ''FAA'' = Some sz" by blast
  from typical_ok [OF ac'] obtain tm where
    tm: "OnDemandTypicalMission_setup [(''OnDemandTypicalMission'', 0)] sea_level ac
          100 200 1 30 112 40 30 = Some tm" by blast
  have ne: "(2 :: nat) \<noteq> 4" by simp
  from C6_distinct_instances [of "[]" _ 2 4 "''Hover''" _ _ "[(''OnDemandSizingMission'', 0)]"
      sea_level ac 200 200 100 1 120 "''FAA''" sz "[(''OnDemandTypicalMission'', 0)]"
      100 200 1 30 112 40 30 tm] sz tm ne
  have "child_path [] ''Hover'' 2 \<noteq> child_path [] ''Hover'' 4
    \<and> distinct (map (mpath \<circ> model) (sz_segments sz))
    \<and> \<not> locally_unique (model sz)
    \<and> \<not> distinct (qualified_names [(''OnDemandSizingMission'', 0)] (model sz))
    \<and> \<not> locally_unique (model tm)
    \<and> \<not> distinct (qualified_names [(''OnDemandTypicalMission'', 0)] (model tm))"
    by blast
  with sz tm show ?thesis unfolding testSizingMission_def testTypicalMission_def ac by simp
qed

text \<open>
  C8. The battery of an aircraft is built with the default usable energy fraction 0.8 and
  adds the constraint \<^verbatim>\<open>C_{eff} == usable_energy_fraction * C\<close>; the aircraft equates its
  own \<^verbatim>\<open>C_{eff}\<close> with the battery's, and both constraints are in the flattened aircraft;
  the energy budget of the sizing mission and of the typical mission is in the flattened
  mission. Every valuation that satisfies these constraints and gives the fraction its
  fixed value makes the sum of the segment energies at most 0.8 times the battery capacity
  \<^verbatim>\<open>C\<close>.
\<close>

theorem C8_usable_fraction:
  "SimpleOnDemandAircraft_setup pa N L_D eta_cruise weight_fraction C_m N_crew n eta_electric
     = Some ac \<longrightarrow>
   (\<exists>uef cb ceb.
      topvar (model (ac_battery ac)) ''usable_energy_fraction'' = Some uef \<and> val uef = Some 0.8
      \<and> topvar (model (ac_battery ac)) ''C'' = Some cb
      \<and> topvar (model (ac_battery ac)) ''C_{eff}'' = Some ceb
      \<and> Eq (Var ceb) (Mul (Var uef) (Var cb))
          \<in> set (own_constraints (items (model (ac_battery ac))))
      \<and> Eq (Var ceb) (Mul (Var uef) (Var cb)) \<in> set (flatten (model ac))
      \<and> Eq (Var (ac_C_eff ac)) (Var ceb) \<in> set (flatten (model ac))
      \<and> (OnDemandSizingMission_setup p stdatmo ac mission_range V_cruise V_loiter N_passengers
            time_in_hover reserve_type = Some sz \<longrightarrow>
          chain (ac_C_eff ac) (sz_segments sz) \<in> set (flatten (model sz)))
      \<and> (OnDemandTypicalMission_setup p' stdatmo' ac mission_range' V_cruise' N_passengers'
            time_in_hover' cost_per_weight pilot_salary mechanic_salary = Some ty \<longrightarrow>
          chain (ac_C_eff ac) (ty_segments ty) \<in> set (flatten (model ty)))
      \<and> (\<forall>\<rho> segs.
            holds \<rho> (Eq (Var ceb) (Mul (Var uef) (Var cb)))
            \<and> holds \<rho> (Eq (Var (ac_C_eff ac)) (Var ceb))
            \<and> holds \<rho> (chain (ac_C_eff ac) segs)
            \<and> agrees \<rho> uef \<longrightarrow>
            sum_list (map (\<lambda>s. \<rho> (seg_E s)) segs) \<le> 0.8 * \<rho> cb))"
proof
  assume ac: "SimpleOnDemandAircraft_setup pa N L_D eta_cruise weight_fraction C_m N_crew n
     eta_electric = Some ac"
  let ?uef = "Variable (child_path pa ''Battery'' 1) ''usable_energy_fraction'' (Some 0.8)
     ''-'' ''Percentage of the battery energy that can be used (without damaging battery)''"
  let ?cb = "Variable (child_path pa ''Battery'' 1) ''C'' None ''kWh'' ''Battery capacity''"
  let ?ceb = "Variable (child_path pa ''Battery'' 1) ''C_{eff}'' None ''kWh''
     ''Effective battery capacity''"
  note bat = aircraft_fields(2) [OF ac]
  have 1: "topvar (model (ac_battery ac)) ''usable_energy_fraction'' = Some ?uef"
    by (simp add: bat Battery_topvars)
  have 2: "val ?uef = Some 0.8" by simp
  have 3: "topvar (model (ac_battery ac)) ''C'' = Some ?cb"
    by (simp add: bat Battery_topvars)
  have 4: "topvar (model (ac_battery ac)) ''C_{eff}'' = Some ?ceb"
    by (simp add: bat Battery_topvars)
  note 5 = aircraft_battery_constraints(1) [OF ac]
  have 6: "Eq (Var ?ceb) (Mul (Var ?uef) (Var ?cb)) \<in> set (flatten (model ac))"
    using aircraft_battery_constraints(3) [OF ac] flatten_own [OF 5] by (rule flatten_child)
  have 7: "Eq (Var (ac_C_eff ac)) (Var ?ceb) \<in> set (flatten (model ac))"
    using aircraft_battery_constraints(4) [OF ac] by (rule flatten_own)
  have 8: "OnDemandSizingMission_setup p stdatmo ac mission_range V_cruise V_loiter N_passengers
            time_in_hover reserve_type = Some sz \<longrightarrow>
          chain (ac_C_eff ac) (sz_segments sz) \<in> set (flatten (model sz))"
  proof
    assume sz: "OnDemandSizingMission_setup p stdatmo ac mission_range V_cruise V_loiter
      N_passengers time_in_hover reserve_type = Some sz"
    from sizing_budget [OF ac sz]
    have "chain (ac_C_eff ac) (sz_segments sz)
        \<in> set (budget_constraints (ac_C_eff ac) (items (model sz)))" by simp
    then have "chain (ac_C_eff ac) (sz_segments sz) \<in> set (own_constraints (items (model sz)))"
      by (simp add: budget_constraints_def)
    then show "chain (ac_C_eff ac) (sz_segments sz) \<in> set (flatten (model sz))"
      by (rule flatten_own)
  qed
  have 9: "OnDemandTypicalMission_setup p' stdatmo' ac mission_range' V_cruise' N_passengers'
            time_in_hover' cost_per_weight pilot_salary mechanic_salary = Some ty \<longrightarrow>
          chain (ac_C_eff ac) (ty_segments ty) \<in> set (flatten (model ty))"
  proof
    assume ty: "OnDemandTypicalMission_setup p' stdatmo' ac mission_range' V_cruise' N_passengers'
            time_in_hover' cost_per_weight pilot_salary mechanic_salary = Some ty"
    from typical_budget [OF ac ty]
    have "chain (ac_C_eff ac) (ty_segments ty)
        \<in> set (budget_constraints (ac_C_eff ac) (items (model ty)))" by simp
    then have "chain (ac_C_eff ac) (ty_segments ty) \<in> set (own_constraints (items (model ty)))"
      by (simp add: budget_constraints_def)
    then show "chain (ac_C_eff ac) (ty_segments ty) \<in> set (flatten (model ty))"
      by (rule flatten_own)
  qed
  have 10: "\<forall>\<rho> segs.
            holds \<rho> (Eq (Var ?ceb) (Mul (Var ?uef) (Var ?cb)))
            \<and> holds \<rho> (Eq (Var (ac_C_eff ac)) (Var ?ceb))
            \<and> holds \<rho> (chain (ac_C_eff ac) segs)
            \<and> agrees \<rho> ?uef \<longrightarrow>
            sum_list (map (\<lambda>s. \<rho> (seg_E s)) segs) \<le> 0.8 * \<rho> ?cb"
  proof (intro allI impI)
    fix \<rho> segs
    assume h: "holds \<rho> (Eq (Var ?ceb) (Mul (Var ?uef) (Var ?cb)))
            \<and> holds \<rho> (Eq (Var (ac_C_eff ac)) (Var ?ceb))
            \<and> holds \<rho> (chain (ac_C_eff ac) segs)
            \<and> agrees \<rho> ?uef"
    then have u: "\<rho> ?uef = 0.8" by (simp add: agrees_def)
    from h have "sum_list (map (\<lambda>s. \<rho> (seg_E s)) segs) \<le> \<rho> (ac_C_eff ac)"
      by (simp add: holds_chain)
    also from h have "\<rho> (ac_C_eff ac) = \<rho> ?ceb" by simp
    also from h have "\<rho> ?ceb = \<rho> ?uef * \<rho> ?cb" by simp
    finally show "sum_list (map (\<lambda>s. \<rho> (seg_E s)) segs) \<le> 0.8 * \<rho> ?cb"
      unfolding u .
  qed
  show "\<exists>uef cb ceb.
      topvar (model (ac_battery ac)) ''usable_energy_fraction'' = Some uef \<and> val uef = Some 0.8
      \<and> topvar (model (ac_battery ac)) ''C'' = Some cb
      \<and> topvar (model (ac_battery ac)) ''C_{eff}'' = Some ceb
      \<and> Eq (Var ceb) (Mul (Var uef) (Var cb))
          \<in> set (own_constraints (items (model (ac_battery ac))))
      \<and> Eq (Var ceb) (Mul (Var uef) (Var cb)) \<in> set (flatten (model ac))
      \<and> Eq (Var (ac_C_eff ac)) (Var ceb) \<in> set (flatten (model ac))
      \<and> (OnDemandSizingMission_setup p stdatmo ac mission_range V_cruise V_loiter N_passengers
            time_in_hover reserve_type = Some sz \<longrightarrow>
          chain (ac_C_eff ac) (sz_segments sz) \<in> set (flatten (model sz)))
      \<and> (OnDemandTypicalMission_setup p' stdatmo' ac mission_range' V_cruise' N_passengers'
            time_in_hover' cost_per_weight pilot_salary mechanic_salary = Some ty \<longrightarrow>
          chain (ac_C_eff ac) (ty_segments ty) \<in> set (flatten (model ty)))
      \<and> (\<forall>\<rho> segs.
            holds \<rho> (Eq (Var ceb) (Mul (Var uef) (Var cb)))
            \<and> holds \<rho> (Eq (Var (ac_C_eff ac)) (Var ceb))
            \<and> holds \<rho> (chain (ac_C_eff ac) segs)
            \<and> agrees \<rho> uef \<longrightarrow>
            sum_list (map (\<lambda>s. \<rho> (seg_E s)) segs) \<le> 0.8 * \<rho> cb)"
    by (intro exI [of _ ?uef] exI [of _ ?cb] exI [of _ ?ceb] conjI)
       (fact 1 2 3 4 5 6 7 8 9 10)+
qed

text \<open>
  The aircraft and the sizing mission of the script, with capacity 100, effective capacity
  80 and 10 for each of the six segment energies.
\<close>

theorem C8_witness:
  "do {
     ac \<leftarrow> testAircraft;
     sz \<leftarrow> OnDemandSizingMission_setup [(''OnDemandSizingMission'', 0)] sea_level ac
             200 200 100 1 120 ''FAA'';
     uef \<leftarrow> topvar (model (ac_battery ac)) ''usable_energy_fraction'';
     cb \<leftarrow> topvar (model (ac_battery ac)) ''C'';
     Some (val uef = Some 0.8
       \<and> chain (ac_C_eff ac) (sz_segments sz) \<in> set (flatten (model sz))
       \<and> sum_list (map (\<lambda>s. (\<lambda>v. if symbol v = ''C'' then 100 else if symbol v = ''C_{eff}'' then 80
              else if symbol v = ''usable_energy_fraction'' then 0.8 else (10 :: real)) (seg_E s))
            (sz_segments sz))
          \<le> 0.8 * (\<lambda>v. if symbol v = ''C'' then 100 else if symbol v = ''C_{eff}'' then 80
              else if symbol v = ''usable_energy_fraction'' then 0.8 else (10 :: real)) cb)
   } = Some True"
proof -
  let ?\<rho> = "\<lambda>v. if symbol v = ''C'' then 100 else if symbol v = ''C_{eff}'' then 80
              else if symbol v = ''usable_energy_fraction'' then 0.8 else (10 :: real)"
  obtain ac where ac: "testAircraft = Some ac" using testAircraft_ok by blast
  then have ac': "SimpleOnDemandAircraft_setup [(''SimpleOnDemandAircraft'', 0)] 12 14 0.85 0.3444
     400 1 1 0.95 = Some ac" by (simp add: testAircraft_def)
  from sizing_ok [OF ac'] obtain sz where
    sz: "OnDemandSizingMission_setup [(''OnDemandSizingMission'', 0)] sea_level ac
          200 200 100 1 120 ''FAA'' = Some sz" by blast
  from C8_usable_fraction [of "[(''SimpleOnDemandAircraft'', 0)]" 12 14 "0.85" "0.3444" 400 1 1
      "0.95" ac "[(''OnDemandSizingMission'', 0)]" sea_level 200 200 100 1 120
      "''FAA''" sz] ac' sz
  obtain uef cb ceb where
    1: "topvar (model (ac_battery ac)) ''usable_energy_fraction'' = Some uef"
    and 2: "val uef = Some 0.8"
    and 3: "topvar (model (ac_battery ac)) ''C'' = Some cb"
    and 4: "topvar (model (ac_battery ac)) ''C_{eff}'' = Some ceb"
    and 5: "chain (ac_C_eff ac) (sz_segments sz) \<in> set (flatten (model sz))"
    and 6: "\<forall>\<rho> segs.
            holds \<rho> (Eq (Var ceb) (Mul (Var uef) (Var cb)))
            \<and> holds \<rho> (Eq (Var (ac_C_eff ac)) (Var ceb))
            \<and> holds \<rho> (chain (ac_C_eff ac) segs)
            \<and> agrees \<rho> uef \<longrightarrow>
            sum_list (map (\<lambda>s. \<rho> (seg_E s)) segs) \<le> 0.8 * \<rho> cb"
    by blast
  note s = topvar_SomeD(2) [OF 1] topvar_SomeD(2) [OF 3] topvar_SomeD(2) [OF 4]
  have a: "holds ?\<rho> (Eq (Var ceb) (Mul (Var uef) (Var cb)))" by (simp add: s)
  have b: "holds ?\<rho> (Eq (Var (ac_C_eff ac)) (Var ceb))"
    by (simp add: s aircraft_fields(4) [OF ac'])
  have c: "holds ?\<rho> (chain (ac_C_eff ac) (sz_segments sz))"
    using sizing_budget [OF ac' sz]
    by (simp add: holds_chain aircraft_fields(4) [OF ac'] sz_segments_def)
  have d: "agrees ?\<rho> uef" by (simp add: agrees_def 2 s)
  from 6 a b c d have "sum_list (map (\<lambda>s. ?\<rho> (seg_E s)) (sz_segments sz)) \<le> 0.8 * ?\<rho> cb"
    by blast
  with 2 5 sz show ?thesis unfolding ac by (simp add: 1 3)
qed

text \<open>
  C9. Every \<^verbatim>\<open>BatteryPerformance\<close> built for the aircraft's battery adds
  \<^verbatim>\<open>P <= battery.P_max\<close>, and the battery adds \<^verbatim>\<open>P_{max} == P_m * m\<close>, which is in the
  flattened aircraft. For every segment of the sizing mission and of the typical mission
  the flattened mission contains \<^verbatim>\<open>P_{battery} == P\<close> and \<^verbatim>\<open>P <= P_{max}\<close> for the
  segment's battery performance model, so every valuation that satisfies these and the
  battery's constraint has \<^verbatim>\<open>P_{battery} <= P_m * m\<close>.
\<close>

theorem C9_power_bound:
  "SimpleOnDemandAircraft_setup pa N L_D eta_cruise weight_fraction C_m N_crew n eta_electric
     = Some ac \<longrightarrow>
   (\<exists>pm mb.
      topvar (model (ac_battery ac)) ''P_m'' = Some pm
      \<and> topvar (model (ac_battery ac)) ''m'' = Some mb
      \<and> Eq (Var (bat_P_max (ac_battery ac))) (Mul (Var pm) (Var mb))
          \<in> set (own_constraints (items (model (ac_battery ac))))
      \<and> Eq (Var (bat_P_max (ac_battery ac))) (Mul (Var pm) (Var mb)) \<in> set (flatten (model ac))
      \<and> (\<forall>q. \<exists>pbp. topvar (model (BatteryPerformance_setup q (ac_battery ac))) ''P'' = Some pbp
            \<and> Leq (Var pbp) (Var (bat_P_max (ac_battery ac)))
                \<in> set (own_constraints (items (model (BatteryPerformance_setup q (ac_battery ac))))))
      \<and> (\<forall>m seg.
            (OnDemandSizingMission_setup p stdatmo ac mission_range V_cruise V_loiter N_passengers
               time_in_hover reserve_type = Some sz \<and> m = model sz \<and> seg \<in> set (sz_segments sz))
            \<or> (OnDemandTypicalMission_setup p' stdatmo' ac mission_range' V_cruise' N_passengers'
               time_in_hover' cost_per_weight pilot_salary mechanic_salary = Some ty
               \<and> m = model ty \<and> seg \<in> set (ty_segments ty)) \<longrightarrow>
            (\<exists>pbat pbp.
               topvar (model seg) ''P_{battery}'' = Some pbat
               \<and> Eq (Var pbat) (Var pbp) \<in> set (flatten m)
               \<and> Leq (Var pbp) (Var (bat_P_max (ac_battery ac))) \<in> set (flatten m)
               \<and> (\<forall>\<rho>. holds \<rho> (Eq (Var pbat) (Var pbp))
                     \<and> holds \<rho> (Leq (Var pbp) (Var (bat_P_max (ac_battery ac))))
                     \<and> holds \<rho> (Eq (Var (bat_P_max (ac_battery ac))) (Mul (Var pm) (Var mb)))
                     \<longrightarrow> \<rho> pbat \<le> \<rho> pm * \<rho> mb))))"
proof
  assume ac: "SimpleOnDemandAircraft_setup pa N L_D eta_cruise weight_fraction C_m N_crew n
     eta_electric = Some ac"
  let ?pm = "Variable (child_path pa ''Battery'' 1) ''P_m'' (Some 3000) ''W/kg''
              ''Battery power density''"
  let ?mb = "Variable (child_path pa ''Battery'' 1) ''m'' None ''kg'' ''Battery mass''"
  let ?pmax = "bat_P_max (ac_battery ac)"
  note bat = aircraft_fields(2) [OF ac]
  have 1: "topvar (model (ac_battery ac)) ''P_m'' = Some ?pm"
    by (simp add: bat Battery_topvars)
  have 2: "topvar (model (ac_battery ac)) ''m'' = Some ?mb"
    by (simp add: bat Battery_topvars)
  note 3 = aircraft_battery_constraints(2) [OF ac]
  have 4: "Eq (Var ?pmax) (Mul (Var ?pm) (Var ?mb)) \<in> set (flatten (model ac))"
    using aircraft_battery_constraints(3) [OF ac] flatten_own [OF 3] by (rule flatten_child)
  have 5: "\<forall>q. \<exists>pbp. topvar (model (BatteryPerformance_setup q (ac_battery ac))) ''P'' = Some pbp
            \<and> Leq (Var pbp) (Var ?pmax)
                \<in> set (own_constraints (items (model (BatteryPerformance_setup q (ac_battery ac)))))"
  proof
    fix q
    have "topvar (model (BatteryPerformance_setup q (ac_battery ac))) ''P''
        = Some (Variable q ''P'' None ''kW'' ''Power draw during segment'')"
      using BatteryPerformance_topvars(2) [of q "ac_battery ac"]
      by (simp add: Battery_performance_def)
    moreover have "Leq (Var (Variable q ''P'' None ''kW'' ''Power draw during segment''))
        (Var ?pmax)
        \<in> set (own_constraints (items (model (BatteryPerformance_setup q (ac_battery ac)))))"
      by (simp add: BatteryPerformance_setup_def Let_def)
    ultimately show "\<exists>pbp. topvar (model (BatteryPerformance_setup q (ac_battery ac))) ''P''
            = Some pbp
            \<and> Leq (Var pbp) (Var ?pmax)
                \<in> set (own_constraints (items (model (BatteryPerformance_setup q (ac_battery ac)))))"
      by blast
  qed
  have 6: "\<forall>m seg.
            (OnDemandSizingMission_setup p stdatmo ac mission_range V_cruise V_loiter N_passengers
               time_in_hover reserve_type = Some sz \<and> m = model sz \<and> seg \<in> set (sz_segments sz))
            \<or> (OnDemandTypicalMission_setup p' stdatmo' ac mission_range' V_cruise' N_passengers'
               time_in_hover' cost_per_weight pilot_salary mechanic_salary = Some ty
               \<and> m = model ty \<and> seg \<in> set (ty_segments ty)) \<longrightarrow>
            (\<exists>pbat pbp.
               topvar (model seg) ''P_{battery}'' = Some pbat
               \<and> Eq (Var pbat) (Var pbp) \<in> set (flatten m)
               \<and> Leq (Var pbp) (Var ?pmax) \<in> set (flatten m)
               \<and> (\<forall>\<rho>. holds \<rho> (Eq (Var pbat) (Var pbp))
                     \<and> holds \<rho> (Leq (Var pbp) (Var ?pmax))
                     \<and> holds \<rho> (Eq (Var ?pmax) (Mul (Var ?pm) (Var ?mb)))
                     \<longrightarrow> \<rho> pbat \<le> \<rho> ?pm * \<rho> ?mb))"
  proof (intro allI impI)
    fix m seg
    assume h: "(OnDemandSizingMission_setup p stdatmo ac mission_range V_cruise V_loiter
               N_passengers time_in_hover reserve_type = Some sz \<and> m = model sz
               \<and> seg \<in> set (sz_segments sz))
            \<or> (OnDemandTypicalMission_setup p' stdatmo' ac mission_range' V_cruise' N_passengers'
               time_in_hover' cost_per_weight pilot_salary mechanic_salary = Some ty
               \<and> m = model ty \<and> seg \<in> set (ty_segments ty))"
    then have child: "model seg \<in> set (children (items m))"
      and built: "(\<exists>q W st t. Hover_setup q W ac st t = Some seg)
         \<or> (\<exists>q W V. LevelFlight_setup q W ac V = Some seg)"
      using segment_in_sizing [of p stdatmo ac mission_range V_cruise V_loiter N_passengers
          time_in_hover reserve_type sz seg]
        segment_in_typical [of p' stdatmo' ac mission_range' V_cruise' N_passengers'
          time_in_hover' cost_per_weight pilot_salary mechanic_salary ty seg]
      by blast+
    from segment_power [OF built] obtain pbat pbp where
      a: "topvar (model seg) ''P_{battery}'' = Some pbat"
      and b: "Eq (Var pbat) (Var pbp) \<in> set (flatten (model seg))"
      and c: "Leq (Var pbp) (Var ?pmax) \<in> set (flatten (model seg))" by blast
    from child b have b': "Eq (Var pbat) (Var pbp) \<in> set (flatten m)" by (rule flatten_child)
    from child c have c': "Leq (Var pbp) (Var ?pmax) \<in> set (flatten m)" by (rule flatten_child)
    have d: "\<forall>\<rho>. holds \<rho> (Eq (Var pbat) (Var pbp))
                     \<and> holds \<rho> (Leq (Var pbp) (Var ?pmax))
                     \<and> holds \<rho> (Eq (Var ?pmax) (Mul (Var ?pm) (Var ?mb)))
                     \<longrightarrow> \<rho> pbat \<le> \<rho> ?pm * \<rho> ?mb"
      by simp
    from a b' c' d show "\<exists>pbat pbp.
               topvar (model seg) ''P_{battery}'' = Some pbat
               \<and> Eq (Var pbat) (Var pbp) \<in> set (flatten m)
               \<and> Leq (Var pbp) (Var ?pmax) \<in> set (flatten m)
               \<and> (\<forall>\<rho>. holds \<rho> (Eq (Var pbat) (Var pbp))
                     \<and> holds \<rho> (Leq (Var pbp) (Var ?pmax))
                     \<and> holds \<rho> (Eq (Var ?pmax) (Mul (Var ?pm) (Var ?mb)))
                     \<longrightarrow> \<rho> pbat \<le> \<rho> ?pm * \<rho> ?mb)"
      by blast
  qed
  show "\<exists>pm mb.
      topvar (model (ac_battery ac)) ''P_m'' = Some pm
      \<and> topvar (model (ac_battery ac)) ''m'' = Some mb
      \<and> Eq (Var ?pmax) (Mul (Var pm) (Var mb))
          \<in> set (own_constraints (items (model (ac_battery ac))))
      \<and> Eq (Var ?pmax) (Mul (Var pm) (Var mb)) \<in> set (flatten (model ac))
      \<and> (\<forall>q. \<exists>pbp. topvar (model (BatteryPerformance_setup q (ac_battery ac))) ''P'' = Some pbp
            \<and> Leq (Var pbp) (Var ?pmax)
                \<in> set (own_constraints (items (model (BatteryPerformance_setup q (ac_battery ac))))))
      \<and> (\<forall>m seg.
            (OnDemandSizingMission_setup p stdatmo ac mission_range V_cruise V_loiter N_passengers
               time_in_hover reserve_type = Some sz \<and> m = model sz \<and> seg \<in> set (sz_segments sz))
            \<or> (OnDemandTypicalMission_setup p' stdatmo' ac mission_range' V_cruise' N_passengers'
               time_in_hover' cost_per_weight pilot_salary mechanic_salary = Some ty
               \<and> m = model ty \<and> seg \<in> set (ty_segments ty)) \<longrightarrow>
            (\<exists>pbat pbp.
               topvar (model seg) ''P_{battery}'' = Some pbat
               \<and> Eq (Var pbat) (Var pbp) \<in> set (flatten m)
               \<and> Leq (Var pbp) (Var ?pmax) \<in> set (flatten m)
               \<and> (\<forall>\<rho>. holds \<rho> (Eq (Var pbat) (Var pbp))
                     \<and> holds \<rho> (Leq (Var pbp) (Var ?pmax))
                     \<and> holds \<rho> (Eq (Var ?pmax) (Mul (Var pm) (Var mb)))
                     \<longrightarrow> \<rho> pbat \<le> \<rho> pm * \<rho> mb)))"
    by (intro exI [of _ ?pm] exI [of _ ?mb] conjI) (fact 1 2 3 4 5 6)+
qed

text \<open>The cruise segment of the script's sizing mission, all quantities set to 1.\<close>

theorem C9_witness:
  "do {
     ac \<leftarrow> testAircraft;
     sz \<leftarrow> OnDemandSizingMission_setup [(''OnDemandSizingMission'', 0)] sea_level ac
             200 200 100 1 120 ''FAA'';
     pbat \<leftarrow> topvar (model (sz_fs1 sz)) ''P_{battery}'';
     pm \<leftarrow> topvar (model (ac_battery ac)) ''P_m'';
     mb \<leftarrow> topvar (model (ac_battery ac)) ''m'';
     Some (list_ex (\<lambda>c. case c of Eq (Var a) (Var b) \<Rightarrow>
               a = pbat \<and> Leq (Var b) (Var (bat_P_max (ac_battery ac))) \<in> set (flatten (model sz))
             | _ \<Rightarrow> False) (flatten (model sz))
       \<and> (\<lambda>v. 1 :: real) pbat \<le> (\<lambda>v. 1) pm * (\<lambda>v. 1) mb)
   } = Some True"
proof -
  obtain ac where ac: "testAircraft = Some ac" using testAircraft_ok by blast
  then have ac': "SimpleOnDemandAircraft_setup [(''SimpleOnDemandAircraft'', 0)] 12 14 0.85 0.3444
     400 1 1 0.95 = Some ac" by (simp add: testAircraft_def)
  from sizing_ok [OF ac'] obtain sz where
    sz: "OnDemandSizingMission_setup [(''OnDemandSizingMission'', 0)] sea_level ac
          200 200 100 1 120 ''FAA'' = Some sz" by blast
  from typical_ok [OF ac'] obtain ty where
    ty: "OnDemandTypicalMission_setup [(''OnDemandTypicalMission'', 0)] sea_level ac
          100 200 1 30 112 40 30 = Some ty" by blast
  have seg: "sz_fs1 sz \<in> set (sz_segments sz)" by (simp add: sz_segments_def)
  let ?pmax = "bat_P_max (ac_battery ac)"
  let ?bound = "\<lambda>pm mb. \<forall>m seg.
            (OnDemandSizingMission_setup [(''OnDemandSizingMission'', 0)] sea_level
               ac 200 200 100 1 120 ''FAA'' = Some sz \<and> m = model sz \<and> seg \<in> set (sz_segments sz))
            \<or> (OnDemandTypicalMission_setup [(''OnDemandTypicalMission'', 0)] sea_level
                  ac 100 200 1 30 112 40 30 = Some ty
               \<and> m = model ty
               \<and> seg \<in> set (ty_segments ty)) \<longrightarrow>
            (\<exists>pbat pbp.
               topvar (model seg) ''P_{battery}'' = Some pbat
               \<and> Eq (Var pbat) (Var pbp) \<in> set (flatten m)
               \<and> Leq (Var pbp) (Var ?pmax) \<in> set (flatten m)
               \<and> (\<forall>\<rho>. holds \<rho> (Eq (Var pbat) (Var pbp))
                     \<and> holds \<rho> (Leq (Var pbp) (Var ?pmax))
                     \<and> holds \<rho> (Eq (Var ?pmax) (Mul (Var pm) (Var mb)))
                     \<longrightarrow> \<rho> pbat \<le> \<rho> pm * \<rho> mb))"
  have "\<exists>pm mb. topvar (model (ac_battery ac)) ''P_m'' = Some pm
      \<and> topvar (model (ac_battery ac)) ''m'' = Some mb
      \<and> Eq (Var ?pmax) (Mul (Var pm) (Var mb))
          \<in> set (own_constraints (items (model (ac_battery ac))))
      \<and> Eq (Var ?pmax) (Mul (Var pm) (Var mb)) \<in> set (flatten (model ac))
      \<and> (\<forall>q. \<exists>pbp. topvar (model (BatteryPerformance_setup q (ac_battery ac))) ''P'' = Some pbp
            \<and> Leq (Var pbp) (Var ?pmax)
                \<in> set (own_constraints (items (model (BatteryPerformance_setup q (ac_battery ac))))))
      \<and> ?bound pm mb"
    by (rule C9_power_bound [of "[(''SimpleOnDemandAircraft'', 0)]" 12 14 "0.85" "0.3444" 400 1 1
      "0.95" ac "[(''OnDemandSizingMission'', 0)]" sea_level 200 200 100 1 120
      "''FAA''" sz "[(''OnDemandTypicalMission'', 0)]" sea_level 100 200 1 30 112 40 30
      ty, THEN mp, OF ac'])
  then obtain pm mb where
    1: "topvar (model (ac_battery ac)) ''P_m'' = Some pm"
    and 2: "topvar (model (ac_battery ac)) ''m'' = Some mb"
    and 3: "?bound pm mb"
    by (elim exE conjE)
  have prem: "(OnDemandSizingMission_setup [(''OnDemandSizingMission'', 0)] sea_level
               ac 200 200 100 1 120 ''FAA'' = Some sz \<and> model sz = model sz
               \<and> sz_fs1 sz \<in> set (sz_segments sz))
            \<or> (OnDemandTypicalMission_setup [(''OnDemandTypicalMission'', 0)] sea_level
                  ac 100 200 1 30 112 40 30 = Some ty
               \<and> model sz = model ty
               \<and> sz_fs1 sz \<in> set (ty_segments ty))"
    using sz seg by (intro disjI1 conjI) simp_all
  from 3 [rule_format, OF prem] obtain pbat pbp where
    4: "topvar (model (sz_fs1 sz)) ''P_{battery}'' = Some pbat"
    and 5: "Eq (Var pbat) (Var pbp) \<in> set (flatten (model sz))"
    and 6: "Leq (Var pbp) (Var ?pmax) \<in> set (flatten (model sz))"
    and 7: "\<forall>\<rho>. holds \<rho> (Eq (Var pbat) (Var pbp))
                     \<and> holds \<rho> (Leq (Var pbp) (Var ?pmax))
                     \<and> holds \<rho> (Eq (Var ?pmax) (Mul (Var pm) (Var mb)))
                     \<longrightarrow> \<rho> pbat \<le> \<rho> pm * \<rho> mb"
    by (elim exE conjE)
  have "holds (\<lambda>v. 1) (Eq (Var pbat) (Var pbp))
       \<and> holds (\<lambda>v. 1) (Leq (Var pbp) (Var ?pmax))
       \<and> holds (\<lambda>v. 1) (Eq (Var ?pmax) (Mul (Var pm) (Var mb)))"
    by simp
  with 7 [rule_format, of "\<lambda>v. 1"] have 8: "(\<lambda>v. 1 :: real) pbat \<le> (\<lambda>v. 1) pm * (\<lambda>v. 1) mb"
    by simp
  from 5 6 have 9: "list_ex (\<lambda>c. case c of Eq (Var a) (Var b) \<Rightarrow>
               a = pbat \<and> Leq (Var b) (Var ?pmax) \<in> set (flatten (model sz))
             | _ \<Rightarrow> False) (flatten (model sz))"
    unfolding list_ex_iff by (intro bexI [of _ "Eq (Var pbat) (Var pbp)"]) simp_all
  from 9 sz show ?thesis unfolding ac by (simp add: 1 2 4)
qed

text \<open>
  C10. The rotors and the power system declare their weight \<^verbatim>\<open>W\<close> with the fixed value 0
  (in \<^verbatim>\<open>lbf\<close>); the aircraft's constraint is \<^verbatim>\<open>W_{noPassengers} >= \<close> the sum of the five
  component weights, and under every valuation that gives the two fixed weights their value
  the sum is the battery, crew and structure weights alone.
\<close>

theorem C10_zero_weights:
  "SimpleOnDemandAircraft_setup pa N L_D eta_cruise weight_fraction C_m N_crew n eta_electric
     = Some ac \<longrightarrow>
   (\<exists>wr wb wc ws wp wnp.
      topvar (ac_rotors ac) ''W'' = Some wr \<and> val wr = Some 0 \<and> units wr = ''lbf''
      \<and> topvar (model (ac_powerSystem ac)) ''W'' = Some wp \<and> val wp = Some 0 \<and> units wp = ''lbf''
      \<and> topvar (model (ac_battery ac)) ''W'' = Some wb
      \<and> topvar (ac_crew ac) ''W'' = Some wc
      \<and> topvar (ac_structure ac) ''W'' = Some ws
      \<and> topvar (model ac) ''W_{noPassengers}'' = Some wnp
      \<and> Geq (Var wnp) (py_sum (map Var [wr, wb, wc, ws, wp]))
          \<in> set (own_constraints (items (model ac)))
      \<and> (\<forall>\<rho>. agrees \<rho> wr \<and> agrees \<rho> wp \<longrightarrow>
            eval \<rho> (py_sum (map Var [wr, wb, wc, ws, wp])) = \<rho> wb + \<rho> wc + \<rho> ws
            \<and> holds \<rho> (Geq (Var wnp) (py_sum (map Var [wr, wb, wc, ws, wp])))
                = (\<rho> wb + \<rho> wc + \<rho> ws \<le> \<rho> wnp)))"
proof
  assume ac: "SimpleOnDemandAircraft_setup pa N L_D eta_cruise weight_fraction C_m N_crew n
     eta_electric = Some ac"
  let ?wr = "Variable (child_path pa ''Rotors'' 0) ''W'' (Some 0) ''lbf'' ''Rotor weight''"
  let ?wb = "Variable (child_path pa ''Battery'' 1) ''W'' None ''lbf'' ''Battery weight''"
  let ?wc = "Variable (child_path pa ''Crew'' 2) ''W'' None ''lbf'' ''Total weight''"
  let ?ws = "Variable (child_path pa ''SimpleOnDemandStructure'' 3) ''W'' None ''lbf''
             ''Structural weight''"
  let ?wp = "Variable (child_path pa ''PowerSystem'' 4) ''W'' (Some 0) ''lbf''
             ''Electrical power system weight''"
  let ?wnp = "Variable pa ''W_{noPassengers}'' None ''lbf'' ''Weight without passengers''"
  have 1: "topvar (ac_rotors ac) ''W'' = Some ?wr"
    by (simp add: aircraft_fields(1) [OF ac] component_weights)
  have 2: "topvar (model (ac_powerSystem ac)) ''W'' = Some ?wp"
    by (simp add: aircraft_fields(3) [OF ac] component_weights)
  have 3: "topvar (model (ac_battery ac)) ''W'' = Some ?wb"
    by (simp add: aircraft_fields(2) [OF ac] component_weights)
  have 4: "topvar (ac_crew ac) ''W'' = Some ?wc"
    by (simp add: aircraft_items(3) [OF ac] component_weights)
  have 5: "topvar (ac_structure ac) ''W'' = Some ?ws"
    by (simp add: aircraft_items(4) [OF ac] component_weights)
  note 6 = aircraft_topvars(1) [OF ac]
  have 7: "Geq (Var ?wnp) (py_sum (map Var [?wr, ?wb, ?wc, ?ws, ?wp]))
          \<in> set (own_constraints (items (model ac)))"
    by (simp add: aircraft_items(1) [OF ac])
  have v: "val ?wr = Some 0" "val ?wp = Some 0" "units ?wr = ''lbf''" "units ?wp = ''lbf''"
    by (simp_all add: Variable_def)
  note 8 = zero_weights_sum [OF v(1) v(2), of ?wb ?wc ?ws ?wnp]
  show "\<exists>wr wb wc ws wp wnp.
      topvar (ac_rotors ac) ''W'' = Some wr \<and> val wr = Some 0 \<and> units wr = ''lbf''
      \<and> topvar (model (ac_powerSystem ac)) ''W'' = Some wp \<and> val wp = Some 0 \<and> units wp = ''lbf''
      \<and> topvar (model (ac_battery ac)) ''W'' = Some wb
      \<and> topvar (ac_crew ac) ''W'' = Some wc
      \<and> topvar (ac_structure ac) ''W'' = Some ws
      \<and> topvar (model ac) ''W_{noPassengers}'' = Some wnp
      \<and> Geq (Var wnp) (py_sum (map Var [wr, wb, wc, ws, wp]))
          \<in> set (own_constraints (items (model ac)))
      \<and> (\<forall>\<rho>. agrees \<rho> wr \<and> agrees \<rho> wp \<longrightarrow>
            eval \<rho> (py_sum (map Var [wr, wb, wc, ws, wp])) = \<rho> wb + \<rho> wc + \<rho> ws
            \<and> holds \<rho> (Geq (Var wnp) (py_sum (map Var [wr, wb, wc, ws, wp])))
                = (\<rho> wb + \<rho> wc + \<rho> ws \<le> \<rho> wnp))"
    by (intro exI [of _ ?wr] exI [of _ ?wb] exI [of _ ?wc] exI [of _ ?ws] exI [of _ ?wp]
          exI [of _ ?wnp] conjI) (fact 1 2 3 4 5 6 7 8 v)+
qed

text \<open>The aircraft of the script, every free weight set to 1000.\<close>

theorem C10_witness:
  "do {
     ac \<leftarrow> testAircraft;
     wr \<leftarrow> topvar (ac_rotors ac) ''W'';
     wb \<leftarrow> topvar (model (ac_battery ac)) ''W'';
     wc \<leftarrow> topvar (ac_crew ac) ''W'';
     ws \<leftarrow> topvar (ac_structure ac) ''W'';
     wp \<leftarrow> topvar (model (ac_powerSystem ac)) ''W'';
     Some (val wr = Some 0 \<and> val wp = Some 0
       \<and> eval (\<lambda>v. case val v of Some x \<Rightarrow> x | None \<Rightarrow> 1000)
            (py_sum (map Var [wr, wb, wc, ws, wp]))
          = (\<lambda>v. case val v of Some x \<Rightarrow> x | None \<Rightarrow> 1000) wb
            + (\<lambda>v. case val v of Some x \<Rightarrow> x | None \<Rightarrow> 1000) wc
            + (\<lambda>v. case val v of Some x \<Rightarrow> x | None \<Rightarrow> 1000) ws)
   } = Some True"
proof -
  let ?\<rho> = "\<lambda>v. case val v of Some x \<Rightarrow> x | None \<Rightarrow> (1000 :: real)"
  obtain ac where ac: "testAircraft = Some ac" using testAircraft_ok by blast
  then have ac': "SimpleOnDemandAircraft_setup [(''SimpleOnDemandAircraft'', 0)] 12 14 0.85 0.3444
     400 1 1 0.95 = Some ac" by (simp add: testAircraft_def)
  from C10_zero_weights [of "[(''SimpleOnDemandAircraft'', 0)]" 12 14 "0.85" "0.3444" 400 1 1
      "0.95" ac] ac'
  obtain wr wb wc ws wp wnp where
    1: "topvar (ac_rotors ac) ''W'' = Some wr" and 2: "val wr = Some 0"
    and 3: "topvar (model (ac_powerSystem ac)) ''W'' = Some wp" and 4: "val wp = Some 0"
    and 5: "topvar (model (ac_battery ac)) ''W'' = Some wb"
    and 6: "topvar (ac_crew ac) ''W'' = Some wc"
    and 7: "topvar (ac_structure ac) ''W'' = Some ws"
    and 8: "\<forall>\<rho>. agrees \<rho> wr \<and> agrees \<rho> wp \<longrightarrow>
            eval \<rho> (py_sum (map Var [wr, wb, wc, ws, wp])) = \<rho> wb + \<rho> wc + \<rho> ws
            \<and> holds \<rho> (Geq (Var wnp) (py_sum (map Var [wr, wb, wc, ws, wp])))
                = (\<rho> wb + \<rho> wc + \<rho> ws \<le> \<rho> wnp)"
    by blast
  have "agrees ?\<rho> wr \<and> agrees ?\<rho> wp" by (simp add: agrees_def 2 4)
  with 8 have "eval ?\<rho> (py_sum (map Var [wr, wb, wc, ws, wp])) = ?\<rho> wb + ?\<rho> wc + ?\<rho> ws"
    by blast
  with 2 4 show ?thesis unfolding ac by (simp add: 1 3 5 6 7)
qed

end
